theory Spec2Isabelle
  imports Main "HOL-Library.Sublist" "HOL-Library.Word"
begin

unbundle bit_operations_syntax

section \<open>Python values\<close>

text \<open>
  The configuration is whatever \<^verbatim>\<open>json.load\<close> returns: \<^verbatim>\<open>None\<close>, a bool, an int, a
  float, a str, a list or a dict with str keys. A dict keeps its keys in insertion order, so
  it is an association list. A Python \<^verbatim>\<open>str\<close> is a sequence of code points; the model has
  the code points U+0000 to U+00FF, one \<^typ>\<open>char\<close> each. A float is kept as mantissa and
  exponent, or as one of the special values that \<^verbatim>\<open>json.load\<close> accepts.
\<close>

datatype pyfloat = Finite int int | Infinity bool | NaN

datatype json =
    JNull
  | JBool bool
  | JInt int
  | JFloat pyfloat
  | JStr string
  | JList "json list"
  | JDict "(string \<times> json) list"

datatype py_error =
    AttributeError
  | TypeError
  | UnboundLocalError
  | EOFError
  | ValueError
  | OSError

text \<open>\<^verbatim>\<open>bool(x)\<close>, as \<^verbatim>\<open>if not x\<close> applies it.\<close>

fun truthy :: "json \<Rightarrow> bool" where
  "truthy JNull = False"
| "truthy (JBool b) = b"
| "truthy (JInt i) = (i \<noteq> 0)"
| "truthy (JFloat (Finite m e)) = (m \<noteq> 0)"
| "truthy (JFloat (Infinity s)) = True"
| "truthy (JFloat NaN) = True"
| "truthy (JStr s) = (s \<noteq> [])"
| "truthy (JList xs) = (xs \<noteq> [])"
| "truthy (JDict kvs) = (kvs \<noteq> [])"

text \<open>\<^verbatim>\<open>x.get(k, d)\<close>: only a dict has the method.\<close>

fun py_get :: "json \<Rightarrow> string \<Rightarrow> json \<Rightarrow> py_error + json" where
  "py_get (JDict kvs) k d = Inr (case map_of kvs k of None \<Rightarrow> d | Some v \<Rightarrow> v)"
| "py_get _ k d = Inl AttributeError"

text \<open>\<^verbatim>\<open>d[k] = v\<close> on a dict: an existing key keeps its place, a new key goes last.\<close>

fun dict_set :: "(string \<times> json) list \<Rightarrow> string \<Rightarrow> json \<Rightarrow> (string \<times> json) list" where
  "dict_set [] k v = [(k, v)]"
| "dict_set ((k', v') # kvs) k v = (if k' = k then (k, v) # kvs else (k', v') # dict_set kvs k v)"

fun py_setitem :: "json \<Rightarrow> string \<Rightarrow> json \<Rightarrow> py_error + json" where
  "py_setitem (JDict kvs) k v = Inr (JDict (dict_set kvs k v))"
| "py_setitem _ k v = Inl TypeError"

text \<open>\<^verbatim>\<open>x.items()\<close>: only a dict has the method.\<close>

fun py_items :: "json \<Rightarrow> py_error + (string \<times> json) list" where
  "py_items (JDict kvs) = Inr kvs"
| "py_items _ = Inl AttributeError"

text \<open>\<^verbatim>\<open>len(x)\<close>: defined on str, list and dict.\<close>

fun py_len :: "json \<Rightarrow> py_error + nat" where
  "py_len (JStr s) = Inr (length s)"
| "py_len (JList xs) = Inr (length xs)"
| "py_len (JDict kvs) = Inr (length kvs)"
| "py_len _ = Inl TypeError"

subsection \<open>String methods\<close>

text \<open>\<^verbatim>\<open>str.isspace\<close> on one code point below U+0100.\<close>

definition isspace :: "char \<Rightarrow> bool" where
  "isspace c = (of_char c \<in> {9, 10, 11, 12, 13, 28, 29, 30, 31, 32, 133, 160 :: nat})"

definition strip :: "string \<Rightarrow> string" where
  "strip s = rev (dropWhile isspace (rev (dropWhile isspace s)))"

text \<open>\<^verbatim>\<open>str.lower\<close> on one code point below U+0100: A-Z and the Latin-1 capitals move up by 32.\<close>

definition lower_char :: "char \<Rightarrow> char" where
  "lower_char c =
     (let n = of_char c :: nat
      in if (65 \<le> n \<and> n \<le> 90) \<or> (192 \<le> n \<and> n \<le> 222 \<and> n \<noteq> 215)
         then char_of (n + 32) else c)"

definition lower :: "string \<Rightarrow> string" where
  "lower s = map lower_char s"

text \<open>\<^verbatim>\<open>s[:4]\<close> and \<^verbatim>\<open>s[-4:]\<close>.\<close>

definition first4 :: "string \<Rightarrow> string" where
  "first4 s = take 4 s"

definition last4 :: "string \<Rightarrow> string" where
  "last4 s = drop (length s - 4) s"


text \<open>
  \<^verbatim>\<open>binascii.hexlify\<close>, as \<^verbatim>\<open>secrets.token_hex\<close> applies it to its random bytes: two
  lower-case hexadecimal digits for each byte, the high one first.
\<close>

definition hex_digit :: "nat \<Rightarrow> char" where
  "hex_digit n = ''0123456789abcdef'' ! n"

definition hex_byte :: "8 word \<Rightarrow> string" where
  "hex_byte b = [hex_digit (unat b div 16), hex_digit (unat b mod 16)]"

definition hexlify :: "8 word list \<Rightarrow> string" where
  "hexlify bs = concat (map hex_byte bs)"

section \<open>Printed lines\<close>

text \<open>
  Both programs report by printing. Each \<^verbatim>\<open>print\<close> of the source (the banner apart) is one
  constructor, with the values its f-string interpolates.
\<close>

datatype audit_line =
    HdrPermissions
  | WindowsDetected
  | WindowsManualCheck
  | WindowsEnsure
  | PermWorldAccessible "32 word"
  | PermFixHint string
  | PermGroupAccessible
  | PermSecure
  | HdrGateway
  | BindExposed json json
  | BindLocal json
  | BindCustom json
  | AuthDisabled
  | TokenWeak
  | TokenAuthEnabled
  | AuthOtherMode json
  | HdrChannels
  | NoChannels
  | Inspecting string
  | DmOpen
  | DmPairing
  | DmAllowlist
  | DmUnknown json
  | GroupOpen
  | GroupOther json
  | HdrSecrets
  | SecretFound string string
  | SecretRisk
  | SecretFix1
  | SecretFix2

datatype severity = PASS | INFO | WARN | FAIL | CRITICAL | QUESTION

text \<open>The bracketed tag of a printed line of the audit, where it has one.\<close>

fun severity_of :: "audit_line \<Rightarrow> severity option" where
  "severity_of (PermWorldAccessible m) = Some FAIL"
| "severity_of PermGroupAccessible = Some WARN"
| "severity_of PermSecure = Some PASS"
| "severity_of (BindExposed b p) = Some FAIL"
| "severity_of (BindLocal b) = Some PASS"
| "severity_of (BindCustom b) = Some WARN"
| "severity_of AuthDisabled = Some CRITICAL"
| "severity_of TokenWeak = Some WARN"
| "severity_of TokenAuthEnabled = Some PASS"
| "severity_of (AuthOtherMode m) = Some PASS"
| "severity_of NoChannels = Some INFO"
| "severity_of DmOpen = Some FAIL"
| "severity_of DmPairing = Some PASS"
| "severity_of DmAllowlist = Some PASS"
| "severity_of (DmUnknown p) = Some QUESTION"
| "severity_of GroupOpen = Some FAIL"
| "severity_of (GroupOther p) = Some PASS"
| "severity_of (SecretFound p m) = Some WARN"
| "severity_of _ = None"

text \<open>The lines that report a finding: no header, hint or advice line.\<close>

definition findings :: "audit_line list \<Rightarrow> audit_line list" where
  "findings ls = filter (\<lambda>l. severity_of l \<noteq> None) ls"

text \<open>The lines of the hardener; the \<open>Ask\<close> lines are the prompts that \<^verbatim>\<open>input\<close> writes.\<close>

datatype harden_line =
    ConfigNotFound string
  | ErrorReadingJson
  | ConfigSaved
  | ErrorSaving
  | BackupCreated string
  | BackupFailed
  | FixPermissionsHeader
  | WindowsSkipChmod
  | WindowsRestrictManually
  | TooPermissive
  | AskFixPermissions
  | PermissionsUpdated
  | PermissionsAlreadySecure
  | FixGatewayHeader
  | GatewayExposed json
  | AskChangeBind
  | BindSetLoopback
  | AuthIsDisabled
  | AskEnableToken
  | AuthModeEnabled
  | StrongTokenGenerated string
  | TokenIsWeak
  | AskRotateToken
  | TokenRotated string
  | FixChannelsHeader
  | DmPolicyOpen string
  | AskChangeDm string
  | DmPolicySet string
  | Target string
  | AbortingBackupFailure
  | ApplyingChanges
  | DryRunWouldSave
  | RestartNote
  | RestartCommand
  | NoChangesNeeded

section \<open>The environment\<close>

text \<open>
  What the programs read and change outside the configuration value: the platform name, the
  files (content and \<^verbatim>\<open>st_mode\<close>), the lines still to be read from standard input (none left
  is end of file), the lines printed so far, and the bytes the system's random source will
  deliver. The library calls whose code is not in the repository are fields too: the JSON
  codec (\<^verbatim>\<open>json.load\<close> gives \<open>None\<close> where it raises), \<^verbatim>\<open>Path.resolve\<close> and
  \<^verbatim>\<open>Path.with_suffix\<close>, and whether the operating system lets a copy, an open for reading,
  an open for writing or a chmod succeed.
\<close>

record fsfile =
  content :: string
  st_mode :: "32 word"

record world =
  platform_system :: string
  fs :: "string \<rightharpoonup> fsfile"
  stdin :: "string list"
  stdout :: "harden_line list"
  urandom :: "nat \<Rightarrow> 8 word"
  json_load :: "string \<Rightarrow> json option"
  json_dump :: "json \<Rightarrow> string"
  resolve :: "string \<Rightarrow> string"
  with_suffix :: "string \<Rightarrow> string \<Rightarrow> py_error + string"
  copy2_fails :: bool
  open_read_fails :: bool
  open_write_fails :: bool
  chmod_fails :: bool

text \<open>\<^verbatim>\<open>stat.S_IRWXO\<close> = 0o007, \<^verbatim>\<open>stat.S_IRWXG\<close> = 0o070, and the mode 0o600.\<close>

definition S_IRWXO :: "32 word" where
  "S_IRWXO = 7"

definition S_IRWXG :: "32 word" where
  "S_IRWXG = 56"

definition mode_0o600 :: "32 word" where
  "mode_0o600 = 384"

text \<open>\<^verbatim>\<open>stat.S_IMODE\<close>: the twelve bits that chmod sets, 0o7777.\<close>

definition S_IMODE :: "32 word \<Rightarrow> 32 word" where
  "S_IMODE m = m AND 4095"

section \<open>audit.py\<close>

text \<open>
  A check prints lines and then returns or raises; what was printed before an exception
  stays printed.
\<close>

type_synonym 'a audit = "audit_line list \<times> (py_error + 'a)"

definition abind :: "'a audit \<Rightarrow> ('a \<Rightarrow> 'b audit) \<Rightarrow> 'b audit" where
  "abind m f =
     (case m of
        (out, Inl e) \<Rightarrow> (out, Inl e)
      | (out, Inr x) \<Rightarrow> (case f x of (out', r) \<Rightarrow> (out @ out', r)))"

definition aprint :: "audit_line list \<Rightarrow> unit audit" where
  "aprint ls = (ls, Inr ())"

definition aval :: "py_error + 'a \<Rightarrow> 'a audit" where
  "aval r = ([], r)"

subsection \<open>check_file_permissions\<close>

definition check_file_permissions :: "world \<Rightarrow> string \<Rightarrow> bool audit" where
  "check_file_permissions w path =
     abind (aprint [HdrPermissions]) (\<lambda>_.
     if platform_system w = ''Windows''
     then abind (aprint [WindowsDetected, WindowsManualCheck, WindowsEnsure]) (\<lambda>_. aval (Inr True))
     else abind (aval (case fs w path of None \<Rightarrow> Inl OSError | Some f \<Rightarrow> Inr f)) (\<lambda>st.
       let mode = st_mode st
       in if mode AND S_IRWXO \<noteq> 0
          then abind (aprint [PermWorldAccessible mode, PermFixHint path]) (\<lambda>_. aval (Inr False))
          else abind (if mode AND S_IRWXG \<noteq> 0
                      then aprint [PermGroupAccessible]
                      else aprint [PermSecure]) (\<lambda>_. aval (Inr True))))"

subsection \<open>check_gateway\<close>

definition check_gateway :: "json \<Rightarrow> unit audit" where
  "check_gateway config =
     abind (aprint [HdrGateway]) (\<lambda>_.
     abind (aval (py_get config ''gateway'' (JDict []))) (\<lambda>gateway.
     abind (aval (py_get gateway ''bind'' (JStr ''loopback''))) (\<lambda>bind.
     abind (aval (py_get gateway ''port'' (JStr ''unknown''))) (\<lambda>port.
     abind (aprint
        [if bind \<in> set [JStr ''0.0.0.0'', JStr ''all'', JStr ''::''] then BindExposed bind port
         else if bind \<in> set [JStr ''loopback'', JStr ''localhost'', JStr ''127.0.0.1'']
         then BindLocal bind
         else BindCustom bind]) (\<lambda>_.
     abind (aval (py_get gateway ''auth'' (JDict []))) (\<lambda>auth.
     abind (aval (py_get auth ''mode'' (JStr ''token''))) (\<lambda>mode.
     if mode = JStr ''none'' then aprint [AuthDisabled]
     else if mode = JStr ''token''
     then abind (aval (py_get auth ''token'' (JStr []))) (\<lambda>token.
          abind (aval (py_len token)) (\<lambda>n.
          if n < 16 then aprint [TokenWeak] else aprint [TokenAuthEnabled]))
     else aprint [AuthOtherMode mode])))))))"

subsection \<open>check_channels\<close>

text \<open>The body of the loop, for one channel.\<close>

definition check_channel :: "string \<Rightarrow> json \<Rightarrow> unit audit" where
  "check_channel name settings =
     abind (aval (py_get settings ''enabled'' (JBool False))) (\<lambda>enabled.
     if \<not> truthy enabled then aval (Inr ())
     else
       abind (aprint [Inspecting name]) (\<lambda>_.
       abind (aval (py_get settings ''dmPolicy'' (JStr ''pairing''))) (\<lambda>dm_policy.
       abind (aprint
          [if dm_policy = JStr ''open'' then DmOpen
           else if dm_policy = JStr ''pairing'' then DmPairing
           else if dm_policy = JStr ''allowlist'' then DmAllowlist
           else DmUnknown dm_policy]) (\<lambda>_.
       abind (aval (py_get settings ''groupPolicy'' (JStr ''allowlist''))) (\<lambda>group_policy.
       aprint [if group_policy = JStr ''open'' then GroupOpen else GroupOther group_policy])))))"

fun check_channels_loop :: "(string \<times> json) list \<Rightarrow> unit audit" where
  "check_channels_loop [] = ([], Inr ())"
| "check_channels_loop ((name, settings) # rest) =
     (case check_channel name settings of
        (out, Inl e) \<Rightarrow> (out, Inl e)
      | (out, Inr u) \<Rightarrow> (case check_channels_loop rest of (out', r) \<Rightarrow> (out @ out', r)))"

definition check_channels :: "json \<Rightarrow> unit audit" where
  "check_channels config =
     abind (aprint [HdrChannels]) (\<lambda>_.
     abind (aval (py_get config ''channels'' (JDict []))) (\<lambda>channels.
     if \<not> truthy channels then aprint [NoChannels]
     else abind (aval (py_items channels)) check_channels_loop))"

subsection \<open>check_secrets\<close>

definition suspicious_prefixes :: "string list" where
  "suspicious_prefixes = [''sk-'', ''AIza'', ''xoxb-'', ''xoxp-'', ''ghp_'']"

definition masked :: "string \<Rightarrow> string" where
  "masked node = first4 node @ ''...'' @ last4 node"

text \<open>
  The body of \<^verbatim>\<open>if node.startswith(prefix)\<close>: four lines are printed, then the fifth
  \<^verbatim>\<open>print\<close> evaluates \<^verbatim>\<open>k.upper()\<close>. \<^verbatim>\<open>k\<close> is a local variable of \<^verbatim>\<open>walk_json\<close>
  (the target of the loop in its dict branch), and the frame that runs this body is the frame
  of a str node, which never entered that loop: reading \<^verbatim>\<open>k\<close> raises
  \<^verbatim>\<open>UnboundLocalError\<close> before the fifth line is printed.
\<close>

definition report_secret :: "string \<Rightarrow> string \<Rightarrow> unit audit" where
  "report_secret node path =
     (let m = masked node
      in abind (aprint [SecretFound path m, SecretRisk, SecretFix1, SecretFix2]) (\<lambda>_.
         aval (Inl UnboundLocalError)))"

text \<open>\<^verbatim>\<open>for prefix in suspicious_prefixes\<close>: no \<^verbatim>\<open>break\<close>, an exception ends it.\<close>

fun scan_prefixes :: "string list \<Rightarrow> string \<Rightarrow> string \<Rightarrow> unit audit" where
  "scan_prefixes [] node path = ([], Inr ())"
| "scan_prefixes (p # ps) node path =
     (if prefix p node
      then (case report_secret node path of
              (out, Inl e) \<Rightarrow> (out, Inl e)
            | (out, Inr u) \<Rightarrow>
                (case scan_prefixes ps node path of (out', r) \<Rightarrow> (out @ out', r)))
      else scan_prefixes ps node path)"

text \<open>
  \<^verbatim>\<open>walk_json\<close>: a dict is walked in key order, a str is tested, every other node (a list
  too) is passed over.
\<close>

fun walk_json :: "json \<Rightarrow> string \<Rightarrow> unit audit"
  and walk_items :: "(string \<times> json) list \<Rightarrow> string \<Rightarrow> unit audit" where
  "walk_json (JDict kvs) path = walk_items kvs path"
| "walk_json (JStr node) path = scan_prefixes suspicious_prefixes node path"
| "walk_json JNull path = ([], Inr ())"
| "walk_json (JBool b) path = ([], Inr ())"
| "walk_json (JInt i) path = ([], Inr ())"
| "walk_json (JFloat f) path = ([], Inr ())"
| "walk_json (JList xs) path = ([], Inr ())"
| "walk_items [] path = ([], Inr ())"
| "walk_items ((k, v) # kvs) path =
     (case walk_json v (if path \<noteq> [] then path @ ''.'' @ k else k) of
        (out, Inl e) \<Rightarrow> (out, Inl e)
      | (out, Inr u) \<Rightarrow> (case walk_items kvs path of (out', r) \<Rightarrow> (out @ out', r)))"

definition check_secrets :: "json \<Rightarrow> unit audit" where
  "check_secrets config = abind (aprint [HdrSecrets]) (\<lambda>_. walk_json config [])"

text \<open>A string the scanner detects: it starts with one of the prefixes.\<close>

definition detected :: "string \<Rightarrow> bool" where
  "detected node = list_ex (\<lambda>p. prefix p node) suspicious_prefixes"

text \<open>\<^verbatim>\<open>isinstance(x, dict)\<close>.\<close>

fun is_dict :: "json \<Rightarrow> bool" where
  "is_dict (JDict kvs) = True"
| "is_dict _ = False"

section \<open>harden.py\<close>

text \<open>
  A step of the hardener runs in the environment and returns a value or raises; the
  environment it leaves behind is kept in both cases, since a chmod or a printed line is not
  undone by a later exception.
\<close>

type_synonym 'a harden = "world \<Rightarrow> (py_error + 'a) \<times> world"

definition hbind :: "'a harden \<Rightarrow> ('a \<Rightarrow> 'b harden) \<Rightarrow> 'b harden" where
  "hbind m f = (\<lambda>w. case m w of (Inl e, w') \<Rightarrow> (Inl e, w') | (Inr x, w') \<Rightarrow> f x w')"

definition hreturn :: "'a \<Rightarrow> 'a harden" where
  "hreturn x = (\<lambda>w. (Inr x, w))"

definition hval :: "py_error + 'a \<Rightarrow> 'a harden" where
  "hval r = (\<lambda>w. (r, w))"

definition hprint :: "harden_line \<Rightarrow> unit harden" where
  "hprint l = (\<lambda>w. (Inr (), w\<lparr>stdout := stdout w @ [l]\<rparr>))"

text \<open>
  \<^verbatim>\<open>input(prompt).strip().lower()\<close>: the prompt is written, one line is read, and at end of
  file \<^verbatim>\<open>input\<close> raises \<^verbatim>\<open>EOFError\<close>.
\<close>

definition input_choice :: "harden_line \<Rightarrow> string harden" where
  "input_choice prompt =
     hbind (hprint prompt) (\<lambda>_ w.
       case stdin w of
         [] \<Rightarrow> (Inl EOFError, w)
       | l # ls \<Rightarrow> (Inr (lower (strip l)), w\<lparr>stdin := ls\<rparr>))"

text \<open>\<^verbatim>\<open>secrets.token_hex(n)\<close>: the next n bytes of the random source, in hexadecimal.\<close>

definition token_hex :: "nat \<Rightarrow> string harden" where
  "token_hex n = (\<lambda>w. (Inr (hexlify (map (urandom w) [0..<n])),
                        w\<lparr>urandom := (\<lambda>i. urandom w (i + n))\<rparr>))"

text \<open>\<^verbatim>\<open>os.stat\<close>, \<^verbatim>\<open>os.chmod\<close> (it replaces the twelve mode bits) and \<^verbatim>\<open>shutil.copy2\<close>
  (content and mode; it refuses to copy a file onto itself).\<close>

definition os_stat :: "string \<Rightarrow> fsfile harden" where
  "os_stat path = (\<lambda>w. case fs w path of None \<Rightarrow> (Inl OSError, w) | Some f \<Rightarrow> (Inr f, w))"

definition os_chmod :: "string \<Rightarrow> 32 word \<Rightarrow> unit harden" where
  "os_chmod path m = (\<lambda>w.
     if chmod_fails w then (Inl OSError, w)
     else case fs w path of
            None \<Rightarrow> (Inl OSError, w)
          | Some f \<Rightarrow>
              (Inr (), w\<lparr>fs := (fs w)(path \<mapsto> f\<lparr>st_mode := (st_mode f AND NOT 4095) OR (m AND 4095)\<rparr>)\<rparr>))"

definition copy2 :: "string \<Rightarrow> string \<Rightarrow> unit harden" where
  "copy2 src dst = (\<lambda>w.
     if copy2_fails w \<or> src = dst then (Inl OSError, w)
     else case fs w src of
            None \<Rightarrow> (Inl OSError, w)
          | Some f \<Rightarrow> (Inr (), w\<lparr>fs := (fs w)(dst \<mapsto> f)\<rparr>))"

text \<open>The lines that \<^verbatim>\<open>input\<close> writes: after each of them the program waits for an answer.\<close>

fun is_prompt :: "harden_line \<Rightarrow> bool" where
  "is_prompt AskFixPermissions = True"
| "is_prompt AskChangeBind = True"
| "is_prompt AskEnableToken = True"
| "is_prompt AskRotateToken = True"
| "is_prompt (AskChangeDm name) = True"
| "is_prompt _ = False"

subsection \<open>load_config, save_config, backup_config\<close>

text \<open>The pair \<^verbatim>\<open>(None, None)\<close> is \<open>None\<close>; every exception of the read is caught.\<close>

definition load_config :: "string \<Rightarrow> (json \<times> string) option harden" where
  "load_config config_path = (\<lambda>w.
     let path = resolve w config_path
     in case fs w path of
          None \<Rightarrow> hbind (hprint (ConfigNotFound path)) (\<lambda>_. hreturn None) w
        | Some f \<Rightarrow>
            (if open_read_fails w then hbind (hprint ErrorReadingJson) (\<lambda>_. hreturn None) w
             else case json_load w (content f) of
                    None \<Rightarrow> hbind (hprint ErrorReadingJson) (\<lambda>_. hreturn None) w
                  | Some config \<Rightarrow> hreturn (Some (config, path)) w))"

text \<open>
  \<^verbatim>\<open>open(path, 'w')\<close> and \<^verbatim>\<open>json.dump\<close>: the file keeps its mode and gets the new text (a
  file that did not exist would be created, as a regular file of mode 0o644). Every exception
  is caught.
\<close>

definition save_config :: "json \<Rightarrow> string \<Rightarrow> bool harden" where
  "save_config config path = (\<lambda>w.
     if open_write_fails w then hbind (hprint ErrorSaving) (\<lambda>_. hreturn False) w
     else
       let text = json_dump w config;
           f = (case fs w path of
                  None \<Rightarrow> \<lparr>content = text, st_mode = 33188\<rparr>
                | Some f \<Rightarrow> f\<lparr>content := text\<rparr>)
       in hbind (hprint ConfigSaved) (\<lambda>_. hreturn True) (w\<lparr>fs := (fs w)(path \<mapsto> f)\<rparr>))"

text \<open>\<^verbatim>\<open>with_suffix\<close> is called before the \<^verbatim>\<open>try\<close>; every exception of the copy is caught.\<close>

definition backup_config :: "string \<Rightarrow> bool harden" where
  "backup_config path =
     hbind (\<lambda>w. (with_suffix w path ''.json.bak.security'', w)) (\<lambda>backup_path w.
       case copy2 path backup_path w of
         (Inl e, w') \<Rightarrow> hbind (hprint BackupFailed) (\<lambda>_. hreturn False) w
       | (Inr u, w') \<Rightarrow> hbind (hprint (BackupCreated backup_path)) (\<lambda>_. hreturn True) w')"

subsection \<open>fix_permissions\<close>

definition fix_permissions :: "string \<Rightarrow> bool harden" where
  "fix_permissions path =
     hbind (hprint FixPermissionsHeader) (\<lambda>_ w.
       if platform_system w = ''Windows''
       then hbind (hprint WindowsSkipChmod) (\<lambda>_.
            hbind (hprint WindowsRestrictManually) (\<lambda>_. hreturn False)) w
       else
         hbind (os_stat path) (\<lambda>st.
           let mode = st_mode st
           in if mode AND S_IRWXO \<noteq> 0 \<or> mode AND S_IRWXG \<noteq> 0
              then hbind (hprint TooPermissive) (\<lambda>_.
                   hbind (input_choice AskFixPermissions) (\<lambda>choice.
                   if choice \<noteq> ''n''
                   then hbind (os_chmod path mode_0o600) (\<lambda>_.
                        hbind (hprint PermissionsUpdated) (\<lambda>_. hreturn True))
                   else hreturn False))
              else hbind (hprint PermissionsAlreadySecure) (\<lambda>_. hreturn False)) w)"

subsection \<open>fix_gateway\<close>

text \<open>
  The three parts of \<^verbatim>\<open>fix_gateway\<close>. The source mutates the dicts in place and stores
  them back when \<^verbatim>\<open>changed\<close> is set; here each part returns the gateway dict it leaves and
  the flag.
\<close>

definition fix_bind :: "json \<Rightarrow> (json \<times> bool) harden" where
  "fix_bind gateway =
     hbind (hval (py_get gateway ''bind'' (JStr ''loopback''))) (\<lambda>bind.
     if bind \<in> set [JStr ''0.0.0.0'', JStr ''all'', JStr ''::'']
     then hbind (hprint (GatewayExposed bind)) (\<lambda>_.
          hbind (input_choice AskChangeBind) (\<lambda>choice.
          if choice \<noteq> ''n''
          then hbind (hval (py_setitem gateway ''bind'' (JStr ''loopback''))) (\<lambda>gateway'.
               hbind (hprint BindSetLoopback) (\<lambda>_. hreturn (gateway', True)))
          else hreturn (gateway, False)))
     else hreturn (gateway, False))"

definition fix_auth :: "json \<Rightarrow> bool \<Rightarrow> (json \<times> bool) harden" where
  "fix_auth gateway changed =
     hbind (hval (py_get gateway ''auth'' (JDict []))) (\<lambda>auth.
     hbind (hval (py_get auth ''mode'' (JStr ''token''))) (\<lambda>mode.
     if mode = JStr ''none''
     then hbind (hprint AuthIsDisabled) (\<lambda>_.
          hbind (input_choice AskEnableToken) (\<lambda>choice.
          if choice \<noteq> ''n''
          then hbind (token_hex 32) (\<lambda>new_token.
               hbind (hval (py_setitem auth ''mode'' (JStr ''token''))) (\<lambda>auth1.
               hbind (hval (py_setitem auth1 ''token'' (JStr new_token))) (\<lambda>auth2.
               hbind (hval (py_setitem gateway ''auth'' auth2)) (\<lambda>gateway'.
               hbind (hprint AuthModeEnabled) (\<lambda>_.
               hbind (hprint (StrongTokenGenerated new_token)) (\<lambda>_.
               hreturn (gateway', True)))))))
          else hreturn (gateway, changed)))
     else if mode = JStr ''token''
     then hbind (hval (py_get auth ''token'' (JStr []))) (\<lambda>token.
          hbind (hval (py_len token)) (\<lambda>n.
          if n < 16
          then hbind (hprint TokenIsWeak) (\<lambda>_.
               hbind (input_choice AskRotateToken) (\<lambda>choice.
               if choice \<noteq> ''n''
               then hbind (token_hex 32) (\<lambda>new_token.
                    hbind (hval (py_setitem auth ''token'' (JStr new_token))) (\<lambda>auth1.
                    hbind (hval (py_setitem gateway ''auth'' auth1)) (\<lambda>gateway'.
                    hbind (hprint (TokenRotated new_token)) (\<lambda>_.
                    hreturn (gateway', True)))))
               else hreturn (gateway, changed)))
          else hreturn (gateway, changed)))
     else hreturn (gateway, changed)))"

text \<open>The result is the flag \<^verbatim>\<open>changed\<close> and the configuration as the call leaves it.\<close>

definition fix_gateway :: "json \<Rightarrow> (bool \<times> json) harden" where
  "fix_gateway config =
     hbind (hprint FixGatewayHeader) (\<lambda>_.
     hbind (hval (py_get config ''gateway'' (JDict []))) (\<lambda>gateway.
     hbind (fix_bind gateway) (\<lambda>(gateway1, changed1).
     hbind (fix_auth gateway1 changed1) (\<lambda>(gateway2, changed2).
     if changed2
     then hbind (hval (py_setitem config ''gateway'' gateway2)) (\<lambda>config'.
          hreturn (True, config'))
     else hreturn (False, config)))))"

subsection \<open>fix_channels\<close>

text \<open>The body of the loop, for one channel: the settings it leaves and whether it changed them.\<close>

definition fix_channel :: "string \<Rightarrow> json \<Rightarrow> (json \<times> bool) harden" where
  "fix_channel name settings =
     hbind (hval (py_get settings ''enabled'' (JBool False))) (\<lambda>enabled.
     if \<not> truthy enabled then hreturn (settings, False)
     else
       hbind (hval (py_get settings ''dmPolicy'' (JStr ''pairing''))) (\<lambda>dm_policy.
       if dm_policy = JStr ''open''
       then hbind (hprint (DmPolicyOpen name)) (\<lambda>_.
            hbind (input_choice (AskChangeDm name)) (\<lambda>choice.
            if choice \<noteq> ''n''
            then hbind (hval (py_setitem settings ''dmPolicy'' (JStr ''pairing''))) (\<lambda>settings'.
                 hbind (hprint (DmPolicySet name)) (\<lambda>_. hreturn (settings', True)))
            else hreturn (settings, False)))
       else hreturn (settings, False)))"

text \<open>
  \<^verbatim>\<open>for name, settings in channels.items()\<close>: the settings dict of a channel is updated
  where it stands, so the channels keep their order.
\<close>

fun fix_channels_loop :: "(string \<times> json) list \<Rightarrow> world \<Rightarrow> (py_error + (string \<times> json) list \<times> bool) \<times> world" where
  "fix_channels_loop [] w = (Inr ([], False), w)"
| "fix_channels_loop ((name, settings) # rest) w =
     (case fix_channel name settings w of
        (Inl e, w') \<Rightarrow> (Inl e, w')
      | (Inr (settings', c), w') \<Rightarrow>
          (case fix_channels_loop rest w' of
             (Inl e, w'') \<Rightarrow> (Inl e, w'')
           | (Inr (rest', c'), w'') \<Rightarrow> (Inr ((name, settings') # rest', c \<or> c'), w'')))"

definition fix_channels :: "json \<Rightarrow> (bool \<times> json) harden" where
  "fix_channels config =
     hbind (hprint FixChannelsHeader) (\<lambda>_.
     hbind (hval (py_get config ''channels'' (JDict []))) (\<lambda>channels.
     if \<not> truthy channels then hreturn (False, config)
     else
       hbind (hval (py_items channels)) (\<lambda>items.
       hbind (fix_channels_loop items) (\<lambda>(items', changed).
       if changed
       then hbind (hval (py_setitem config ''channels'' (JDict items'))) (\<lambda>config'.
            hreturn (True, config'))
       else hreturn (False, config)))))"

subsection \<open>main\<close>

record args =
  arg_config :: string
  arg_dry_run :: bool

definition main :: "args \<Rightarrow> unit harden" where
  "main a =
     hbind (load_config (arg_config a)) (\<lambda>loaded.
     case loaded of
       None \<Rightarrow> hreturn ()
     | Some (config, path) \<Rightarrow>
         if \<not> truthy config then hreturn ()
         else
           hbind (hprint (Target path)) (\<lambda>_.
           hbind (if \<not> arg_dry_run a then backup_config path else hreturn True) (\<lambda>backed_up.
           if \<not> backed_up then hprint AbortingBackupFailure
           else
             hbind (fix_permissions path) (\<lambda>_.
             hbind (fix_gateway config) (\<lambda>(changed1, config1).
             hbind (fix_channels config1) (\<lambda>(changed2, config2).
             if changed1 \<or> changed2
             then hbind (hprint ApplyingChanges) (\<lambda>_.
                  if arg_dry_run a then hprint DryRunWouldSave
                  else hbind (save_config config2 path) (\<lambda>_.
                       hbind (hprint RestartNote) (\<lambda>_. hprint RestartCommand)))
             else hprint NoChangesNeeded))))))"

section \<open>An environment to run the programs in\<close>

text \<open>
  A POSIX machine where no system call fails: the given files, the given lines on standard
  input, a random source that counts up from zero, a codec that reads the text \<open>src\<close> as the
  document \<open>doc\<close> and nothing else, paths that are already resolved, and a
  \<^verbatim>\<open>with_suffix\<close> that replaces what follows the last dot.
\<close>

definition demo_world :: "(string \<rightharpoonup> fsfile) \<Rightarrow> string list \<Rightarrow> string \<Rightarrow> json \<Rightarrow> world" where
  "demo_world files lines src doc =
     \<lparr>platform_system = ''Linux'',
      fs = files,
      stdin = lines,
      stdout = [],
      urandom = (\<lambda>i. of_nat i),
      json_load = (\<lambda>s. if s = src then Some doc else None),
      json_dump = (\<lambda>j. if j = doc then src else ''(new text)''),
      resolve = (\<lambda>p. p),
      with_suffix = (\<lambda>p s. Inr (rev (drop 1 (dropWhile (\<lambda>c. c \<noteq> CHR ''.'') (rev p))) @ s)),
      copy2_fails = False,
      open_read_fails = False,
      open_write_fails = False,
      chmod_fails = False\<rparr>"

section \<open>What each step does\<close>

lemma map_of_dict_set:
  "map_of (dict_set kvs k v) k' = (if k' = k then Some v else map_of kvs k')"
  by (induction kvs) auto

lemma input_choice_eq:
  "input_choice p w =
     (case stdin w of
        [] \<Rightarrow> (Inl EOFError, w\<lparr>stdout := stdout w @ [p]\<rparr>)
      | l # ls \<Rightarrow> (Inr (lower (strip l)), w\<lparr>stdin := ls, stdout := stdout w @ [p]\<rparr>))"
  by (simp add: input_choice_def hbind_def hprint_def split: list.splits)

lemma fix_permissions_eq:
  assumes "platform_system w \<noteq> ''Windows''" and "fs w path = Some f"
  shows "fix_permissions path w =
    (if st_mode f AND S_IRWXO \<noteq> 0 \<or> st_mode f AND S_IRWXG \<noteq> 0
     then (case stdin w of
        [] \<Rightarrow> (Inl EOFError,
                w\<lparr>stdout := stdout w @ [FixPermissionsHeader, TooPermissive, AskFixPermissions]\<rparr>)
      | r # rest \<Rightarrow>
         if lower (strip r) \<noteq> ''n''
         then (if chmod_fails w
               then (Inl OSError, w\<lparr>stdin := rest,
                       stdout := stdout w @ [FixPermissionsHeader, TooPermissive, AskFixPermissions]\<rparr>)
               else (Inr True,
                     w\<lparr>fs := (fs w)(path \<mapsto>
                             f\<lparr>st_mode := (st_mode f AND NOT 4095) OR (mode_0o600 AND 4095)\<rparr>),
                       stdin := rest,
                       stdout := stdout w @ [FixPermissionsHeader, TooPermissive, AskFixPermissions,
                                             PermissionsUpdated]\<rparr>))
         else (Inr False, w\<lparr>stdin := rest,
                 stdout := stdout w @ [FixPermissionsHeader, TooPermissive, AskFixPermissions]\<rparr>))
     else (Inr False, w\<lparr>stdout := stdout w @ [FixPermissionsHeader, PermissionsAlreadySecure]\<rparr>))"
  using assms
  by (simp add: fix_permissions_def hbind_def hprint_def hreturn_def os_stat_def os_chmod_def
      input_choice_eq Let_def split: list.splits)

lemma fix_bind_eq:
  "fix_bind (JDict g) w =
    (let bind = (case map_of g ''bind'' of None \<Rightarrow> JStr ''loopback'' | Some v \<Rightarrow> v)
     in if bind = JStr ''0.0.0.0'' \<or> bind = JStr ''all'' \<or> bind = JStr ''::''
        then (case stdin w of
           [] \<Rightarrow> (Inl EOFError, w\<lparr>stdout := stdout w @ [GatewayExposed bind, AskChangeBind]\<rparr>)
         | r # rest \<Rightarrow>
            if lower (strip r) \<noteq> ''n''
            then (Inr (JDict (dict_set g ''bind'' (JStr ''loopback'')), True),
                  w\<lparr>stdin := rest,
                    stdout := stdout w @ [GatewayExposed bind, AskChangeBind, BindSetLoopback]\<rparr>)
            else (Inr (JDict g, False),
                  w\<lparr>stdin := rest, stdout := stdout w @ [GatewayExposed bind, AskChangeBind]\<rparr>))
        else (Inr (JDict g, False), w))"
  by (simp add: fix_bind_def hbind_def hprint_def hreturn_def hval_def input_choice_eq Let_def
      split: list.splits)

lemma fix_auth_eq:
  assumes "(case map_of g ''auth'' of None \<Rightarrow> JDict [] | Some v \<Rightarrow> v) = JDict a"
  shows "fix_auth (JDict g) ch w =
    (let mode = (case map_of a ''mode'' of None \<Rightarrow> JStr ''token'' | Some v \<Rightarrow> v);
         t = hexlify (map (urandom w) [0..<32])
     in if mode = JStr ''none''
        then (case stdin w of
           [] \<Rightarrow> (Inl EOFError, w\<lparr>stdout := stdout w @ [AuthIsDisabled, AskEnableToken]\<rparr>)
         | r # rest \<Rightarrow>
            if lower (strip r) \<noteq> ''n''
            then (Inr (JDict (dict_set g ''auth''
                         (JDict (dict_set (dict_set a ''mode'' (JStr ''token'')) ''token'' (JStr t)))),
                       True),
                  w\<lparr>stdin := rest,
                    stdout := stdout w @ [AuthIsDisabled, AskEnableToken, AuthModeEnabled,
                                          StrongTokenGenerated t],
                    urandom := (\<lambda>i. urandom w (i + 32))\<rparr>)
            else (Inr (JDict g, ch),
                  w\<lparr>stdin := rest, stdout := stdout w @ [AuthIsDisabled, AskEnableToken]\<rparr>))
        else if mode = JStr ''token''
        then (case py_len (case map_of a ''token'' of None \<Rightarrow> JStr [] | Some v \<Rightarrow> v) of
           Inl e \<Rightarrow> (Inl e, w)
         | Inr n \<Rightarrow>
            if n < 16
            then (case stdin w of
               [] \<Rightarrow> (Inl EOFError, w\<lparr>stdout := stdout w @ [TokenIsWeak, AskRotateToken]\<rparr>)
             | r # rest \<Rightarrow>
                if lower (strip r) \<noteq> ''n''
                then (Inr (JDict (dict_set g ''auth'' (JDict (dict_set a ''token'' (JStr t)))), True),
                      w\<lparr>stdin := rest,
                        stdout := stdout w @ [TokenIsWeak, AskRotateToken, TokenRotated t],
                        urandom := (\<lambda>i. urandom w (i + 32))\<rparr>)
                else (Inr (JDict g, ch),
                      w\<lparr>stdin := rest, stdout := stdout w @ [TokenIsWeak, AskRotateToken]\<rparr>))
            else (Inr (JDict g, ch), w))
        else (Inr (JDict g, ch), w))"
  using assms
  by (simp add: fix_auth_def hbind_def hprint_def hreturn_def hval_def input_choice_eq token_hex_def
      Let_def split: list.splits sum.splits)

lemma fix_channel_eq:
  "fix_channel name (JDict s) w =
    (let enabled = (case map_of s ''enabled'' of None \<Rightarrow> JBool False | Some v \<Rightarrow> v);
         dm_policy = (case map_of s ''dmPolicy'' of None \<Rightarrow> JStr ''pairing'' | Some v \<Rightarrow> v)
     in if truthy enabled \<and> dm_policy = JStr ''open''
        then (case stdin w of
           [] \<Rightarrow> (Inl EOFError, w\<lparr>stdout := stdout w @ [DmPolicyOpen name, AskChangeDm name]\<rparr>)
         | r # rest \<Rightarrow>
            if lower (strip r) \<noteq> ''n''
            then (Inr (JDict (dict_set s ''dmPolicy'' (JStr ''pairing'')), True),
                  w\<lparr>stdin := rest,
                    stdout := stdout w @ [DmPolicyOpen name, AskChangeDm name, DmPolicySet name]\<rparr>)
            else (Inr (JDict s, False),
                  w\<lparr>stdin := rest, stdout := stdout w @ [DmPolicyOpen name, AskChangeDm name]\<rparr>))
        else (Inr (JDict s, False), w))"
  by (simp add: fix_channel_def hbind_def hprint_def hreturn_def hval_def input_choice_eq Let_def
      split: list.splits)

lemma check_channel_eq:
  "check_channel name (JDict s) =
    (let enabled = (case map_of s ''enabled'' of None \<Rightarrow> JBool False | Some v \<Rightarrow> v);
         dm_policy = (case map_of s ''dmPolicy'' of None \<Rightarrow> JStr ''pairing'' | Some v \<Rightarrow> v);
         group_policy = (case map_of s ''groupPolicy'' of None \<Rightarrow> JStr ''allowlist'' | Some v \<Rightarrow> v)
     in if \<not> truthy enabled then ([], Inr ())
        else ([Inspecting name,
               if dm_policy = JStr ''open'' then DmOpen
               else if dm_policy = JStr ''pairing'' then DmPairing
               else if dm_policy = JStr ''allowlist'' then DmAllowlist
               else DmUnknown dm_policy,
               if group_policy = JStr ''open'' then GroupOpen else GroupOther group_policy],
              Inr ()))"
  by (simp add: check_channel_def abind_def aprint_def aval_def Let_def)

subsection \<open>Mode bits\<close>

lemma chmod_sets_mode: "S_IMODE ((m AND NOT 4095) OR (mode_0o600 AND 4095)) = mode_0o600"
proof -
  have a: "(mode_0o600 AND 4095 :: 32 word) = mode_0o600"
    by (simp add: mode_0o600_def)
  have "((m AND NOT 4095) OR mode_0o600) AND 4095
        = ((m AND NOT 4095) AND 4095) OR (mode_0o600 AND 4095)"
    by (simp add: bit.conj_disj_distrib2)
  also have "(m AND NOT 4095) AND 4095 = 0"
    by (simp add: and.assoc)
  finally show ?thesis
    using a by (simp add: S_IMODE_def)
qed

lemma chmod_keeps_type: "((m AND NOT 4095) OR (mode_0o600 AND 4095)) AND NOT 4095 = (m :: 32 word) AND NOT 4095"
  by (simp add: bit.conj_disj_distrib2 mode_0o600_def and.assoc)

lemma mode_0o600_no_group_other:
  assumes "S_IMODE m = mode_0o600"
  shows "m AND S_IRWXO = 0 \<and> m AND S_IRWXG = 0"
proof -
  have "m AND S_IRWXO = (m AND 4095) AND S_IRWXO"
    by (simp add: and.assoc S_IRWXO_def)
  moreover have "m AND S_IRWXG = (m AND 4095) AND S_IRWXG"
    by (simp add: and.assoc S_IRWXG_def)
  ultimately show ?thesis
    using assms by (simp add: S_IMODE_def mode_0o600_def S_IRWXO_def S_IRWXG_def)
qed

subsection \<open>Tokens and the gateway\<close>

lemma hex_digit_in: "n < 16 \<Longrightarrow> hex_digit n \<in> set ''0123456789abcdef''"
  unfolding hex_digit_def by (rule nth_mem) simp

lemma hex_byte_chars: "set (hex_byte b) \<subseteq> set ''0123456789abcdef''"
proof -
  have "unat b < 2 ^ LENGTH(8)"
    by (rule unsigned_less)
  then have "unat b div 16 < 16" and "unat b mod 16 < 16"
    by auto
  then have "hex_digit (unat b div 16) \<in> set ''0123456789abcdef''"
    and "hex_digit (unat b mod 16) \<in> set ''0123456789abcdef''"
    using hex_digit_in by blast+
  then show ?thesis
    unfolding hex_byte_def by (metis empty_set empty_subsetI insert_subset list.simps(15))
qed

lemma hexlify_chars: "set (hexlify bs) \<subseteq> set ''0123456789abcdef''"
proof
  fix x
  assume "x \<in> set (hexlify bs)"
  then obtain b where "x \<in> set (hex_byte b)"
    unfolding hexlify_def by auto
  then show "x \<in> set ''0123456789abcdef''"
    using hex_byte_chars by (rule rev_subsetD)
qed

lemma hexlify_length: "length (hexlify bs) = 2 * length bs"
  by (induction bs) (simp_all add: hexlify_def hex_byte_def)

lemma check_gateway_eq:
  assumes "(case map_of c ''gateway'' of None \<Rightarrow> JDict [] | Some v \<Rightarrow> v) = JDict g"
    and "(case map_of g ''auth'' of None \<Rightarrow> JDict [] | Some v \<Rightarrow> v) = JDict a"
  shows "check_gateway (JDict c) =
    (let bind = (case map_of g ''bind'' of None \<Rightarrow> JStr ''loopback'' | Some v \<Rightarrow> v);
         port = (case map_of g ''port'' of None \<Rightarrow> JStr ''unknown'' | Some v \<Rightarrow> v);
         mode = (case map_of a ''mode'' of None \<Rightarrow> JStr ''token'' | Some v \<Rightarrow> v);
         bind_line = (if bind = JStr ''0.0.0.0'' \<or> bind = JStr ''all'' \<or> bind = JStr ''::''
                      then BindExposed bind port
                      else if bind = JStr ''loopback'' \<or> bind = JStr ''localhost'' \<or> bind = JStr ''127.0.0.1''
                      then BindLocal bind else BindCustom bind)
     in if mode = JStr ''none'' then ([HdrGateway, bind_line, AuthDisabled], Inr ())
        else if mode = JStr ''token''
        then (case py_len (case map_of a ''token'' of None \<Rightarrow> JStr [] | Some v \<Rightarrow> v) of
                Inl e \<Rightarrow> ([HdrGateway, bind_line], Inl e)
              | Inr n \<Rightarrow> ([HdrGateway, bind_line, if n < 16 then TokenWeak else TokenAuthEnabled], Inr ()))
        else ([HdrGateway, bind_line, AuthOtherMode mode], Inr ()))"
  using assms
  by (simp add: check_gateway_def abind_def aprint_def aval_def Let_def split: sum.splits)

lemma fix_gateway_eq:
  assumes "(case map_of c ''gateway'' of None \<Rightarrow> JDict [] | Some v \<Rightarrow> v) = JDict g"
  shows "fix_gateway (JDict c) w =
     (case fix_bind (JDict g) (w\<lparr>stdout := stdout w @ [FixGatewayHeader]\<rparr>) of
        (Inl e, w1) \<Rightarrow> (Inl e, w1)
      | (Inr (g1, ch1), w1) \<Rightarrow>
         (case fix_auth g1 ch1 w1 of
            (Inl e, w2) \<Rightarrow> (Inl e, w2)
          | (Inr (g2, ch2), w2) \<Rightarrow>
              (Inr (ch2, if ch2 then JDict (dict_set c ''gateway'' g2) else JDict c), w2)))"
  using assms
  by (simp add: fix_gateway_def hbind_def hprint_def hreturn_def hval_def
      split: prod.splits sum.splits)

lemma check_gateway_bind_line:
  assumes "(case map_of c ''gateway'' of None \<Rightarrow> JDict [] | Some v \<Rightarrow> v) = JDict g"
  shows "take 2 (fst (check_gateway (JDict c))) =
    [HdrGateway,
     (let bind = (case map_of g ''bind'' of None \<Rightarrow> JStr ''loopback'' | Some v \<Rightarrow> v);
          port = (case map_of g ''port'' of None \<Rightarrow> JStr ''unknown'' | Some v \<Rightarrow> v)
      in if bind = JStr ''0.0.0.0'' \<or> bind = JStr ''all'' \<or> bind = JStr ''::''
         then BindExposed bind port
         else if bind = JStr ''loopback'' \<or> bind = JStr ''localhost'' \<or> bind = JStr ''127.0.0.1''
         then BindLocal bind else BindCustom bind)]"
  using assms
  by (simp add: check_gateway_def abind_def aprint_def aval_def Let_def split: sum.splits prod.splits)

text \<open>Nothing is left to fix in a gateway dict.\<close>

lemma fix_gateway_settled:
  assumes "(case map_of c ''gateway'' of None \<Rightarrow> JDict [] | Some v \<Rightarrow> v) = JDict g"
    and "(case map_of g ''auth'' of None \<Rightarrow> JDict [] | Some v \<Rightarrow> v) = JDict a"
    and "(case map_of g ''bind'' of None \<Rightarrow> JStr ''loopback'' | Some v \<Rightarrow> v)
           \<notin> set [JStr ''0.0.0.0'', JStr ''all'', JStr ''::'']"
    and "(case map_of a ''mode'' of None \<Rightarrow> JStr ''token'' | Some v \<Rightarrow> v) \<noteq> JStr ''none''"
    and "(case map_of a ''mode'' of None \<Rightarrow> JStr ''token'' | Some v \<Rightarrow> v) = JStr ''token'' \<Longrightarrow>
           \<exists>n\<ge>16. py_len (case map_of a ''token'' of None \<Rightarrow> JStr [] | Some v \<Rightarrow> v) = Inr n"
  shows "fix_gateway (JDict c) w = (Inr (False, JDict c), w\<lparr>stdout := stdout w @ [FixGatewayHeader]\<rparr>)"
  using assms
  by (auto simp: fix_gateway_eq[of c g] fix_bind_eq fix_auth_eq[of g a] Let_def)


lemma fix_auth_not_dict:
  assumes "\<forall>a. (case map_of g ''auth'' of None \<Rightarrow> JDict [] | Some v \<Rightarrow> v) \<noteq> JDict a"
  shows "fst (fix_auth (JDict g) ch w) = Inl AttributeError"
proof -
  obtain v where v: "(case map_of g ''auth'' of None \<Rightarrow> JDict [] | Some v \<Rightarrow> v) = v"
    by simp
  with assms have "py_get v ''mode'' (JStr ''token'') = Inl AttributeError"
    by (cases v) auto
  with v show ?thesis
    by (simp add: fix_auth_def hbind_def hval_def)
qed

lemma fix_bind_consent:
  assumes "fix_bind (JDict g) w = (Inr (g1, ch1), w1)"
    and "list_all (\<lambda>r. lower (strip r) \<noteq> ''n'') (stdin w)"
  shows "\<exists>g1'. g1 = JDict g1'
           \<and> (case map_of g1' ''bind'' of None \<Rightarrow> JStr ''loopback'' | Some v \<Rightarrow> v)
                \<notin> set [JStr ''0.0.0.0'', JStr ''all'', JStr ''::'']
           \<and> map_of g1' ''auth'' = map_of g ''auth''
           \<and> list_all (\<lambda>r. lower (strip r) \<noteq> ''n'') (stdin w1)
           \<and> (\<not> ch1 \<longrightarrow> g1' = g)"
  using assms
  by (cases "stdin w")
    (auto simp: fix_bind_eq Let_def map_of_dict_set split: if_splits)

lemma fix_auth_consent:
  assumes "fix_auth (JDict g) ch w = (Inr (g2, ch2), w2)"
    and "list_all (\<lambda>r. lower (strip r) \<noteq> ''n'') (stdin w)"
  shows "\<exists>g2' a2. g2 = JDict g2'
           \<and> (case map_of g2' ''auth'' of None \<Rightarrow> JDict [] | Some v \<Rightarrow> v) = JDict a2
           \<and> (case map_of a2 ''mode'' of None \<Rightarrow> JStr ''token'' | Some v \<Rightarrow> v) \<noteq> JStr ''none''
           \<and> ((case map_of a2 ''mode'' of None \<Rightarrow> JStr ''token'' | Some v \<Rightarrow> v) = JStr ''token'' \<longrightarrow>
                 (\<exists>n\<ge>16. py_len (case map_of a2 ''token'' of None \<Rightarrow> JStr [] | Some v \<Rightarrow> v) = Inr n))
           \<and> map_of g2' ''bind'' = map_of g ''bind''
           \<and> (\<not> ch2 \<longrightarrow> g2' = g \<and> \<not> ch)"
proof (cases "\<exists>a. (case map_of g ''auth'' of None \<Rightarrow> JDict [] | Some v \<Rightarrow> v) = JDict a")
  case False
  then have "fst (fix_auth (JDict g) ch w) = Inl AttributeError"
    by (simp add: fix_auth_not_dict)
  with assms(1) show ?thesis
    by simp
next
  case True
  then obtain a where a: "(case map_of g ''auth'' of None \<Rightarrow> JDict [] | Some v \<Rightarrow> v) = JDict a"
    by blast
  have len: "length (hexlify (map (urandom w) [0..<32])) = 64"
    by (simp add: hexlify_length)
  show ?thesis
    using assms a len
    by (cases "stdin w")
      (auto simp: fix_auth_eq[of g a] Let_def map_of_dict_set split: if_splits sum.splits)
qed

lemma fix_auth_frame:
  assumes "fix_auth (JDict g) ch w = (Inr (g2, ch2), w2)"
  shows "\<exists>g2'. g2 = JDict g2' \<and> map_of g2' ''bind'' = map_of g ''bind''
           \<and> (ch \<longrightarrow> ch2) \<and> (\<not> ch2 \<longrightarrow> g2' = g)"
proof (cases "\<exists>a. (case map_of g ''auth'' of None \<Rightarrow> JDict [] | Some v \<Rightarrow> v) = JDict a")
  case False
  then have "fst (fix_auth (JDict g) ch w) = Inl AttributeError"
    by (simp add: fix_auth_not_dict)
  with assms(1) show ?thesis
    by simp
next
  case True
  then obtain a where a: "(case map_of g ''auth'' of None \<Rightarrow> JDict [] | Some v \<Rightarrow> v) = JDict a"
    by blast
  show ?thesis
    using assms a
    by (cases "stdin w")
      (auto simp: fix_auth_eq[of g a] Let_def map_of_dict_set split: if_splits sum.splits)
qed

lemma fix_gateway_run:
  assumes "(case map_of c ''gateway'' of None \<Rightarrow> JDict [] | Some v \<Rightarrow> v) = JDict g"
    and "fix_gateway (JDict c) w = (Inr (ch, config'), w')"
  shows "\<exists>g1 ch1 w1 g2.
           fix_bind (JDict g) (w\<lparr>stdout := stdout w @ [FixGatewayHeader]\<rparr>) = (Inr (g1, ch1), w1)
         \<and> fix_auth g1 ch1 w1 = (Inr (g2, ch), w')
         \<and> config' = (if ch then JDict (dict_set c ''gateway'' g2) else JDict c)"
  using assms
  by (auto simp: fix_gateway_eq[of c g] split: prod.splits sum.splits)

subsection \<open>The loop over the channels\<close>

lemma check_channel_not_raising: "is_dict v \<Longrightarrow> snd (check_channel name v) = Inr ()"
  by (cases v) (simp_all add: check_channel_eq Let_def)

lemma check_channels_loop_append:
  "check_channels_loop (xs @ ys) =
     (case check_channels_loop xs of
        (out, Inl e) \<Rightarrow> (out, Inl e)
      | (out, Inr u) \<Rightarrow> (case check_channels_loop ys of (out', r) \<Rightarrow> (out @ out', r)))"
  by (induction xs) (auto split: prod.splits sum.splits)

lemma check_channels_loop_dicts:
  "list_all (\<lambda>(n, v). is_dict v) items \<Longrightarrow> snd (check_channels_loop items) = Inr ()"
proof (induction items)
  case Nil
  then show ?case by simp
next
  case (Cons x xs)
  obtain n v where x: "x = (n, v)" by (cases x)
  with Cons have "snd (check_channel n v) = Inr ()" "snd (check_channels_loop xs) = Inr ()"
    by (simp_all add: check_channel_not_raising)
  with x show ?case
    by (auto split: prod.splits sum.splits)
qed

lemma fix_channel_not_dict: "\<not> is_dict v \<Longrightarrow> fst (fix_channel name v w) = Inl AttributeError"
  by (cases v) (simp_all add: fix_channel_def hbind_def hval_def)

lemma fix_channel_unchanged:
  assumes "fix_channel name v w = (Inr (v', False), w')"
  shows "v' = v"
proof (cases v)
  case (JDict s)
  with assms show ?thesis
    by (cases "stdin w") (auto simp: fix_channel_eq Let_def split: if_splits)
qed (use assms fix_channel_not_dict[of v name w] in auto)

lemma fix_channels_loop_append:
  "fix_channels_loop (xs @ ys) w =
     (case fix_channels_loop xs w of
        (Inl e, w1) \<Rightarrow> (Inl e, w1)
      | (Inr (xs', c1), w1) \<Rightarrow>
          (case fix_channels_loop ys w1 of
             (Inl e, w2) \<Rightarrow> (Inl e, w2)
           | (Inr (ys', c2), w2) \<Rightarrow> (Inr (xs' @ ys', c1 \<or> c2), w2)))"
  by (induction xs arbitrary: w) (auto split: prod.splits sum.splits)

lemma fix_channels_loop_length:
  "fix_channels_loop xs w = (Inr (xs', c), w') \<Longrightarrow> length xs' = length xs"
  by (induction xs arbitrary: w xs' c) (auto split: prod.splits sum.splits)

lemma fix_channels_loop_unchanged:
  "fix_channels_loop xs w = (Inr (xs', False), w') \<Longrightarrow> xs' = xs"
  by (induction xs arbitrary: w xs') (auto split: prod.splits sum.splits dest: fix_channel_unchanged)

lemma fix_channel_reads_one:
  assumes "is_dict v" and "stdin w \<noteq> []"
  shows "\<not> isl (fst (fix_channel name v w))"
    and "length (stdin w) \<le> Suc (length (stdin (snd (fix_channel name v w))))"
proof -
  from assms obtain s l ls where v: "v = JDict s" and l: "stdin w = l # ls"
    by (cases v; cases "stdin w") auto
  show "\<not> isl (fst (fix_channel name v w))"
    and "length (stdin w) \<le> Suc (length (stdin (snd (fix_channel name v w))))"
    using l by (simp_all add: v fix_channel_eq Let_def)
qed

lemma fix_channels_loop_completes:
  assumes "list_all (\<lambda>(n, v). is_dict v) items" and "length items \<le> length (stdin w)"
  shows "\<not> isl (fst (fix_channels_loop items w))"
  using assms
proof (induction items arbitrary: w)
  case Nil
  then show ?case by simp
next
  case (Cons x xs)
  obtain n v where x: "x = (n, v)" by (cases x)
  with Cons.prems have d: "is_dict v" "stdin w \<noteq> []"
    by auto
  obtain r w1 where 1: "fix_channel n v w = (r, w1)"
    by (cases "fix_channel n v w")
  with fix_channel_reads_one[OF d, of n] have "\<not> isl r" "length (stdin w) \<le> Suc (length (stdin w1))"
    by simp_all
  with Cons.prems have "length xs \<le> length (stdin w1)"
    by simp
  with Cons.IH Cons.prems have "\<not> isl (fst (fix_channels_loop xs w1))"
    by auto
  with 1 x \<open>\<not> isl r\<close> show ?case
    by (auto split: prod.splits sum.splits)
qed

lemma check_channels_eq:
  assumes "map_of c ''channels'' = Some (JDict items)" and "items \<noteq> []"
  shows "check_channels (JDict c) =
           (case check_channels_loop items of (out, r) \<Rightarrow> (HdrChannels # out, r))"
  using assms
  by (simp add: check_channels_def abind_def aprint_def aval_def split: prod.splits sum.splits)

lemma fix_channels_eq:
  assumes "map_of c ''channels'' = Some (JDict items)" and "items \<noteq> []"
  shows "fix_channels (JDict c) w =
     (case fix_channels_loop items (w\<lparr>stdout := stdout w @ [FixChannelsHeader]\<rparr>) of
        (Inl e, w') \<Rightarrow> (Inl e, w')
      | (Inr (items', changed), w') \<Rightarrow>
          (Inr (changed, if changed then JDict (dict_set c ''channels'' (JDict items')) else JDict c),
           w'))"
  using assms
  by (simp add: fix_channels_def hbind_def hprint_def hreturn_def hval_def
      split: prod.splits sum.splits)

section \<open>What a step leaves alone\<close>

subsection \<open>The files\<close>

lemma hbind_fs:
  assumes "\<And>w. fs (snd (m w)) = fs w" and "\<And>x w. fs (snd (f x w)) = fs w"
  shows "fs (snd (hbind m f w)) = fs w"
proof (cases "m w")
  case (Pair r w1)
  with assms(1)[of w] have "fs w1 = fs w"
    by simp
  with Pair assms(2) show ?thesis
    by (cases r) (simp_all add: hbind_def)
qed

lemma prim_fs:
  "fs (snd (hprint l w)) = fs w"
  "fs (snd (hreturn x w)) = fs w"
  "fs (snd (hval r w)) = fs w"
  "fs (snd (input_choice l w)) = fs w"
  "fs (snd (token_hex n w)) = fs w"
  by (simp_all add: hprint_def hreturn_def hval_def input_choice_eq token_hex_def split: list.splits)

lemma fix_bind_fs: "fs (snd (fix_bind g w)) = fs w"
  unfolding fix_bind_def
  by (intro hbind_fs) (simp_all add: hbind_fs prim_fs)

lemma fix_auth_fs: "fs (snd (fix_auth g ch w)) = fs w"
  unfolding fix_auth_def
  by (intro hbind_fs) (simp_all add: hbind_fs prim_fs)

lemma fix_gateway_fs: "fs (snd (fix_gateway config w)) = fs w"
  unfolding fix_gateway_def
  by (intro hbind_fs) (simp_all add: hbind_fs prim_fs fix_bind_fs fix_auth_fs split: prod.splits)

lemma fix_channel_fs: "fs (snd (fix_channel name v w)) = fs w"
  unfolding fix_channel_def
  by (intro hbind_fs) (simp_all add: hbind_fs prim_fs)

lemma fix_channels_loop_fs: "fs (snd (fix_channels_loop items w)) = fs w"
proof (induction items arbitrary: w)
  case Nil
  then show ?case by simp
next
  case (Cons x xs)
  obtain n v where x: "x = (n, v)" by (cases x)
  obtain r w1 where 1: "fix_channel n v w = (r, w1)"
    by (cases "fix_channel n v w")
  with fix_channel_fs[of n v w] have "fs w1 = fs w"
    by simp
  with Cons.IH[of w1] 1 x show ?case
    by (auto split: prod.splits sum.splits)
qed

lemma fix_channels_fs: "fs (snd (fix_channels config w)) = fs w"
  unfolding fix_channels_def
  by (intro hbind_fs)
    (simp_all add: hbind_fs prim_fs fix_channels_loop_fs split: prod.splits)

text \<open>\<^verbatim>\<open>fix_permissions\<close> touches the mode of the one file, and no content.\<close>

lemma fix_permissions_fs:
  "p \<noteq> path \<Longrightarrow> fs (snd (fix_permissions path w)) p = fs w p"
  "map_option content (fs (snd (fix_permissions path w)) path) = map_option content (fs w path)"
  by (auto simp: fix_permissions_def hbind_def hprint_def hreturn_def os_stat_def os_chmod_def
      input_choice_eq Let_def split: list.splits option.splits)

lemma fix_permissions_declined:
  assumes "list_all (\<lambda>r. lower (strip r) = ''n'') (stdin w)"
  shows "fs (snd (fix_permissions path w)) = fs w"
    and "list_all (\<lambda>r. lower (strip r) = ''n'') (stdin (snd (fix_permissions path w)))"
  using assms
  by (auto simp: fix_permissions_def hbind_def hprint_def hreturn_def os_stat_def os_chmod_def
      input_choice_eq Let_def split: list.splits option.splits)

lemma save_config_fs: "p \<noteq> path \<Longrightarrow> fs (snd (save_config config path w)) p = fs w p"
  by (simp add: save_config_def hbind_def hprint_def hreturn_def Let_def)

text \<open>
  A backup that succeeds adds one file, a copy of the original under another name; one that
  fails, or raises, leaves the files as they were.
\<close>

lemma backup_config_fs:
  assumes "backup_config path w = (r, w')"
  shows "r = Inr True \<longrightarrow>
           (\<exists>bp f. with_suffix w path ''.json.bak.security'' = Inr bp \<and> bp \<noteq> path
              \<and> fs w path = Some f \<and> fs w' = (fs w)(bp \<mapsto> f))"
    and "r \<noteq> Inr True \<longrightarrow> fs w' = fs w"
  using assms
  by (auto simp: backup_config_def copy2_def hbind_def hprint_def hreturn_def
      split: sum.splits option.splits if_splits)

subsection \<open>A user who declines everything\<close>

lemma fix_bind_declined:
  assumes "list_all (\<lambda>r. lower (strip r) = ''n'') (stdin w)"
    and "fix_bind g w = (r, w')"
  shows "list_all (\<lambda>r. lower (strip r) = ''n'') (stdin w') \<and> (\<forall>x. r = Inr x \<longrightarrow> x = (g, False))"
proof (cases g)
  case (JDict gd)
  with assms show ?thesis
    by (cases "stdin w") (auto simp: fix_bind_eq Let_def split: if_splits)
qed (use assms in \<open>auto simp: fix_bind_def hbind_def hval_def\<close>)

lemma fix_auth_raises:
  assumes "\<forall>a. (case map_of g ''auth'' of None \<Rightarrow> JDict [] | Some v \<Rightarrow> v) \<noteq> JDict a"
  shows "fix_auth (JDict g) ch w = (Inl AttributeError, w)"
proof -
  obtain v where v: "(case map_of g ''auth'' of None \<Rightarrow> JDict [] | Some v \<Rightarrow> v) = v"
    by simp
  with assms have "py_get v ''mode'' (JStr ''token'') = Inl AttributeError"
    by (cases v) auto
  with v show ?thesis
    by (simp add: fix_auth_def hbind_def hval_def)
qed

lemma fix_auth_declined:
  assumes "list_all (\<lambda>r. lower (strip r) = ''n'') (stdin w)"
    and "fix_auth g ch w = (r, w')"
  shows "list_all (\<lambda>r. lower (strip r) = ''n'') (stdin w') \<and> (\<forall>x. r = Inr x \<longrightarrow> x = (g, ch))"
proof (cases g)
  case (JDict gd)
  show ?thesis
  proof (cases "\<exists>a. (case map_of gd ''auth'' of None \<Rightarrow> JDict [] | Some v \<Rightarrow> v) = JDict a")
    case False
    then have "fix_auth (JDict gd) ch w = (Inl AttributeError, w)"
      by (simp add: fix_auth_raises)
    with assms JDict show ?thesis
      by auto
  next
    case True
    then obtain a where a: "(case map_of gd ''auth'' of None \<Rightarrow> JDict [] | Some v \<Rightarrow> v) = JDict a"
      by blast
    from assms show ?thesis
      unfolding JDict
      by (cases "stdin w")
        (auto simp: fix_auth_eq[OF a] Let_def split: if_splits sum.splits)
  qed
qed (use assms in \<open>auto simp: fix_auth_def hbind_def hval_def\<close>)

lemma fix_channel_declined:
  assumes "list_all (\<lambda>r. lower (strip r) = ''n'') (stdin w)"
    and "fix_channel name v w = (r, w')"
  shows "list_all (\<lambda>r. lower (strip r) = ''n'') (stdin w') \<and> (\<forall>x. r = Inr x \<longrightarrow> x = (v, False))"
proof (cases v)
  case (JDict s)
  with assms show ?thesis
    by (cases "stdin w") (auto simp: fix_channel_eq Let_def split: if_splits)
qed (use assms in \<open>auto simp: fix_channel_def hbind_def hval_def\<close>)

lemma fix_channels_loop_declined:
  assumes "list_all (\<lambda>r. lower (strip r) = ''n'') (stdin w)"
    and "fix_channels_loop items w = (r, w')"
  shows "list_all (\<lambda>r. lower (strip r) = ''n'') (stdin w') \<and> (\<forall>x. r = Inr x \<longrightarrow> x = (items, False))"
  using assms
proof (induction items arbitrary: w r w')
  case Nil
  then show ?case by auto
next
  case (Cons x xs)
  obtain n v where x: "x = (n, v)" by (cases x)
  obtain r1 w1 where 1: "fix_channel n v w = (r1, w1)"
    by (cases "fix_channel n v w")
  note d1 = fix_channel_declined[OF Cons.prems(1) 1]
  obtain r2 w2 where 2: "fix_channels_loop xs w1 = (r2, w2)"
    by (cases "fix_channels_loop xs w1")
  note d2 = Cons.IH[OF d1[THEN conjunct1] 2]
  from Cons.prems(2) x 1 2 d1 d2 show ?case
    by (auto split: sum.splits prod.splits)
qed

lemma fix_gateway_unfold:
  "fix_gateway config w =
     (case py_get config ''gateway'' (JDict []) of
        Inl e \<Rightarrow> (Inl e, w\<lparr>stdout := stdout w @ [FixGatewayHeader]\<rparr>)
      | Inr g \<Rightarrow>
         (case fix_bind g (w\<lparr>stdout := stdout w @ [FixGatewayHeader]\<rparr>) of
            (Inl e, w1) \<Rightarrow> (Inl e, w1)
          | (Inr (g1, ch1), w1) \<Rightarrow>
             (case fix_auth g1 ch1 w1 of
                (Inl e, w2) \<Rightarrow> (Inl e, w2)
              | (Inr (g2, ch2), w2) \<Rightarrow>
                  if ch2
                  then (case py_setitem config ''gateway'' g2 of
                          Inl e \<Rightarrow> (Inl e, w2)
                        | Inr config' \<Rightarrow> (Inr (True, config'), w2))
                  else (Inr (False, config), w2))))"
  by (simp add: fix_gateway_def hbind_def hprint_def hreturn_def hval_def
      split: prod.splits sum.splits)

lemma fix_channels_unfold:
  "fix_channels config w =
     (case py_get config ''channels'' (JDict []) of
        Inl e \<Rightarrow> (Inl e, w\<lparr>stdout := stdout w @ [FixChannelsHeader]\<rparr>)
      | Inr channels \<Rightarrow>
         if \<not> truthy channels
         then (Inr (False, config), w\<lparr>stdout := stdout w @ [FixChannelsHeader]\<rparr>)
         else
          (case py_items channels of
             Inl e \<Rightarrow> (Inl e, w\<lparr>stdout := stdout w @ [FixChannelsHeader]\<rparr>)
           | Inr items \<Rightarrow>
              (case fix_channels_loop items (w\<lparr>stdout := stdout w @ [FixChannelsHeader]\<rparr>) of
                 (Inl e, w1) \<Rightarrow> (Inl e, w1)
               | (Inr (items', changed), w1) \<Rightarrow>
                   if changed
                   then (case py_setitem config ''channels'' (JDict items') of
                           Inl e \<Rightarrow> (Inl e, w1)
                         | Inr config' \<Rightarrow> (Inr (True, config'), w1))
                   else (Inr (False, config), w1))))"
  by (simp add: fix_channels_def hbind_def hprint_def hreturn_def hval_def
      split: prod.splits sum.splits)

lemma fix_gateway_declined:
  assumes "list_all (\<lambda>r. lower (strip r) = ''n'') (stdin w)"
    and "fix_gateway config w = (r, w')"
  shows "list_all (\<lambda>r. lower (strip r) = ''n'') (stdin w') \<and> (\<forall>x. r = Inr x \<longrightarrow> x = (False, config))"
proof (cases "py_get config ''gateway'' (JDict [])")
  case (Inl e)
  with assms show ?thesis
    by (auto simp: fix_gateway_unfold)
next
  case (Inr g)
  let ?w0 = "w\<lparr>stdout := stdout w @ [FixGatewayHeader]\<rparr>"
  obtain r1 w1 where 1: "fix_bind g ?w0 = (r1, w1)"
    by (cases "fix_bind g ?w0")
  from assms(1) have "list_all (\<lambda>r. lower (strip r) = ''n'') (stdin ?w0)"
    by simp
  note d1 = fix_bind_declined[OF this 1]
  show ?thesis
  proof (cases r1)
    case (Inl e)
    with assms(2) Inr 1 have "r = Inl e" "w' = w1"
      by (simp_all add: fix_gateway_unfold)
    with d1 show ?thesis
      by simp
  next
    case r1: (Inr x)
    with d1 have x: "x = (g, False)"
      by simp
    obtain r2 w2 where 2: "fix_auth g False w1 = (r2, w2)"
      by (cases "fix_auth g False w1")
    note d2 = fix_auth_declined[OF d1[THEN conjunct1] 2]
    show ?thesis
    proof (cases r2)
      case (Inl e)
      with assms(2) Inr 1 r1 x 2 have "r = Inl e" "w' = w2"
        by (simp_all add: fix_gateway_unfold)
      with d2 show ?thesis
        by simp
    next
      case r2: (Inr y)
      with d2 have y: "y = (g, False)"
        by simp
      with assms(2) Inr 1 r1 x 2 r2 have "r = Inr (False, config)" "w' = w2"
        by (simp_all add: fix_gateway_unfold)
      with d2 show ?thesis
        by simp
    qed
  qed
qed

lemma fix_channels_declined:
  assumes "list_all (\<lambda>r. lower (strip r) = ''n'') (stdin w)"
    and "fix_channels config w = (r, w')"
  shows "list_all (\<lambda>r. lower (strip r) = ''n'') (stdin w') \<and> (\<forall>x. r = Inr x \<longrightarrow> x = (False, config))"
proof (cases "py_get config ''channels'' (JDict [])")
  case (Inl e)
  with assms show ?thesis
    by (auto simp: fix_channels_unfold)
next
  case (Inr channels)
  let ?w0 = "w\<lparr>stdout := stdout w @ [FixChannelsHeader]\<rparr>"
  show ?thesis
  proof (cases "truthy channels")
    case False
    with assms Inr show ?thesis
      by (auto simp: fix_channels_unfold)
  next
    case True
    show ?thesis
    proof (cases "py_items channels")
      case (Inl e)
      with assms Inr True show ?thesis
        by (auto simp: fix_channels_unfold)
    next
      case items: (Inr items)
      obtain r1 w1 where 1: "fix_channels_loop items ?w0 = (r1, w1)"
        by (cases "fix_channels_loop items ?w0")
      from assms(1) have "list_all (\<lambda>r. lower (strip r) = ''n'') (stdin ?w0)"
        by simp
      note d1 = fix_channels_loop_declined[OF this 1]
      show ?thesis
      proof (cases r1)
        case (Inl e)
        with assms(2) Inr True items 1 have "r = Inl e" "w' = w1"
          by (simp_all add: fix_channels_unfold)
        with d1 show ?thesis
          by simp
      next
        case r1: (Inr x)
        with d1 have "x = (items, False)"
          by simp
        with assms(2) Inr True items 1 r1 have "r = Inr (False, config)" "w' = w1"
          by (simp_all add: fix_channels_unfold)
        with d1 show ?thesis
          by simp
      qed
    qed
  qed
qed

subsection \<open>The run as a whole\<close>

lemma load_config_eq:
  "load_config cp w =
     (case fs w (resolve w cp) of
        None \<Rightarrow> (Inr None, w\<lparr>stdout := stdout w @ [ConfigNotFound (resolve w cp)]\<rparr>)
      | Some f \<Rightarrow>
          if open_read_fails w then (Inr None, w\<lparr>stdout := stdout w @ [ErrorReadingJson]\<rparr>)
          else (case json_load w (content f) of
                  None \<Rightarrow> (Inr None, w\<lparr>stdout := stdout w @ [ErrorReadingJson]\<rparr>)
                | Some config \<Rightarrow> (Inr (Some (config, resolve w cp)), w)))"
  by (simp add: load_config_def hbind_def hprint_def hreturn_def Let_def split: option.splits)

text \<open>A run that finds no configuration, or an empty one, changes no file.\<close>

lemma main_not_loaded:
  assumes "\<forall>f config. fs w (resolve w (arg_config a)) = Some f \<and> \<not> open_read_fails w
             \<and> json_load w (content f) = Some config \<longrightarrow> \<not> truthy config"
  shows "fst (main a w) = Inr ()" and "fs (snd (main a w)) = fs w"
  using assms
  by (auto simp: main_def hbind_def hreturn_def load_config_eq split: option.splits)

lemma main_loaded:
  assumes "fs w (resolve w (arg_config a)) = Some f" and "\<not> open_read_fails w"
    and "json_load w (content f) = Some config" and "truthy config"
  shows "main a w =
    (case (if \<not> arg_dry_run a
           then backup_config (resolve w (arg_config a))
                  (w\<lparr>stdout := stdout w @ [Target (resolve w (arg_config a))]\<rparr>)
           else (Inr True, w\<lparr>stdout := stdout w @ [Target (resolve w (arg_config a))]\<rparr>)) of
       (Inl e, w2) \<Rightarrow> (Inl e, w2)
     | (Inr backed_up, w2) \<Rightarrow>
        if \<not> backed_up then (Inr (), w2\<lparr>stdout := stdout w2 @ [AbortingBackupFailure]\<rparr>)
        else
         (case fix_permissions (resolve w (arg_config a)) w2 of
            (Inl e, w3) \<Rightarrow> (Inl e, w3)
          | (Inr fixed, w3) \<Rightarrow>
             (case fix_gateway config w3 of
                (Inl e, w4) \<Rightarrow> (Inl e, w4)
              | (Inr (changed1, config1), w4) \<Rightarrow>
                 (case fix_channels config1 w4 of
                    (Inl e, w5) \<Rightarrow> (Inl e, w5)
                  | (Inr (changed2, config2), w5) \<Rightarrow>
                      if changed1 \<or> changed2
                      then (if arg_dry_run a
                            then (Inr (), w5\<lparr>stdout := stdout w5 @ [ApplyingChanges, DryRunWouldSave]\<rparr>)
                            else (case save_config config2 (resolve w (arg_config a))
                                         (w5\<lparr>stdout := stdout w5 @ [ApplyingChanges]\<rparr>) of
                                    (Inl e, w6) \<Rightarrow> (Inl e, w6)
                                  | (Inr saved, w6) \<Rightarrow>
                                      (Inr (), w6\<lparr>stdout := stdout w6 @ [RestartNote, RestartCommand]\<rparr>)))
                      else (Inr (), w5\<lparr>stdout := stdout w5 @ [NoChangesNeeded]\<rparr>)))))"
  using assms
  by (simp add: main_def hbind_def hprint_def hreturn_def load_config_eq
      split: prod.splits sum.splits)

lemma backup_config_eq:
  "backup_config path w =
     (case with_suffix w path ''.json.bak.security'' of
        Inl e \<Rightarrow> (Inl e, w)
      | Inr bp \<Rightarrow>
          if copy2_fails w \<or> path = bp \<or> fs w path = None
          then (Inr False, w\<lparr>stdout := stdout w @ [BackupFailed]\<rparr>)
          else (Inr True, w\<lparr>fs := (fs w)(bp \<mapsto> the (fs w path)),
                            stdout := stdout w @ [BackupCreated bp]\<rparr>))"
  by (auto simp: backup_config_def copy2_def hbind_def hprint_def hreturn_def
      split: sum.splits option.splits)

subsection \<open>End of file on standard input\<close>

text \<open>
  With nothing left to read, a step that returns has asked nothing: the prompts among the
  printed lines are those that were there before.
\<close>

lemma fix_permissions_eof:
  assumes "stdin w = []" and "fix_permissions path w = (r, w')"
  shows "stdin w' = [] \<and> fs w' = fs w
       \<and> (\<not> isl r \<longrightarrow> filter is_prompt (stdout w') = filter is_prompt (stdout w))"
  using assms
  by (auto simp: fix_permissions_def hbind_def hprint_def hreturn_def os_stat_def os_chmod_def
      input_choice_eq Let_def split: option.splits if_splits)

lemma fix_bind_eof:
  assumes "stdin w = []" and "fix_bind g w = (r, w')"
  shows "stdin w' = []
       \<and> (\<not> isl r \<longrightarrow> filter is_prompt (stdout w') = filter is_prompt (stdout w))"
proof (cases g)
  case (JDict gd)
  with assms show ?thesis
    by (auto simp: fix_bind_eq Let_def split: if_splits)
qed (use assms in \<open>auto simp: fix_bind_def hbind_def hval_def\<close>)

lemma fix_auth_eof:
  assumes "stdin w = []" and "fix_auth g ch w = (r, w')"
  shows "stdin w' = []
       \<and> (\<not> isl r \<longrightarrow> filter is_prompt (stdout w') = filter is_prompt (stdout w))"
proof (cases g)
  case (JDict gd)
  show ?thesis
  proof (cases "\<exists>a. (case map_of gd ''auth'' of None \<Rightarrow> JDict [] | Some v \<Rightarrow> v) = JDict a")
    case False
    then have "fix_auth (JDict gd) ch w = (Inl AttributeError, w)"
      by (simp add: fix_auth_raises)
    with assms JDict show ?thesis
      by auto
  next
    case True
    then obtain a where a: "(case map_of gd ''auth'' of None \<Rightarrow> JDict [] | Some v \<Rightarrow> v) = JDict a"
      by blast
    from assms show ?thesis
      unfolding JDict
      by (auto simp: fix_auth_eq[OF a] Let_def split: if_splits sum.splits)
  qed
qed (use assms in \<open>auto simp: fix_auth_def hbind_def hval_def\<close>)

lemma fix_channel_eof:
  assumes "stdin w = []" and "fix_channel name v w = (r, w')"
  shows "stdin w' = []
       \<and> (\<not> isl r \<longrightarrow> filter is_prompt (stdout w') = filter is_prompt (stdout w))"
proof (cases v)
  case (JDict s)
  with assms show ?thesis
    by (auto simp: fix_channel_eq Let_def split: if_splits)
qed (use assms in \<open>auto simp: fix_channel_def hbind_def hval_def\<close>)

lemma fix_channels_loop_eof:
  assumes "stdin w = []" and "fix_channels_loop items w = (r, w')"
  shows "stdin w' = []
       \<and> (\<not> isl r \<longrightarrow> filter is_prompt (stdout w') = filter is_prompt (stdout w))"
  using assms
proof (induction items arbitrary: w r w')
  case Nil
  then show ?case by auto
next
  case (Cons x xs)
  obtain n v where x: "x = (n, v)" by (cases x)
  obtain r1 w1 where 1: "fix_channel n v w = (r1, w1)"
    by (cases "fix_channel n v w")
  note d1 = fix_channel_eof[OF Cons.prems(1) 1]
  show ?case
  proof (cases r1)
    case (Inl e)
    with Cons.prems(2) x 1 have "r = Inl e" "w' = w1"
      by simp_all
    with d1 show ?thesis
      by simp
  next
    case r1: (Inr y)
    obtain r2 w2 where 2: "fix_channels_loop xs w1 = (r2, w2)"
      by (cases "fix_channels_loop xs w1")
    note d2 = Cons.IH[OF d1[THEN conjunct1] 2]
    from Cons.prems(2) x 1 r1 2 have "w' = w2" "\<not> isl r \<longrightarrow> \<not> isl r2"
      by (auto split: sum.splits prod.splits)
    with d1 d2 r1 show ?thesis
      by simp
  qed
qed

lemma fix_gateway_eof:
  assumes "stdin w = []" and "fix_gateway config w = (r, w')"
  shows "stdin w' = []
       \<and> (\<not> isl r \<longrightarrow> filter is_prompt (stdout w') = filter is_prompt (stdout w))"
proof (cases "py_get config ''gateway'' (JDict [])")
  case (Inl e)
  with assms show ?thesis
    by (auto simp: fix_gateway_unfold)
next
  case (Inr g)
  let ?w0 = "w\<lparr>stdout := stdout w @ [FixGatewayHeader]\<rparr>"
  obtain r1 w1 where 1: "fix_bind g ?w0 = (r1, w1)"
    by (cases "fix_bind g ?w0")
  from assms(1) have "stdin ?w0 = []"
    by simp
  note d1 = fix_bind_eof[OF this 1]
  show ?thesis
  proof (cases r1)
    case (Inl e)
    with assms(2) Inr 1 have "r = Inl e" "w' = w1"
      by (simp_all add: fix_gateway_unfold)
    with d1 show ?thesis
      by simp
  next
    case r1: (Inr x)
    obtain g1 ch1 where x: "x = (g1, ch1)" by (cases x)
    obtain r2 w2 where 2: "fix_auth g1 ch1 w1 = (r2, w2)"
      by (cases "fix_auth g1 ch1 w1")
    note d2 = fix_auth_eof[OF d1[THEN conjunct1] 2]
    from assms(2) Inr 1 r1 x 2 have "w' = w2" "\<not> isl r \<longrightarrow> \<not> isl r2"
      by (auto simp: fix_gateway_unfold split: sum.splits prod.splits if_splits)
    with d1 d2 r1 show ?thesis
      by simp
  qed
qed

lemma fix_channels_eof:
  assumes "stdin w = []" and "fix_channels config w = (r, w')"
  shows "stdin w' = []
       \<and> (\<not> isl r \<longrightarrow> filter is_prompt (stdout w') = filter is_prompt (stdout w))"
proof (cases "py_get config ''channels'' (JDict [])")
  case (Inl e)
  with assms show ?thesis
    by (auto simp: fix_channels_unfold)
next
  case (Inr channels)
  let ?w0 = "w\<lparr>stdout := stdout w @ [FixChannelsHeader]\<rparr>"
  show ?thesis
  proof (cases "truthy channels")
    case False
    with assms Inr show ?thesis
      by (auto simp: fix_channels_unfold)
  next
    case True
    show ?thesis
    proof (cases "py_items channels")
      case (Inl e)
      with assms Inr True show ?thesis
        by (auto simp: fix_channels_unfold)
    next
      case items: (Inr items)
      obtain r1 w1 where 1: "fix_channels_loop items ?w0 = (r1, w1)"
        by (cases "fix_channels_loop items ?w0")
      from assms(1) have "stdin ?w0 = []"
        by simp
      note d1 = fix_channels_loop_eof[OF this 1]
      from assms(2) Inr True items 1 have "w' = w1" "\<not> isl r \<longrightarrow> \<not> isl r1"
        by (auto simp: fix_channels_unfold split: sum.splits prod.splits if_splits)
      with d1 show ?thesis
        by simp
    qed
  qed
qed

lemma save_config_eq:
  "save_config config path w =
     (if open_write_fails w then (Inr False, w\<lparr>stdout := stdout w @ [ErrorSaving]\<rparr>)
      else (Inr True,
            w\<lparr>fs := (fs w)(path \<mapsto>
                    (case fs w path of
                       None \<Rightarrow> \<lparr>content = json_dump w config, st_mode = 33188\<rparr>
                     | Some f \<Rightarrow> f\<lparr>content := json_dump w config\<rparr>)),
              stdout := stdout w @ [ConfigSaved]\<rparr>))"
  by (simp add: save_config_def hbind_def hprint_def hreturn_def Let_def)

text \<open>
  The first step of a run: the backup, or nothing in a dry run. It reads no answer, and
  leaves the configuration file as it is.
\<close>

lemma backup_step:
  assumes "(if \<not> arg_dry_run a then backup_config path (w\<lparr>stdout := stdout w @ [Target path]\<rparr>)
            else (Inr True, w\<lparr>stdout := stdout w @ [Target path]\<rparr>)) = (rb, w2)"
  shows "stdin w2 = stdin w" and "fs w2 path = fs w path"
    and "rb \<noteq> Inr True \<longrightarrow> fs w2 = fs w"
    and "filter is_prompt (stdout w2) = filter is_prompt (stdout w)"
  using assms
  by (auto simp: backup_config_eq split: sum.splits if_splits)

text \<open>A run in which every answer is a decline, and one at end of file.\<close>

lemma main_declined:
  assumes decl: "list_all (\<lambda>r. lower (strip r) = ''n'') (stdin w)"
    and run: "main a w = (r, w')"
  shows "fs w' (resolve w (arg_config a)) = fs w (resolve w (arg_config a))
       \<and> (r = Inr () \<and> (\<exists>f config. fs w (resolve w (arg_config a)) = Some f \<and> \<not> open_read_fails w
              \<and> json_load w (content f) = Some config \<and> truthy config) \<longrightarrow>
            last (stdout w') = NoChangesNeeded \<or> last (stdout w') = AbortingBackupFailure)"
proof (cases "\<exists>f config. fs w (resolve w (arg_config a)) = Some f \<and> \<not> open_read_fails w
              \<and> json_load w (content f) = Some config \<and> truthy config")
  case False
  then have "fs (snd (main a w)) = fs w"
    by (intro main_not_loaded) blast
  with run have "fs w' = fs w"
    by simp
  then have "fs w' (resolve w (arg_config a)) = fs w (resolve w (arg_config a))"
    by simp
  moreover have "\<not> (r = Inr () \<and> (\<exists>f config. fs w (resolve w (arg_config a)) = Some f
      \<and> \<not> open_read_fails w \<and> json_load w (content f) = Some config \<and> truthy config))"
    using False by (rule contrapos_nn) (erule conjunct2)
  ultimately show ?thesis
    by (simp only: simp_thms)
next
  case True
  let ?p = "resolve w (arg_config a)"
  let ?w1 = "w\<lparr>stdout := stdout w @ [Target ?p]\<rparr>"
  from True obtain f config where l: "fs w ?p = Some f" "\<not> open_read_fails w"
    "json_load w (content f) = Some config" "truthy config"
    by blast
  note m = main_loaded[OF l]
  obtain rb w2 where b: "(if \<not> arg_dry_run a then backup_config ?p ?w1 else (Inr True, ?w1)) = (rb, w2)"
    by (cases "if \<not> arg_dry_run a then backup_config ?p ?w1 else (Inr True, ?w1)")
  note b2 = backup_step[OF b]
  show ?thesis
  proof (cases rb)
    case (Inl e)
    with run b have "w' = w2" "r = Inl e"
      by (simp_all add: m)
    with b2 show ?thesis by simp
  next
    case rb: (Inr bk)
    show ?thesis
    proof (cases bk)
      case False
      with run b rb have "w' = w2\<lparr>stdout := stdout w2 @ [AbortingBackupFailure]\<rparr>"
        by (simp add: m)
      with b2 show ?thesis by simp
    next
      case True
      obtain r3 w3 where 3: "fix_permissions ?p w2 = (r3, w3)"
        by (cases "fix_permissions ?p w2")
      from decl b2 have d2: "list_all (\<lambda>r. lower (strip r) = ''n'') (stdin w2)"
        by simp
      from fix_permissions_declined[OF d2, of ?p] 3
      have d3: "fs w3 = fs w2" "list_all (\<lambda>r. lower (strip r) = ''n'') (stdin w3)"
        by simp_all
      show ?thesis
      proof (cases r3)
        case (Inl e)
        with run b rb True 3 have "w' = w3" "r = Inl e"
          by (simp_all add: m)
        with b2 d3 show ?thesis by simp
      next
        case r3: (Inr x3)
        obtain r4 w4 where 4: "fix_gateway config w3 = (r4, w4)"
          by (cases "fix_gateway config w3")
        note d4 = fix_gateway_declined[OF d3(2) 4]
        from fix_gateway_fs[of config w3] 4 have f4: "fs w4 = fs w3"
          by simp
        show ?thesis
        proof (cases r4)
          case (Inl e)
          with run b rb True 3 r3 4 have "w' = w4" "r = Inl e"
            by (simp_all add: m)
          with b2 d3 f4 show ?thesis by simp
        next
          case r4: (Inr x4)
          with d4 have x4: "x4 = (False, config)"
            by simp
          obtain r5 w5 where 5: "fix_channels config w4 = (r5, w5)"
            by (cases "fix_channels config w4")
          note d5 = fix_channels_declined[OF d4[THEN conjunct1] 5]
          from fix_channels_fs[of config w4] 5 have f5: "fs w5 = fs w4"
            by simp
          show ?thesis
          proof (cases r5)
            case (Inl e)
            with run b rb True 3 r3 4 r4 x4 5 have "w' = w5" "r = Inl e"
              by (simp_all add: m)
            with b2 d3 f4 f5 show ?thesis by simp
          next
            case r5: (Inr x5)
            with d5 have "x5 = (False, config)"
              by simp
            with run b rb True 3 r3 4 r4 x4 5 r5
            have "w' = w5\<lparr>stdout := stdout w5 @ [NoChangesNeeded]\<rparr>"
              by (simp add: m)
            with b2 d3 f4 f5 show ?thesis by simp
          qed
        qed
      qed
    qed
  qed
qed

lemma main_not_loaded_prompts:
  assumes "\<forall>f config. fs w (resolve w (arg_config a)) = Some f \<and> \<not> open_read_fails w
             \<and> json_load w (content f) = Some config \<longrightarrow> \<not> truthy config"
  shows "filter is_prompt (stdout (snd (main a w))) = filter is_prompt (stdout w)"
  using assms
  by (auto simp: main_def hbind_def hreturn_def load_config_eq split: option.splits)

lemma main_eof:
  assumes eof: "stdin w = []" and run: "main a w = (r, w')"
  shows "fs w' (resolve w (arg_config a)) = fs w (resolve w (arg_config a))
       \<and> (\<not> isl r \<longrightarrow> filter is_prompt (stdout w') = filter is_prompt (stdout w))"
proof (cases "\<exists>f config. fs w (resolve w (arg_config a)) = Some f \<and> \<not> open_read_fails w
              \<and> json_load w (content f) = Some config \<and> truthy config")
  case False
  then have "fs (snd (main a w)) = fs w"
    and "filter is_prompt (stdout (snd (main a w))) = filter is_prompt (stdout w)"
    by (blast intro: main_not_loaded main_not_loaded_prompts)+
  with run show ?thesis
    by simp
next
  case True
  let ?p = "resolve w (arg_config a)"
  let ?w1 = "w\<lparr>stdout := stdout w @ [Target ?p]\<rparr>"
  from eof have decl: "list_all (\<lambda>r. lower (strip r) = ''n'') (stdin w)"
    by simp
  note fs = main_declined[OF decl run, THEN conjunct1]
  from True obtain f config where l: "fs w ?p = Some f" "\<not> open_read_fails w"
    "json_load w (content f) = Some config" "truthy config"
    by blast
  note m = main_loaded[OF l]
  obtain rb w2 where b: "(if \<not> arg_dry_run a then backup_config ?p ?w1 else (Inr True, ?w1)) = (rb, w2)"
    by (cases "if \<not> arg_dry_run a then backup_config ?p ?w1 else (Inr True, ?w1)")
  note b2 = backup_step[OF b]
  show ?thesis
  proof (cases rb)
    case (Inl e)
    with run b have "r = Inl e"
      by (simp add: m)
    with fs show ?thesis by simp
  next
    case rb: (Inr bk)
    show ?thesis
    proof (cases bk)
      case False
      with run b rb have "w' = w2\<lparr>stdout := stdout w2 @ [AbortingBackupFailure]\<rparr>"
        by (simp add: m)
      with b2 fs show ?thesis by simp
    next
      case True
      obtain r3 w3 where 3: "fix_permissions ?p w2 = (r3, w3)"
        by (cases "fix_permissions ?p w2")
      from eof b2 have e2: "stdin w2 = []"
        by simp
      note d3 = fix_permissions_eof[OF e2 3]
      show ?thesis
      proof (cases r3)
        case (Inl e)
        with run b rb True 3 have "r = Inl e"
          by (simp add: m)
        with fs show ?thesis by simp
      next
        case r3: (Inr x3)
        obtain r4 w4 where 4: "fix_gateway config w3 = (r4, w4)"
          by (cases "fix_gateway config w3")
        from d3 have e3: "stdin w3 = []"
          by simp
        then have decl3: "list_all (\<lambda>r. lower (strip r) = ''n'') (stdin w3)"
          by simp
        note d4 = fix_gateway_eof[OF e3 4]
        note c4 = fix_gateway_declined[OF decl3 4]
        show ?thesis
        proof (cases r4)
          case (Inl e)
          with run b rb True 3 r3 4 have "r = Inl e"
            by (simp add: m)
          with fs show ?thesis by simp
        next
          case r4: (Inr x4)
          with c4 have x4: "x4 = (False, config)"
            by simp
          obtain r5 w5 where 5: "fix_channels config w4 = (r5, w5)"
            by (cases "fix_channels config w4")
          from d4 have e4: "stdin w4 = []"
            by simp
          note d5 = fix_channels_eof[OF e4 5]
          note c5 = fix_channels_declined[OF c4[THEN conjunct1] 5]
          show ?thesis
          proof (cases r5)
            case (Inl e)
            with run b rb True 3 r3 4 r4 x4 5 have "r = Inl e"
              by (simp add: m)
            with fs show ?thesis by simp
          next
            case r5: (Inr x5)
            with c5 have "x5 = (False, config)"
              by simp
            with run b rb True 3 r3 4 r4 x4 5 r5
            have "w' = w5\<lparr>stdout := stdout w5 @ [NoChangesNeeded]\<rparr>"
              by (simp add: m)
            with b2 d3 d4 d5 r3 r4 r5 fs show ?thesis by simp
          qed
        qed
      qed
    qed
  qed
qed

text \<open>After the first step, a run writes to the configuration file and to no other.\<close>

lemma main_writes_one_file:
  assumes l: "fs w (resolve w (arg_config a)) = Some f" "\<not> open_read_fails w"
      "json_load w (content f) = Some config" "truthy config"
    and b: "(if \<not> arg_dry_run a
             then backup_config (resolve w (arg_config a))
                    (w\<lparr>stdout := stdout w @ [Target (resolve w (arg_config a))]\<rparr>)
             else (Inr True, w\<lparr>stdout := stdout w @ [Target (resolve w (arg_config a))]\<rparr>))
            = (rb, w2)"
    and run: "main a w = (r, w')"
    and q: "q \<noteq> resolve w (arg_config a)"
  shows "fs w' q = fs w2 q"
proof -
  let ?p = "resolve w (arg_config a)"
  note m = main_loaded[OF l]
  show ?thesis
  proof (cases rb)
    case (Inl e)
    with run b have "w' = w2"
      by (simp add: m)
    then show ?thesis by simp
  next
    case rb: (Inr bk)
    show ?thesis
    proof (cases bk)
      case False
      with run b rb have "w' = w2\<lparr>stdout := stdout w2 @ [AbortingBackupFailure]\<rparr>"
        by (simp add: m)
      then show ?thesis by simp
    next
      case True
      obtain r3 w3 where 3: "fix_permissions ?p w2 = (r3, w3)"
        by (cases "fix_permissions ?p w2")
      from fix_permissions_fs(1)[OF q, of w2] 3 have f3: "fs w3 q = fs w2 q"
        by simp
      show ?thesis
      proof (cases r3)
        case (Inl e)
        with run b rb True 3 have "w' = w3"
          by (simp add: m)
        with f3 show ?thesis by simp
      next
        case r3: (Inr x3)
        obtain r4 w4 where 4: "fix_gateway config w3 = (r4, w4)"
          by (cases "fix_gateway config w3")
        from fix_gateway_fs[of config w3] 4 have f4: "fs w4 = fs w3"
          by simp
        show ?thesis
        proof (cases r4)
          case (Inl e)
          with run b rb True 3 r3 4 have "w' = w4"
            by (simp add: m)
          with f3 f4 show ?thesis by simp
        next
          case r4: (Inr x4)
          obtain ch1 c1 where x4: "x4 = (ch1, c1)" by (cases x4)
          obtain r5 w5 where 5: "fix_channels c1 w4 = (r5, w5)"
            by (cases "fix_channels c1 w4")
          from fix_channels_fs[of c1 w4] 5 have f5: "fs w5 = fs w4"
            by simp
          show ?thesis
          proof (cases r5)
            case (Inl e)
            with run b rb True 3 r3 4 r4 x4 5 have "w' = w5"
              by (simp add: m)
            with f3 f4 f5 show ?thesis by simp
          next
            case r5: (Inr x5)
            obtain ch2 c2 where x5: "x5 = (ch2, c2)" by (cases x5)
            from run b rb True 3 r3 4 r4 x4 5 r5 x5
            have "fs w' q = fs w5 q"
              using q by (auto simp: m save_config_eq split: if_splits)
            with f3 f4 f5 show ?thesis by simp
          qed
        qed
      qed
    qed
  qed
qed

text \<open>A gateway whose only finding is the exposed bind, and a file that needs no prompt.\<close>

lemma fix_gateway_bind_declined:
  assumes "stdin w = r # rest" and "lower (strip r) = ''n''"
    and "(case map_of c ''gateway'' of None \<Rightarrow> JDict [] | Some v \<Rightarrow> v) = JDict g"
    and "map_of g ''bind'' = Some bind"
    and "bind \<in> set [JStr ''0.0.0.0'', JStr ''all'', JStr ''::'']"
    and "(case map_of g ''auth'' of None \<Rightarrow> JDict [] | Some v \<Rightarrow> v) = JDict au"
    and "(case map_of au ''mode'' of None \<Rightarrow> JStr ''token'' | Some v \<Rightarrow> v) \<noteq> JStr ''none''"
    and "(case map_of au ''mode'' of None \<Rightarrow> JStr ''token'' | Some v \<Rightarrow> v) = JStr ''token'' \<longrightarrow>
           (\<exists>n\<ge>16. py_len (case map_of au ''token'' of None \<Rightarrow> JStr [] | Some v \<Rightarrow> v) = Inr n)"
  shows "fix_gateway (JDict c) w =
           (Inr (False, JDict c),
            w\<lparr>stdin := rest,
              stdout := stdout w @ [FixGatewayHeader, GatewayExposed bind, AskChangeBind]\<rparr>)"
proof -
  let ?w0 = "w\<lparr>stdout := stdout w @ [FixGatewayHeader]\<rparr>"
  let ?w1 = "w\<lparr>stdin := rest,
              stdout := stdout w @ [FixGatewayHeader, GatewayExposed bind, AskChangeBind]\<rparr>"
  from assms(1,2,4,5) have 1: "fix_bind (JDict g) ?w0 = (Inr (JDict g, False), ?w1)"
    by (auto simp: fix_bind_eq Let_def)
  from assms(7,8) have 2: "fix_auth (JDict g) False ?w1 = (Inr (JDict g, False), ?w1)"
    by (auto simp: fix_auth_eq[OF assms(6)] Let_def)
  show ?thesis
    by (simp add: fix_gateway_eq[OF assms(3)] 1 2)
qed

lemma fix_permissions_quiet:
  assumes "platform_system w = ''Windows''
         \<or> (fs w path = Some f \<and> st_mode f AND S_IRWXO = 0 \<and> st_mode f AND S_IRWXG = 0)"
  shows "\<exists>ls. fix_permissions path w = (Inr False, w\<lparr>stdout := stdout w @ ls\<rparr>)"
proof (cases "platform_system w = ''Windows''")
  case True
  then have "fix_permissions path w =
      (Inr False, w\<lparr>stdout := stdout w @ [FixPermissionsHeader, WindowsSkipChmod,
                                           WindowsRestrictManually]\<rparr>)"
    by (simp add: fix_permissions_def hbind_def hprint_def hreturn_def)
  then show ?thesis
    by blast
next
  case False
  with assms have "fs w path = Some f" "st_mode f AND S_IRWXO = 0" "st_mode f AND S_IRWXG = 0"
    by simp_all
  with False have "fix_permissions path w =
      (Inr False, w\<lparr>stdout := stdout w @ [FixPermissionsHeader, PermissionsAlreadySecure]\<rparr>)"
    by (simp add: fix_permissions_eq[of w path f])
  then show ?thesis
    by blast
qed

lemma main_bind_declined:
  assumes "stdin w = r # rest" and "lower (strip r) = ''n''"
    and l: "fs w (resolve w (arg_config a)) = Some f" "\<not> open_read_fails w"
      "json_load w (content f) = Some (JDict c)" "truthy (JDict c)"
    and bk: "arg_dry_run a
         \<or> (\<not> copy2_fails w
            \<and> with_suffix w (resolve w (arg_config a)) ''.json.bak.security'' = Inr bp
            \<and> bp \<noteq> resolve w (arg_config a))"
    and pm: "platform_system w = ''Windows''
         \<or> (st_mode f AND S_IRWXO = 0 \<and> st_mode f AND S_IRWXG = 0)"
    and gw: "(case map_of c ''gateway'' of None \<Rightarrow> JDict [] | Some v \<Rightarrow> v) = JDict g"
      "map_of g ''bind'' = Some bind"
      "bind \<in> set [JStr ''0.0.0.0'', JStr ''all'', JStr ''::'']"
      "(case map_of g ''auth'' of None \<Rightarrow> JDict [] | Some v \<Rightarrow> v) = JDict au"
      "(case map_of au ''mode'' of None \<Rightarrow> JStr ''token'' | Some v \<Rightarrow> v) \<noteq> JStr ''none''"
      "(case map_of au ''mode'' of None \<Rightarrow> JStr ''token'' | Some v \<Rightarrow> v) = JStr ''token'' \<longrightarrow>
           (\<exists>n\<ge>16. py_len (case map_of au ''token'' of None \<Rightarrow> JStr [] | Some v \<Rightarrow> v) = Inr n)"
    and chn: "map_of c ''channels'' = None"
  shows "fst (main a w) = Inr ()
       \<and> last (stdout (snd (main a w))) = NoChangesNeeded
       \<and> fs (snd (main a w)) (resolve w (arg_config a)) = Some f
       \<and> stdin (snd (main a w)) = rest"
proof -
  let ?p = "resolve w (arg_config a)"
  let ?w1 = "w\<lparr>stdout := stdout w @ [Target ?p]\<rparr>"
  obtain w2 where b: "(if \<not> arg_dry_run a then backup_config ?p ?w1 else (Inr True, ?w1)) = (Inr True, w2)"
    and w2: "stdin w2 = r # rest" "fs w2 ?p = Some f" "platform_system w2 = platform_system w"
    using bk l(1) assms(1) by (cases "arg_dry_run a") (auto simp: backup_config_eq)
  from pm w2 have "platform_system w2 = ''Windows''
         \<or> (fs w2 ?p = Some f \<and> st_mode f AND S_IRWXO = 0 \<and> st_mode f AND S_IRWXG = 0)"
    by simp
  from fix_permissions_quiet[OF this] obtain ls where
    3: "fix_permissions ?p w2 = (Inr False, w2\<lparr>stdout := stdout w2 @ ls\<rparr>)"
    by blast
  let ?w3 = "w2\<lparr>stdout := stdout w2 @ ls\<rparr>"
  from w2 have "stdin ?w3 = r # rest"
    by simp
  note 4 = fix_gateway_bind_declined[OF this assms(2) gw]
  let ?w4 = "?w3\<lparr>stdin := rest,
              stdout := stdout ?w3 @ [FixGatewayHeader, GatewayExposed bind, AskChangeBind]\<rparr>"
  have 5: "fix_channels (JDict c) v =
      (Inr (False, JDict c), v\<lparr>stdout := stdout v @ [FixChannelsHeader]\<rparr>)" for v
    using chn by (simp add: fix_channels_unfold)
  have "main a w = (Inr (), ?w4\<lparr>stdout := stdout ?w4 @ [FixChannelsHeader, NoChangesNeeded]\<rparr>)"
    by (simp add: main_loaded[OF l] b 3 4 5)
  with w2 show ?thesis
    by simp
qed

section \<open>The answer to a prompt\<close>






lemma some_answers:
  "lower (strip ''no'') = ''no''"
  "lower (strip []) = []"
  "lower (strip ''y'') = ''y''"
  "lower (strip ''n'') = ''n''"
  "lower (strip '' N '') = ''n''"
  by code_simp+

lemma demo_token:
  "hexlify (map (\<lambda>i. of_nat i) [0..<32]) =
     ''000102030405060708090a0b0c0d0e0f101112131415161718191a1b1c1d1e1f''"
  by code_simp

section \<open>The secret scan\<close>

lemma scan_prefixes_detected:
  "detected node \<Longrightarrow>
   scan_prefixes suspicious_prefixes node path =
     ([SecretFound path (masked node), SecretRisk, SecretFix1, SecretFix2], Inl UnboundLocalError)"
  by (auto simp: detected_def suspicious_prefixes_def report_secret_def abind_def aprint_def aval_def)

lemma prefix_without_head: "prefix xs (d # zs) \<Longrightarrow> d \<notin> set xs \<Longrightarrow> xs = []"
  by (cases xs) auto

lemma sublist_across_separator:
  assumes "sublist xs (ys @ d # zs)" and "d \<notin> set xs"
  shows "sublist xs ys \<or> sublist xs zs"
proof -
  from assms(1) consider "sublist xs ys" | "sublist xs (d # zs)"
    | xs1 xs2 where "xs = xs1 @ xs2" "suffix xs1 ys" "prefix xs2 (d # zs)"
    by (auto simp: sublist_append)
  then show ?thesis
  proof cases
    case 1
    then show ?thesis by simp
  next
    case 2
    then have "prefix xs (d # zs) \<or> sublist xs zs"
      by (simp add: sublist_Cons_right)
    with assms(2) show ?thesis
      using prefix_without_head by fastforce
  next
    case 3
    with assms(2) have "xs2 = []"
      using prefix_without_head[of xs2 d zs] by auto
    with 3 show ?thesis
      by (auto intro: suffix_imp_sublist)
  qed
qed

lemma masked_dot_free:
  assumes "CHR ''.'' \<notin> set node" and "sublist node (masked node)"
  shows "length node \<le> 4"
proof -
  have "masked node = first4 node @ CHR ''.'' # (''..'' @ last4 node)"
    by (simp add: masked_def)
  with assms have "sublist node (first4 node) \<or> sublist node (''..'' @ last4 node)"
    using sublist_across_separator by metis
  moreover have "sublist node (''..'' @ last4 node) \<Longrightarrow> sublist node (''.'' @ last4 node)"
    using sublist_across_separator[of node "[]" "CHR ''.''" "''.'' @ last4 node"] assms(1) by auto
  moreover have "sublist node (''.'' @ last4 node) \<Longrightarrow> sublist node (last4 node)"
    using sublist_across_separator[of node "[]" "CHR ''.''" "last4 node"] assms(1) by auto
  ultimately have "sublist node (first4 node) \<or> sublist node (last4 node)"
    by blast
  then have "length node \<le> length (first4 node) \<or> length node \<le> length (last4 node)"
    using sublist_length_le by blast
  then show ?thesis
    by (auto simp: first4_def last4_def)
qed

lemma masked_longer_than_rendering:
  assumes "12 \<le> length node"
  shows "\<not> sublist node (masked node)"
proof
  assume "sublist node (masked node)"
  then have "length node \<le> length (masked node)"
    by (rule sublist_length_le)
  with assms show False
    by (simp add: masked_def first4_def last4_def)
qed

text \<open>
  C1. The scan of \<^verbatim>\<open>{"a": {"b": "sk-abcdef1234567890"}}\<close> prints one finding, the warning for
  location \<^verbatim>\<open>a.b\<close> with the masked text \<^verbatim>\<open>sk-a...7890\<close>, and its two advice lines begun;
  then the scan does not return: the next \<^verbatim>\<open>print\<close> raises \<^verbatim>\<open>UnboundLocalError\<close>.
\<close>

theorem check_secrets_example_raises:
  "check_secrets (JDict [(''a'', JDict [(''b'', JStr ''sk-abcdef1234567890'')])]) =
     ([HdrSecrets, SecretFound ''a.b'' ''sk-a...7890'', SecretRisk, SecretFix1, SecretFix2],
      Inl UnboundLocalError)"
  by (simp add: check_secrets_def suspicious_prefixes_def report_secret_def masked_def
      first4_def last4_def abind_def aprint_def aval_def)

text \<open>
  C2, as amended. A detected string of any length is rendered as its first four characters,
  three dots and its last four characters. The rendering does not contain the string when
  the string has more than eleven characters, or more than four and no dot; it contains the
  whole string when the string has at most four characters.
\<close>

theorem masked_hides_long_secret:
  assumes "detected node"
  shows "walk_json (JStr node) path =
           ([SecretFound path (take 4 node @ ''...'' @ drop (length node - 4) node),
             SecretRisk, SecretFix1, SecretFix2], Inl UnboundLocalError)
         \<and> (12 \<le> length node \<or> (4 < length node \<and> CHR ''.'' \<notin> set node) \<longrightarrow>
              \<not> sublist node (take 4 node @ ''...'' @ drop (length node - 4) node))
         \<and> (length node \<le> 4 \<longrightarrow>
              sublist node (take 4 node @ ''...'' @ drop (length node - 4) node))"
proof -
  have m: "masked node = take 4 node @ ''...'' @ drop (length node - 4) node"
    by (simp add: masked_def first4_def last4_def)
  have long: "\<not> sublist node (masked node)"
    if "12 \<le> length node \<or> (4 < length node \<and> CHR ''.'' \<notin> set node)"
    using that masked_longer_than_rendering masked_dot_free by fastforce
  have short: "sublist node (masked node)" if "length node \<le> 4"
  proof -
    from that have "masked node = [] @ node @ ''...'' @ node"
      by (simp add: m)
    then show ?thesis
      by (simp only: sublist_appendI)
  qed
  from assms have "walk_json (JStr node) path =
      ([SecretFound path (masked node), SecretRisk, SecretFix1, SecretFix2], Inl UnboundLocalError)"
    by (simp add: scan_prefixes_detected)
  with long short show ?thesis
    unfolding m by blast
qed

theorem masked_hides_long_secret_witness:
  "detected ''sk-abcdef1234567890''
   \<and> 12 \<le> length ''sk-abcdef1234567890''
   \<and> walk_json (JStr ''sk-abcdef1234567890'') ''a.b'' =
       ([SecretFound ''a.b'' ''sk-a...7890'', SecretRisk, SecretFix1, SecretFix2],
        Inl UnboundLocalError)
   \<and> \<not> sublist ''sk-abcdef1234567890'' ''sk-a...7890''
   \<and> detected ''ghp_''
   \<and> length ''ghp_'' \<le> 4
   \<and> walk_json (JStr ''ghp_'') ''t'' =
       ([SecretFound ''t'' ''ghp_...ghp_'', SecretRisk, SecretFix1, SecretFix2],
        Inl UnboundLocalError)
   \<and> sublist ''ghp_'' ''ghp_...ghp_''"
  using masked_hides_long_secret[of "''sk-abcdef1234567890''" "''a.b''"]
    masked_hides_long_secret[of "''ghp_''" "''t''"]
  by (simp add: detected_def suspicious_prefixes_def)

text \<open>
  The claim as stated fails for a short string: \<^verbatim>\<open>sk-a\<close> is detected, and the line printed
  for it holds the whole string.
\<close>

theorem masked_short_counterexample:
  "detected ''sk-a''
   \<and> check_secrets (JDict [(''key'', JStr ''sk-a'')]) =
       ([HdrSecrets, SecretFound ''key'' ''sk-a...sk-a'', SecretRisk, SecretFix1, SecretFix2],
        Inl UnboundLocalError)
   \<and> sublist ''sk-a'' ''sk-a...sk-a''"
  by (simp add: detected_def check_secrets_def suspicious_prefixes_def report_secret_def
      masked_def first4_def last4_def abind_def aprint_def aval_def)

section \<open>The gateway\<close>

text \<open>
  C3. A configuration whose gateway has \<^verbatim>\<open>auth.mode == "none"\<close> is reported CRITICAL by the
  audit. When the answer to the hardener's authentication prompt (the second prompt if the
  bind address is exposed, else the first) is not a decline, the run ends with
  \<^verbatim>\<open>auth.mode == "token"\<close> and a token that is the hexadecimal text of the next 32 random
  bytes: 64 characters, all in 0-9a-f. The audit of the new configuration reports the token
  as strong, and a further run of the authentication step asks and changes nothing.
\<close>

theorem disabled_auth_critical_then_strong_token:
  assumes gw: "map_of c ''gateway'' = Some (JDict g)"
    and au: "map_of g ''auth'' = Some (JDict a)"
    and mo: "map_of a ''mode'' = Some (JStr ''none'')"
    and ans: "stdin w =
       (if (case map_of g ''bind'' of None \<Rightarrow> JStr ''loopback'' | Some v \<Rightarrow> v)
             \<in> set [JStr ''0.0.0.0'', JStr ''all'', JStr ''::'']
        then r0 # r # rest else r # rest)"
    and yes: "lower (strip r) \<noteq> ''n''"
  shows "snd (check_gateway (JDict c)) = Inr ()
       \<and> last (findings (fst (check_gateway (JDict c)))) = AuthDisabled
       \<and> severity_of AuthDisabled = Some CRITICAL
       \<and> (\<exists>config' w' g' a' t.
            fix_gateway (JDict c) w = (Inr (True, config'), w')
          \<and> py_get config' ''gateway'' (JDict []) = Inr (JDict g')
          \<and> map_of g' ''auth'' = Some (JDict a')
          \<and> map_of a' ''mode'' = Some (JStr ''token'')
          \<and> map_of a' ''token'' = Some (JStr t)
          \<and> t = hexlify (map (urandom w) [0..<32])
          \<and> length t = 64 \<and> 16 \<le> length t \<and> set t \<subseteq> set ''0123456789abcdef''
          \<and> snd (check_gateway config') = Inr ()
          \<and> last (fst (check_gateway config')) = TokenAuthEnabled
          \<and> TokenWeak \<notin> set (fst (check_gateway config'))
          \<and> (\<forall>ch w2. fix_auth (JDict g') ch w2 = (Inr (JDict g', ch), w2)))"
proof -
  define t where "t = hexlify (map (urandom w) [0..<32])"
  define bind where "bind = (case map_of g ''bind'' of None \<Rightarrow> JStr ''loopback'' | Some v \<Rightarrow> v)"
  define exposed where "exposed \<longleftrightarrow> bind = JStr ''0.0.0.0'' \<or> bind = JStr ''all'' \<or> bind = JStr ''::''"
  define g1 where "g1 = (if exposed \<and> lower (strip r0) \<noteq> ''n''
                          then dict_set g ''bind'' (JStr ''loopback'') else g)"
  define a' where "a' = dict_set (dict_set a ''mode'' (JStr ''token'')) ''token'' (JStr t)"
  define g' where "g' = dict_set g1 ''auth'' (JDict a')"
  define w0 where "w0 = w\<lparr>stdout := stdout w @ [FixGatewayHeader]\<rparr>"
  have len: "length t = 64"
    by (simp add: t_def hexlify_length)
  have chars: "set t \<subseteq> set ''0123456789abcdef''"
    unfolding t_def by (rule hexlify_chars)
  have eval: "check_gateway (JDict c) =
      ([HdrGateway,
        if exposed then BindExposed bind (case map_of g ''port'' of None \<Rightarrow> JStr ''unknown'' | Some v \<Rightarrow> v)
        else if bind = JStr ''loopback'' \<or> bind = JStr ''localhost'' \<or> bind = JStr ''127.0.0.1''
        then BindLocal bind else BindCustom bind,
        AuthDisabled], Inr ())"
    using gw au mo by (simp add: check_gateway_eq[of c g a] Let_def exposed_def bind_def)
  have "\<exists>ch1 w1. fix_bind (JDict g) w0 = (Inr (JDict g1, ch1), w1)
           \<and> stdin w1 = r # rest \<and> urandom w1 = urandom w"
    using ans unfolding bind_def[symmetric]
    by (cases exposed; cases "lower (strip r0) = ''n''")
      (auto simp: fix_bind_eq Let_def w0_def g1_def exposed_def bind_def[symmetric])
  then obtain ch1 w1 where b: "fix_bind (JDict g) w0 = (Inr (JDict g1, ch1), w1)"
    and w1: "stdin w1 = r # rest" "urandom w1 = urandom w"
    by blast
  have au1: "map_of g1 ''auth'' = Some (JDict a)"
    using au by (simp add: g1_def map_of_dict_set)
  obtain w2 where f: "fix_auth (JDict g1) ch1 w1 = (Inr (JDict g', True), w2)"
    using au1 mo w1 yes by (simp add: fix_auth_eq[of g1 a] Let_def g'_def a'_def t_def)
  have run: "fix_gateway (JDict c) w = (Inr (True, JDict (dict_set c ''gateway'' (JDict g'))), w2)"
    using gw b f by (simp add: fix_gateway_eq[of c g] w0_def)
  have g'a: "map_of g' ''auth'' = Some (JDict a')"
    by (simp add: g'_def map_of_dict_set)
  have a'm: "map_of a' ''mode'' = Some (JStr ''token'')" "map_of a' ''token'' = Some (JStr t)"
    by (simp_all add: a'_def map_of_dict_set)
  have eval': "\<exists>l. check_gateway (JDict (dict_set c ''gateway'' (JDict g'))) =
          ([HdrGateway, l, TokenAuthEnabled], Inr ()) \<and> l \<noteq> TokenWeak"
    using g'a a'm len
    by (simp add: check_gateway_eq[of "dict_set c ''gateway'' (JDict g')" g' a'] map_of_dict_set Let_def)
  have again: "fix_auth (JDict g') ch w3 = (Inr (JDict g', ch), w3)" for ch w3
    using g'a a'm len by (simp add: fix_auth_eq[of g' a'] Let_def)
  have "py_get (JDict (dict_set c ''gateway'' (JDict g'))) ''gateway'' (JDict []) = Inr (JDict g')"
    by (simp add: map_of_dict_set)
  moreover have "last (findings (fst (check_gateway (JDict c)))) = AuthDisabled"
    and "snd (check_gateway (JDict c)) = Inr ()"
    by (simp_all add: eval findings_def)
  ultimately show ?thesis
    using run g'a a'm len chars eval' again
    unfolding t_def[symmetric]
    by (intro conjI exI[of _ "JDict (dict_set c ''gateway'' (JDict g'))"] exI[of _ w2]
        exI[of _ g'] exI[of _ a'] exI[of _ t]) auto
qed

theorem disabled_auth_critical_then_strong_token_witness:
  "map_of [(''gateway'', JDict [(''bind'', JStr ''0.0.0.0''), (''port'', JInt 18789),
                                 (''auth'', JDict [(''mode'', JStr ''none'')])])] ''gateway''
     = Some (JDict [(''bind'', JStr ''0.0.0.0''), (''port'', JInt 18789),
                    (''auth'', JDict [(''mode'', JStr ''none'')])])
   \<and> stdin (demo_world Map.empty [''n'', []] [] JNull) = [''n'', []]
   \<and> lower (strip []) \<noteq> ''n''
   \<and> fst (check_gateway
        (JDict [(''gateway'', JDict [(''bind'', JStr ''0.0.0.0''), (''port'', JInt 18789),
                                     (''auth'', JDict [(''mode'', JStr ''none'')])])]))
      = [HdrGateway, BindExposed (JStr ''0.0.0.0'') (JInt 18789), AuthDisabled]
   \<and> fst (fix_gateway
        (JDict [(''gateway'', JDict [(''bind'', JStr ''0.0.0.0''), (''port'', JInt 18789),
                                     (''auth'', JDict [(''mode'', JStr ''none'')])])])
        (demo_world Map.empty [''n'', []] [] JNull))
      = Inr (True,
             JDict [(''gateway'', JDict [(''bind'', JStr ''0.0.0.0''), (''port'', JInt 18789),
               (''auth'', JDict [(''mode'', JStr ''token''),
                 (''token'', JStr ''000102030405060708090a0b0c0d0e0f101112131415161718191a1b1c1d1e1f'')])])])"
  using disabled_auth_critical_then_strong_token[of
      "[(''gateway'', JDict [(''bind'', JStr ''0.0.0.0''), (''port'', JInt 18789),
                             (''auth'', JDict [(''mode'', JStr ''none'')])])]"
      "[(''bind'', JStr ''0.0.0.0''), (''port'', JInt 18789), (''auth'', JDict [(''mode'', JStr ''none'')])]"
      "[(''mode'', JStr ''none'')]"
      "demo_world Map.empty [''n'', []] [] JNull" "''n''" "[]" "[]"]
  by (simp add: demo_world_def some_answers demo_token check_gateway_eq fix_gateway_eq fix_bind_eq
      fix_auth_eq Let_def)

text \<open>
  C4. A bind address that is exactly \<^verbatim>\<open>0.0.0.0\<close>, \<^verbatim>\<open>all\<close> or \<^verbatim>\<open>::\<close> is reported FAIL, and a
  run whose answer to the bind prompt is not a decline ends with \<^verbatim>\<open>bind == "loopback"\<close>.
  A bind address that is exactly \<^verbatim>\<open>loopback\<close>, \<^verbatim>\<open>localhost\<close> or \<^verbatim>\<open>127.0.0.1\<close> is reported
  PASS; the bind step then asks nothing and changes nothing, and the whole run leaves the bind
  address as it was. After a run in which no answer declined, a second run returns the
  configuration it was given: it prints its header, reads nothing and reports no change.
\<close>

theorem bind_verdict_fix_idempotent:
  assumes gw: "(case map_of c ''gateway'' of None \<Rightarrow> JDict [] | Some v \<Rightarrow> v) = JDict g"
    and bd: "(case map_of g ''bind'' of None \<Rightarrow> JStr ''loopback'' | Some v \<Rightarrow> v) = b"
    and pt: "(case map_of g ''port'' of None \<Rightarrow> JStr ''unknown'' | Some v \<Rightarrow> v) = p"
  shows "(b \<in> set [JStr ''0.0.0.0'', JStr ''all'', JStr ''::''] \<longrightarrow>
            take 2 (fst (check_gateway (JDict c))) = [HdrGateway, BindExposed b p]
          \<and> severity_of (BindExposed b p) = Some FAIL
          \<and> (\<forall>r rest ch config' w'.
                stdin w = r # rest \<and> lower (strip r) \<noteq> ''n''
                \<and> fix_gateway (JDict c) w = (Inr (ch, config'), w')
                \<longrightarrow> ch \<and> (\<exists>g'. py_get config' ''gateway'' (JDict []) = Inr (JDict g')
                             \<and> map_of g' ''bind'' = Some (JStr ''loopback''))))
       \<and> (b \<in> set [JStr ''loopback'', JStr ''localhost'', JStr ''127.0.0.1''] \<longrightarrow>
            take 2 (fst (check_gateway (JDict c))) = [HdrGateway, BindLocal b]
          \<and> severity_of (BindLocal b) = Some PASS
          \<and> fix_bind (JDict g) w = (Inr (JDict g, False), w)
          \<and> (\<forall>ch config' w'.
                fix_gateway (JDict c) w = (Inr (ch, config'), w')
                \<longrightarrow> (\<exists>g'. py_get config' ''gateway'' (JDict []) = Inr (JDict g')
                        \<and> map_of g' ''bind'' = map_of g ''bind'')))
       \<and> (\<forall>ch config' w' w2.
             fix_gateway (JDict c) w = (Inr (ch, config'), w')
             \<and> list_all (\<lambda>r. lower (strip r) \<noteq> ''n'') (stdin w)
             \<longrightarrow> fix_gateway config' w2 =
                   (Inr (False, config'), w2\<lparr>stdout := stdout w2 @ [FixGatewayHeader]\<rparr>))"
proof (intro conjI impI allI)
  assume "b \<in> set [JStr ''0.0.0.0'', JStr ''all'', JStr ''::'']"
  then show "take 2 (fst (check_gateway (JDict c))) = [HdrGateway, BindExposed b p]"
    using bd pt by (auto simp: check_gateway_bind_line[OF gw] Let_def)
next
  show "severity_of (BindExposed b p) = Some FAIL" by simp
next
  fix r rest ch config' w'
  assume ex: "b \<in> set [JStr ''0.0.0.0'', JStr ''all'', JStr ''::'']"
    and run: "stdin w = r # rest \<and> lower (strip r) \<noteq> ''n''
                \<and> fix_gateway (JDict c) w = (Inr (ch, config'), w')"
  from fix_gateway_run[OF gw] run obtain g1 ch1 w1 g2 where
    b1: "fix_bind (JDict g) (w\<lparr>stdout := stdout w @ [FixGatewayHeader]\<rparr>) = (Inr (g1, ch1), w1)"
    and a1: "fix_auth g1 ch1 w1 = (Inr (g2, ch), w')"
    and c': "config' = (if ch then JDict (dict_set c ''gateway'' g2) else JDict c)"
    by blast
  from b1 ex bd run have g1: "g1 = JDict (dict_set g ''bind'' (JStr ''loopback''))" "ch1"
    by (auto simp: fix_bind_eq Let_def)
  from fix_auth_frame[OF a1[unfolded g1(1)]] g1(2) obtain g2' where
    "g2 = JDict g2'" "map_of g2' ''bind'' = Some (JStr ''loopback'')" "ch"
    by (auto simp: map_of_dict_set)
  with c' show "ch" and "\<exists>g'. py_get config' ''gateway'' (JDict []) = Inr (JDict g')
                             \<and> map_of g' ''bind'' = Some (JStr ''loopback'')"
    by (auto simp: map_of_dict_set)
next
  assume "b \<in> set [JStr ''loopback'', JStr ''localhost'', JStr ''127.0.0.1'']"
  then show "take 2 (fst (check_gateway (JDict c))) = [HdrGateway, BindLocal b]"
    using bd pt by (auto simp: check_gateway_bind_line[OF gw] Let_def)
next
  show "severity_of (BindLocal b) = Some PASS" by simp
next
  assume "b \<in> set [JStr ''loopback'', JStr ''localhost'', JStr ''127.0.0.1'']"
  then show "fix_bind (JDict g) w = (Inr (JDict g, False), w)"
    using bd by (auto simp: fix_bind_eq Let_def)
next
  fix ch config' w'
  assume lo: "b \<in> set [JStr ''loopback'', JStr ''localhost'', JStr ''127.0.0.1'']"
    and run: "fix_gateway (JDict c) w = (Inr (ch, config'), w')"
  from fix_gateway_run[OF gw run] obtain g1 ch1 w1 g2 where
    b1: "fix_bind (JDict g) (w\<lparr>stdout := stdout w @ [FixGatewayHeader]\<rparr>) = (Inr (g1, ch1), w1)"
    and a1: "fix_auth g1 ch1 w1 = (Inr (g2, ch), w')"
    and c': "config' = (if ch then JDict (dict_set c ''gateway'' g2) else JDict c)"
    by blast
  from b1 lo bd have g1: "g1 = JDict g"
    by (auto simp: fix_bind_eq Let_def)
  from fix_auth_frame[OF a1[unfolded g1]] obtain g2' where
    "g2 = JDict g2'" "map_of g2' ''bind'' = map_of g ''bind''"
    by auto
  with c' gw show "\<exists>g'. py_get config' ''gateway'' (JDict []) = Inr (JDict g')
                        \<and> map_of g' ''bind'' = map_of g ''bind''"
    by (auto simp: map_of_dict_set)
next
  fix ch config' w' w2
  assume run: "fix_gateway (JDict c) w = (Inr (ch, config'), w')
             \<and> list_all (\<lambda>r. lower (strip r) \<noteq> ''n'') (stdin w)"
  from fix_gateway_run[OF gw] run obtain g1 ch1 w1 g2 where
    b1: "fix_bind (JDict g) (w\<lparr>stdout := stdout w @ [FixGatewayHeader]\<rparr>) = (Inr (g1, ch1), w1)"
    and a1: "fix_auth g1 ch1 w1 = (Inr (g2, ch), w')"
    and c': "config' = (if ch then JDict (dict_set c ''gateway'' g2) else JDict c)"
    by blast
  from fix_bind_consent[OF b1] run obtain g1' where
    g1: "g1 = JDict g1'"
    and nb: "(case map_of g1' ''bind'' of None \<Rightarrow> JStr ''loopback'' | Some v \<Rightarrow> v)
                \<notin> set [JStr ''0.0.0.0'', JStr ''all'', JStr ''::'']"
    and la: "list_all (\<lambda>r. lower (strip r) \<noteq> ''n'') (stdin w1)"
    and same1: "\<not> ch1 \<longrightarrow> g1' = g"
    by auto
  from fix_auth_consent[OF a1[unfolded g1] la] obtain g2' a2 where
    g2: "g2 = JDict g2'"
    and au: "(case map_of g2' ''auth'' of None \<Rightarrow> JDict [] | Some v \<Rightarrow> v) = JDict a2"
    and mo: "(case map_of a2 ''mode'' of None \<Rightarrow> JStr ''token'' | Some v \<Rightarrow> v) \<noteq> JStr ''none''"
    and tk: "(case map_of a2 ''mode'' of None \<Rightarrow> JStr ''token'' | Some v \<Rightarrow> v) = JStr ''token'' \<longrightarrow>
                 (\<exists>n\<ge>16. py_len (case map_of a2 ''token'' of None \<Rightarrow> JStr [] | Some v \<Rightarrow> v) = Inr n)"
    and bs: "map_of g2' ''bind'' = map_of g1' ''bind''"
    and same2: "\<not> ch \<longrightarrow> g2' = g1' \<and> \<not> ch1"
    by blast
  from nb bs have nb2: "(case map_of g2' ''bind'' of None \<Rightarrow> JStr ''loopback'' | Some v \<Rightarrow> v)
                \<notin> set [JStr ''0.0.0.0'', JStr ''all'', JStr ''::'']"
    by simp
  show "fix_gateway config' w2 = (Inr (False, config'), w2\<lparr>stdout := stdout w2 @ [FixGatewayHeader]\<rparr>)"
  proof (cases ch)
    case True
    with c' g2 have "config' = JDict (dict_set c ''gateway'' (JDict g2'))"
      by simp
    moreover have "(case map_of (dict_set c ''gateway'' (JDict g2')) ''gateway'' of
                      None \<Rightarrow> JDict [] | Some v \<Rightarrow> v) = JDict g2'"
      by (simp add: map_of_dict_set)
    ultimately show ?thesis
      using fix_gateway_settled[OF _ au nb2 mo] tk by simp
  next
    case False
    with c' same1 same2 have "config' = JDict c" "g2' = g"
      by auto
    then show ?thesis
      using fix_gateway_settled[OF gw au[unfolded \<open>g2' = g\<close>] nb2[unfolded \<open>g2' = g\<close>] mo] tk by simp
  qed
qed

theorem bind_verdict_fix_idempotent_witness:
  "fst (check_gateway
        (JDict [(''gateway'', JDict [(''bind'', JStr ''0.0.0.0''), (''port'', JInt 18789),
                                     (''auth'', JDict [(''mode'', JStr ''none'')])])]))
      = [HdrGateway, BindExposed (JStr ''0.0.0.0'') (JInt 18789), AuthDisabled]
   \<and> fst (fix_gateway
        (JDict [(''gateway'', JDict [(''bind'', JStr ''0.0.0.0''), (''port'', JInt 18789),
                                     (''auth'', JDict [(''mode'', JStr ''none'')])])])
        (demo_world Map.empty [''y'', ''y''] [] JNull))
      = Inr (True,
             JDict [(''gateway'', JDict [(''bind'', JStr ''loopback''), (''port'', JInt 18789),
               (''auth'', JDict [(''mode'', JStr ''token''),
                 (''token'', JStr ''000102030405060708090a0b0c0d0e0f101112131415161718191a1b1c1d1e1f'')])])])
   \<and> fix_gateway
        (JDict [(''gateway'', JDict [(''bind'', JStr ''loopback''), (''port'', JInt 18789),
               (''auth'', JDict [(''mode'', JStr ''token''),
                 (''token'', JStr ''000102030405060708090a0b0c0d0e0f101112131415161718191a1b1c1d1e1f'')])])])
        (demo_world Map.empty [] [] JNull)
      = (Inr (False,
             JDict [(''gateway'', JDict [(''bind'', JStr ''loopback''), (''port'', JInt 18789),
               (''auth'', JDict [(''mode'', JStr ''token''),
                 (''token'', JStr ''000102030405060708090a0b0c0d0e0f101112131415161718191a1b1c1d1e1f'')])])]),
         (demo_world Map.empty [] [] JNull)\<lparr>stdout := [FixGatewayHeader]\<rparr>)"
  using bind_verdict_fix_idempotent[of
      "[(''gateway'', JDict [(''bind'', JStr ''0.0.0.0''), (''port'', JInt 18789),
                             (''auth'', JDict [(''mode'', JStr ''none'')])])]"
      "[(''bind'', JStr ''0.0.0.0''), (''port'', JInt 18789), (''auth'', JDict [(''mode'', JStr ''none'')])]"
      "JStr ''0.0.0.0''" "JInt 18789"
      "demo_world Map.empty [''y'', ''y''] [] JNull"]
  by (simp add: demo_world_def some_answers demo_token check_gateway_eq fix_gateway_eq fix_bind_eq
      fix_auth_eq Let_def)

section \<open>The channels\<close>

text \<open>
  C5, as amended. In a channels mapping whose values are all dicts, a channel whose
  \<^verbatim>\<open>enabled\<close> is absent or false in Python's sense (false, null, zero, an empty string, list
  or dict) is skipped: the audit prints nothing for it and the hardener neither asks nor
  changes anything, whatever its policies. A channel whose \<^verbatim>\<open>enabled\<close> is true in Python's
  sense (so also a non-empty string or a non-zero number) and whose \<^verbatim>\<open>dmPolicy\<close> is
  \<^verbatim>\<open>open\<close> is reported FAIL, and a non-declining answer sets its \<^verbatim>\<open>dmPolicy\<close> to
  \<^verbatim>\<open>pairing\<close>. In the audit of the whole configuration the lines of the channel stand
  between those of the channels before and after it; in a run of the hardener that returns,
  the channel's settings in the resulting configuration are what the loop body made of them
  in the environment the earlier channels left. The run returns when there is an answer
  for every channel.
\<close>

theorem channel_skip_and_dm_fix:
  assumes ch: "map_of c ''channels'' = Some (JDict items)"
    and it: "items = pre @ (name, JDict s) # post"
    and wf: "list_all (\<lambda>(n, v). is_dict v) items"
    and en: "(case map_of s ''enabled'' of None \<Rightarrow> JBool False | Some v \<Rightarrow> v) = enabled"
    and dm: "(case map_of s ''dmPolicy'' of None \<Rightarrow> JStr ''pairing'' | Some v \<Rightarrow> v) = dm_policy"
  shows "check_channels (JDict c) =
           (HdrChannels # fst (check_channels_loop pre) @ fst (check_channel name (JDict s))
              @ fst (check_channels_loop post), Inr ())
       \<and> (\<not> truthy enabled \<longrightarrow>
             check_channel name (JDict s) = ([], Inr ())
           \<and> (\<forall>w. fix_channel name (JDict s) w = (Inr (JDict s, False), w)))
       \<and> (truthy enabled \<and> dm_policy = JStr ''open'' \<longrightarrow>
             take 2 (fst (check_channel name (JDict s))) = [Inspecting name, DmOpen]
           \<and> severity_of DmOpen = Some FAIL
           \<and> (\<forall>w r rest. stdin w = r # rest \<and> lower (strip r) \<noteq> ''n'' \<longrightarrow>
                 fst (fix_channel name (JDict s) w) =
                   Inr (JDict (dict_set s ''dmPolicy'' (JStr ''pairing'')), True)
               \<and> stdin (snd (fix_channel name (JDict s) w)) = rest))
       \<and> (\<forall>w changed config' w'.
             fix_channels (JDict c) w = (Inr (changed, config'), w') \<longrightarrow>
             (\<exists>pre' s' post' c1 c2 w1 w2.
                 fix_channels_loop pre (w\<lparr>stdout := stdout w @ [FixChannelsHeader]\<rparr>)
                   = (Inr (pre', c1), w1)
               \<and> fix_channel name (JDict s) w1 = (Inr (s', c2), w2)
               \<and> py_get config' ''channels'' (JDict []) = Inr (JDict (pre' @ (name, s') # post'))
               \<and> length pre' = length pre \<and> length post' = length post
               \<and> (c2 \<longrightarrow> changed)))
       \<and> (\<forall>w. length items \<le> length (stdin w) \<longrightarrow> \<not> isl (fst (fix_channels (JDict c) w)))"
proof (intro conjI impI allI)
  have ne: "items \<noteq> []"
    using it by simp
  from wf it have "snd (check_channels_loop pre) = Inr ()" "snd (check_channel name (JDict s)) = Inr ()"
    "snd (check_channels_loop post) = Inr ()"
    by (simp_all add: check_channels_loop_dicts check_channel_not_raising)
  then show "check_channels (JDict c) =
           (HdrChannels # fst (check_channels_loop pre) @ fst (check_channel name (JDict s))
              @ fst (check_channels_loop post), Inr ())"
    by (auto simp: check_channels_eq[OF ch ne] it check_channels_loop_append
        split: prod.splits sum.splits)
  {
    fix w :: world
    assume "length items \<le> length (stdin w)"
    then have "\<not> isl (fst (fix_channels_loop items (w\<lparr>stdout := stdout w @ [FixChannelsHeader]\<rparr>)))"
      using fix_channels_loop_completes[OF wf] by simp
    then show "\<not> isl (fst (fix_channels (JDict c) w))"
      by (auto simp: fix_channels_eq[OF ch ne] split: prod.splits sum.splits)
  }
  {
    fix w :: world and changed config' w'
    assume run: "fix_channels (JDict c) w = (Inr (changed, config'), w')"
    let ?w0 = "w\<lparr>stdout := stdout w @ [FixChannelsHeader]\<rparr>"
    from run obtain items' where
      loop: "fix_channels_loop items ?w0 = (Inr (items', changed), w')"
      and c': "config' = (if changed then JDict (dict_set c ''channels'' (JDict items')) else JDict c)"
      by (auto simp: fix_channels_eq[OF ch ne] split: prod.splits sum.splits)
    have same: "items' = items" if "\<not> changed"
      using loop that fix_channels_loop_unchanged[of items ?w0 items' w'] by simp
    have get: "py_get config' ''channels'' (JDict []) = Inr (JDict items')"
      using c' ch same by (auto simp: map_of_dict_set)
    from loop obtain pre' c1 w1 rest' c23 where
      p: "fix_channels_loop pre ?w0 = (Inr (pre', c1), w1)"
      and r: "fix_channels_loop ((name, JDict s) # post) w1 = (Inr (rest', c23), w')"
      and i': "items' = pre' @ rest'" and cc: "changed = (c1 \<or> c23)"
      unfolding it by (auto simp: fix_channels_loop_append split: prod.splits sum.splits)
    from r obtain s' c2 w2 post' c3 where
      b: "fix_channel name (JDict s) w1 = (Inr (s', c2), w2)"
      and q: "fix_channels_loop post w2 = (Inr (post', c3), w')"
      and r': "rest' = (name, s') # post'" and cc2: "c23 = (c2 \<or> c3)"
      by (auto split: prod.splits sum.splits)
    show "\<exists>pre' s' post' c1 c2 w1 w2.
                 fix_channels_loop pre ?w0 = (Inr (pre', c1), w1)
               \<and> fix_channel name (JDict s) w1 = (Inr (s', c2), w2)
               \<and> py_get config' ''channels'' (JDict []) = Inr (JDict (pre' @ (name, s') # post'))
               \<and> length pre' = length pre \<and> length post' = length post
               \<and> (c2 \<longrightarrow> changed)"
      using p b get i' r' cc cc2 fix_channels_loop_length[OF p] fix_channels_loop_length[OF q]
      by blast
  }
next
  assume "\<not> truthy enabled"
  then show "check_channel name (JDict s) = ([], Inr ())"
    using en by (simp add: check_channel_eq Let_def)
next
  fix w :: world
  assume "\<not> truthy enabled"
  then show "fix_channel name (JDict s) w = (Inr (JDict s, False), w)"
    using en by (simp add: fix_channel_eq Let_def)
next
  assume "truthy enabled \<and> dm_policy = JStr ''open''"
  then show "take 2 (fst (check_channel name (JDict s))) = [Inspecting name, DmOpen]"
    using en dm by (simp add: check_channel_eq Let_def)
next
  show "severity_of DmOpen = Some FAIL" by simp
next
  fix w :: world and r rest
  assume "truthy enabled \<and> dm_policy = JStr ''open''"
    and "stdin w = r # rest \<and> lower (strip r) \<noteq> ''n''"
  then show "fst (fix_channel name (JDict s) w) =
                   Inr (JDict (dict_set s ''dmPolicy'' (JStr ''pairing'')), True)"
    and "stdin (snd (fix_channel name (JDict s) w)) = rest"
    using en dm by (simp_all add: fix_channel_eq Let_def)
qed

theorem channel_skip_and_dm_fix_witness:
  "map_of [(''channels'', JDict
         [(''slack'', JDict [(''enabled'', JBool False), (''dmPolicy'', JStr ''open'')]),
          (''telegram'', JDict [(''enabled'', JBool True), (''dmPolicy'', JStr ''open'')])])]
      ''channels''
      = Some (JDict
         [(''slack'', JDict [(''enabled'', JBool False), (''dmPolicy'', JStr ''open'')]),
          (''telegram'', JDict [(''enabled'', JBool True), (''dmPolicy'', JStr ''open'')])])
   \<and> list_all (\<lambda>(n, v). is_dict v)
     [(''slack'', JDict [(''enabled'', JBool False), (''dmPolicy'', JStr ''open'')]),
      (''telegram'', JDict [(''enabled'', JBool True), (''dmPolicy'', JStr ''open'')])]
   \<and> truthy (JBool True) \<and> \<not> truthy (JBool False)
   \<and> stdin (demo_world Map.empty [''y''] [] JNull) = [''y'']
   \<and> lower (strip ''y'') \<noteq> ''n''
   \<and> check_channels (JDict [(''channels'', JDict
         [(''slack'', JDict [(''enabled'', JBool False), (''dmPolicy'', JStr ''open'')]),
          (''telegram'', JDict [(''enabled'', JBool True), (''dmPolicy'', JStr ''open'')])])])
      = ([HdrChannels, Inspecting ''telegram'', DmOpen, GroupOther (JStr ''allowlist'')], Inr ())
   \<and> check_channel ''slack'' (JDict [(''enabled'', JBool False), (''dmPolicy'', JStr ''open'')])
      = ([], Inr ())
   \<and> fst (fix_channel ''slack'' (JDict [(''enabled'', JBool False), (''dmPolicy'', JStr ''open'')])
        (demo_world Map.empty [''y''] [] JNull))
      = Inr (JDict [(''enabled'', JBool False), (''dmPolicy'', JStr ''open'')], False)
   \<and> fst (fix_channel ''telegram'' (JDict [(''enabled'', JBool True), (''dmPolicy'', JStr ''open'')])
        (demo_world Map.empty [''y''] [] JNull))
      = Inr (JDict [(''enabled'', JBool True), (''dmPolicy'', JStr ''pairing'')], True)
   \<and> \<not> isl (fst (fix_channels (JDict [(''channels'', JDict
         [(''slack'', JDict [(''enabled'', JBool False), (''dmPolicy'', JStr ''open'')]),
          (''telegram'', JDict [(''enabled'', JBool True), (''dmPolicy'', JStr ''open'')])])])
        (demo_world Map.empty [''y'', ''y''] [] JNull)))"
proof -
  let ?slack = "[(''enabled'', JBool False), (''dmPolicy'', JStr ''open'')]"
  let ?telegram = "[(''enabled'', JBool True), (''dmPolicy'', JStr ''open'')]"
  let ?items = "[(''slack'', JDict ?slack), (''telegram'', JDict ?telegram)]"
  let ?c = "[(''channels'', JDict ?items)]"
  let ?w = "demo_world Map.empty [''y''] [] JNull"
  let ?w2 = "demo_world Map.empty [''y'', ''y''] [] JNull"
  have y: "lower (strip ''y'') \<noteq> ''n''"
    by (simp add: some_answers)
  have w: "stdin ?w = [''y'']"
    by (simp add: demo_world_def)
  have w2: "length ?items \<le> length (stdin ?w2)"
    by (simp add: demo_world_def)
  have ch: "map_of ?c ''channels'' = Some (JDict ?items)"
    by simp
  have wf: "list_all (\<lambda>(n, v). is_dict v) ?items"
    by simp
  have it1: "?items = [(''slack'', JDict ?slack)] @ (''telegram'', JDict ?telegram) # []"
    by simp
  have it2: "?items = [] @ (''slack'', JDict ?slack) # [(''telegram'', JDict ?telegram)]"
    by simp
  have en1: "(case map_of ?telegram ''enabled'' of None \<Rightarrow> JBool False | Some v \<Rightarrow> v) = JBool True"
    and dm1: "(case map_of ?telegram ''dmPolicy'' of None \<Rightarrow> JStr ''pairing'' | Some v \<Rightarrow> v) = JStr ''open''"
    and en2: "(case map_of ?slack ''enabled'' of None \<Rightarrow> JBool False | Some v \<Rightarrow> v) = JBool False"
    and dm2: "(case map_of ?slack ''dmPolicy'' of None \<Rightarrow> JStr ''pairing'' | Some v \<Rightarrow> v) = JStr ''open''"
    by simp_all
  note t1 = channel_skip_and_dm_fix[OF ch it1 wf en1 dm1]
  note t2 = channel_skip_and_dm_fix[OF ch it2 wf en2 dm2]
  have off: "\<not> truthy (JBool False)" and on: "truthy (JBool True) \<and> JStr ''open'' = JStr ''open''"
    by simp_all
  note skip = t2[THEN conjunct2, THEN conjunct1, THEN mp, OF off]
  note slack = skip[THEN conjunct1] and slack_fix = skip[THEN conjunct2]
  have c3: "fst (fix_channel ''slack'' (JDict ?slack) ?w) = Inr (JDict ?slack, False)"
    by (simp add: slack_fix)
  note tgb = t1[THEN conjunct2, THEN conjunct2, THEN conjunct1, THEN mp, OF on]
  note tg_fix = tgb[THEN conjunct2, THEN conjunct2]
  have "fst (fix_channel ''telegram'' (JDict ?telegram) ?w) =
          Inr (JDict (dict_set ?telegram ''dmPolicy'' (JStr ''pairing'')), True)"
    using tg_fix w y by blast
  then have c4: "fst (fix_channel ''telegram'' (JDict ?telegram) ?w)
      = Inr (JDict [(''enabled'', JBool True), (''dmPolicy'', JStr ''pairing'')], True)"
    by simp
  have audit: "fst (check_channels_loop [(''slack'', JDict ?slack)]) = []"
    "fst (check_channel ''telegram'' (JDict ?telegram))
       = [Inspecting ''telegram'', DmOpen, GroupOther (JStr ''allowlist'')]"
    "fst (check_channels_loop []) = []"
    by (simp_all add: slack check_channel_eq Let_def)
  have c1: "check_channels (JDict ?c)
      = ([HdrChannels, Inspecting ''telegram'', DmOpen, GroupOther (JStr ''allowlist'')], Inr ())"
    unfolding t1[THEN conjunct1] audit by simp
  have c5: "\<not> isl (fst (fix_channels (JDict ?c) ?w2))"
    using t1[THEN conjunct2, THEN conjunct2, THEN conjunct2, THEN conjunct2] w2 by blast
  from ch wf c1 slack c3 c4 c5 w y show ?thesis
    by simp
qed

text \<open>
  The claim as stated fails for a value of \<^verbatim>\<open>enabled\<close> that is not \<^verbatim>\<open>true\<close> and yet true in
  Python's sense: a channel with \<^verbatim>\<open>"enabled": "false"\<close> (a string) is inspected, reported
  FAIL and remedied.
\<close>

theorem channel_enabled_string_counterexample:
  "JStr ''false'' \<noteq> JBool True
   \<and> check_channels (JDict [(''channels'', JDict
         [(''telegram'', JDict [(''enabled'', JStr ''false''), (''dmPolicy'', JStr ''open'')])])])
      = ([HdrChannels, Inspecting ''telegram'', DmOpen, GroupOther (JStr ''allowlist'')], Inr ())
   \<and> fst (fix_channels (JDict [(''channels'', JDict
         [(''telegram'', JDict [(''enabled'', JStr ''false''), (''dmPolicy'', JStr ''open'')])])])
        (demo_world Map.empty [''y''] [] JNull))
      = Inr (True, JDict [(''channels'', JDict
         [(''telegram'', JDict [(''enabled'', JStr ''false''), (''dmPolicy'', JStr ''pairing'')])])])"
  by (simp add: demo_world_def some_answers check_channels_eq fix_channels_eq check_channel_eq
      fix_channel_eq Let_def)

section \<open>File permissions\<close>

text \<open>
  C6, as amended. On a POSIX platform the audit reports FAIL when a bit of the role "other" is
  set, WARN when none is but a bit of the role "group" is, and PASS when neither role has a
  bit. The hardener applies its fix exactly when one of these bits is set, the answer is not
  a decline and chmod succeeds; the file then has the mode bits 0o600 exactly, so no group or
  other bit, with its content and its file type as before. (The owner's read and write bits
  are set whether they were set before or not.)
\<close>

theorem permission_verdict_and_fix:
  assumes "platform_system w \<noteq> ''Windows''" and "fs w path = Some f"
  shows "map severity_of (findings (fst (check_file_permissions w path))) =
           [Some (if st_mode f AND S_IRWXO \<noteq> 0 then FAIL
                  else if st_mode f AND S_IRWXG \<noteq> 0 then WARN else PASS)]
         \<and> (fst (fix_permissions path w) = Inr True \<longleftrightarrow>
              (st_mode f AND S_IRWXO \<noteq> 0 \<or> st_mode f AND S_IRWXG \<noteq> 0)
              \<and> (\<exists>r rest. stdin w = r # rest \<and> lower (strip r) \<noteq> ''n'')
              \<and> \<not> chmod_fails w)
         \<and> (fst (fix_permissions path w) = Inr True \<longrightarrow>
              (\<exists>f'. fs (snd (fix_permissions path w)) path = Some f'
                 \<and> S_IMODE (st_mode f') = mode_0o600
                 \<and> st_mode f' AND S_IRWXO = 0 \<and> st_mode f' AND S_IRWXG = 0
                 \<and> st_mode f' AND NOT 4095 = st_mode f AND NOT 4095
                 \<and> content f' = content f))"
proof -
  have verdict: "map severity_of (findings (fst (check_file_permissions w path))) =
           [Some (if st_mode f AND S_IRWXO \<noteq> 0 then FAIL
                  else if st_mode f AND S_IRWXG \<noteq> 0 then WARN else PASS)]"
    using assms
    by (simp add: check_file_permissions_def findings_def abind_def aprint_def aval_def Let_def)
  have applied: "fst (fix_permissions path w) = Inr True \<longleftrightarrow>
              (st_mode f AND S_IRWXO \<noteq> 0 \<or> st_mode f AND S_IRWXG \<noteq> 0)
              \<and> (\<exists>r rest. stdin w = r # rest \<and> lower (strip r) \<noteq> ''n'')
              \<and> \<not> chmod_fails w"
    by (cases "stdin w") (auto simp: fix_permissions_eq[OF assms])
  have result: "\<exists>f'. fs (snd (fix_permissions path w)) path = Some f'
                 \<and> S_IMODE (st_mode f') = mode_0o600
                 \<and> st_mode f' AND S_IRWXO = 0 \<and> st_mode f' AND S_IRWXG = 0
                 \<and> st_mode f' AND NOT 4095 = st_mode f AND NOT 4095
                 \<and> content f' = content f"
    if "fst (fix_permissions path w) = Inr True"
  proof -
    let ?f' = "f\<lparr>st_mode := (st_mode f AND NOT 4095) OR (mode_0o600 AND 4095)\<rparr>"
    from that applied obtain r rest where
      "st_mode f AND S_IRWXO \<noteq> 0 \<or> st_mode f AND S_IRWXG \<noteq> 0"
      "stdin w = r # rest" "lower (strip r) \<noteq> ''n''" "\<not> chmod_fails w"
      by blast
    then have "fs (snd (fix_permissions path w)) path = Some ?f'"
      by (simp add: fix_permissions_eq[OF assms])
    moreover have "S_IMODE (st_mode ?f') = mode_0o600"
      using chmod_sets_mode[of "st_mode f"] by simp
    moreover from this have "st_mode ?f' AND S_IRWXO = 0 \<and> st_mode ?f' AND S_IRWXG = 0"
      by (rule mode_0o600_no_group_other)
    moreover have "st_mode ?f' AND NOT 4095 = st_mode f AND NOT 4095"
      using chmod_keeps_type[of "st_mode f"] by simp
    ultimately show ?thesis
      by simp
  qed
  from verdict applied result show ?thesis
    by blast
qed

theorem permission_verdict_and_fix_witness:
  "platform_system (demo_world [''/etc/bot.json'' \<mapsto> \<lparr>content = ''{}'', st_mode = 33188\<rparr>] [''y''] ''{}'' (JDict []))
     \<noteq> ''Windows''
   \<and> map severity_of (findings (fst (check_file_permissions
        (demo_world [''/etc/bot.json'' \<mapsto> \<lparr>content = ''{}'', st_mode = 33188\<rparr>] [''y''] ''{}'' (JDict []))
        ''/etc/bot.json''))) = [Some FAIL]
   \<and> fst (fix_permissions ''/etc/bot.json''
        (demo_world [''/etc/bot.json'' \<mapsto> \<lparr>content = ''{}'', st_mode = 33188\<rparr>] [''y''] ''{}'' (JDict [])))
      = Inr True
   \<and> map_option st_mode (fs (snd (fix_permissions ''/etc/bot.json''
        (demo_world [''/etc/bot.json'' \<mapsto> \<lparr>content = ''{}'', st_mode = 33188\<rparr>] [''y''] ''{}'' (JDict []))))
        ''/etc/bot.json'') = Some 33152"
  using permission_verdict_and_fix[of
      "demo_world [''/etc/bot.json'' \<mapsto> \<lparr>content = ''{}'', st_mode = 33188\<rparr>] [''y''] ''{}'' (JDict [])"
      "''/etc/bot.json''" "\<lparr>content = ''{}'', st_mode = 33188\<rparr>"]
  by (simp add: demo_world_def S_IRWXO_def S_IRWXG_def mode_0o600_def fix_permissions_eq
      lower_def strip_def isspace_def lower_char_def)

text \<open>
  The claim as stated fails where it says that the fix never widens permissions: a read-only
  file of mode 0o100444 (33060) gets the mode 0o100600 (33152), and the owner's write bit
  0o200 (128), clear before, is set after.
\<close>

theorem permission_fix_widens_counterexample:
  "fst (fix_permissions ''/etc/bot.json''
        (demo_world [''/etc/bot.json'' \<mapsto> \<lparr>content = ''{}'', st_mode = 33060\<rparr>] [''y''] ''{}'' (JDict [])))
      = Inr True
   \<and> map_option st_mode (fs (snd (fix_permissions ''/etc/bot.json''
        (demo_world [''/etc/bot.json'' \<mapsto> \<lparr>content = ''{}'', st_mode = 33060\<rparr>] [''y''] ''{}'' (JDict []))))
        ''/etc/bot.json'') = Some 33152
   \<and> (33060 :: 32 word) AND 128 = 0
   \<and> (33152 :: 32 word) AND 128 = 128"
  by (simp add: demo_world_def S_IRWXO_def S_IRWXG_def mode_0o600_def fix_permissions_eq
      lower_def strip_def isspace_def lower_char_def)

section \<open>A declined proposal\<close>

text \<open>
  C7. When the answer at a prompt is a decline, the step returns what it was given: the
  mode of the file, the gateway dict (so its \<^verbatim>\<open>bind\<close>), the \<^verbatim>\<open>auth\<close> dict and the flag, the
  channel's settings. After a declined first answer, the \<^verbatim>\<open>bind\<close> is unchanged in whatever
  \<^verbatim>\<open>fix_gateway\<close> returns, also when a later proposal is accepted. When the exposed bind is
  the only finding and it is declined, \<^verbatim>\<open>fix_gateway\<close> returns \<^verbatim>\<open>False\<close> and the
  configuration as it was, and the run returns, reports that no changes were needed or
  applied, and leaves the configuration file as it was. In every run in which all answers
  are declines the configuration file is left as it was, and a run that returns ends with
  that report (or with the abort after a failed backup).
\<close>

theorem declined_proposal_changes_nothing:
  assumes "stdin w = r # rest" and "lower (strip r) = ''n''"
  shows "(platform_system w \<noteq> ''Windows'' \<and> fs w path = Some f \<longrightarrow>
            fst (fix_permissions path w) = Inr False
          \<and> fs (snd (fix_permissions path w)) = fs w)
       \<and> fst (fix_bind (JDict g) w) = Inr (JDict g, False)
       \<and> ((case map_of g ''auth'' of None \<Rightarrow> JDict [] | Some v \<Rightarrow> v) = JDict au
            \<and> ((case map_of au ''mode'' of None \<Rightarrow> JStr ''token'' | Some v \<Rightarrow> v) = JStr ''token'' \<longrightarrow>
                 \<not> isl (py_len (case map_of au ''token'' of None \<Rightarrow> JStr [] | Some v \<Rightarrow> v))) \<longrightarrow>
            fst (fix_auth (JDict g) ch w) = Inr (JDict g, ch)
          \<and> urandom (snd (fix_auth (JDict g) ch w)) = urandom w)
       \<and> fst (fix_channel name (JDict s) w) = Inr (JDict s, False)
       \<and> ((case map_of c ''gateway'' of None \<Rightarrow> JDict [] | Some v \<Rightarrow> v) = JDict g \<longrightarrow>
            (\<forall>changed config' w'.
               fix_gateway (JDict c) w = (Inr (changed, config'), w') \<longrightarrow>
               (\<exists>g'. py_get config' ''gateway'' (JDict []) = Inr (JDict g')
                    \<and> map_of g' ''bind'' = map_of g ''bind'')))
       \<and> ((case map_of c ''gateway'' of None \<Rightarrow> JDict [] | Some v \<Rightarrow> v) = JDict g
            \<and> map_of g ''bind'' = Some bind
            \<and> bind \<in> set [JStr ''0.0.0.0'', JStr ''all'', JStr ''::'']
            \<and> (case map_of g ''auth'' of None \<Rightarrow> JDict [] | Some v \<Rightarrow> v) = JDict au
            \<and> (case map_of au ''mode'' of None \<Rightarrow> JStr ''token'' | Some v \<Rightarrow> v) \<noteq> JStr ''none''
            \<and> ((case map_of au ''mode'' of None \<Rightarrow> JStr ''token'' | Some v \<Rightarrow> v) = JStr ''token'' \<longrightarrow>
                 (\<exists>n\<ge>16. py_len (case map_of au ''token'' of None \<Rightarrow> JStr [] | Some v \<Rightarrow> v) = Inr n)) \<longrightarrow>
            fix_gateway (JDict c) w =
              (Inr (False, JDict c),
               w\<lparr>stdin := rest,
                 stdout := stdout w @ [FixGatewayHeader, GatewayExposed bind, AskChangeBind]\<rparr>)
          \<and> (fs w (resolve w (arg_config a)) = Some f \<and> \<not> open_read_fails w
               \<and> json_load w (content f) = Some (JDict c)
               \<and> (arg_dry_run a
                  \<or> (\<not> copy2_fails w
                     \<and> with_suffix w (resolve w (arg_config a)) ''.json.bak.security'' = Inr bp
                     \<and> bp \<noteq> resolve w (arg_config a)))
               \<and> (platform_system w = ''Windows''
                  \<or> (st_mode f AND S_IRWXO = 0 \<and> st_mode f AND S_IRWXG = 0))
               \<and> map_of c ''channels'' = None \<longrightarrow>
               fst (main a w) = Inr ()
             \<and> last (stdout (snd (main a w))) = NoChangesNeeded
             \<and> fs (snd (main a w)) (resolve w (arg_config a)) = Some f
             \<and> stdin (snd (main a w)) = rest))
       \<and> (list_all (\<lambda>r. lower (strip r) = ''n'') rest \<longrightarrow>
            (\<forall>a r' w'. main a w = (r', w') \<longrightarrow>
               fs w' (resolve w (arg_config a)) = fs w (resolve w (arg_config a))
             \<and> (r' = Inr ()
                  \<and> (\<exists>f config. fs w (resolve w (arg_config a)) = Some f \<and> \<not> open_read_fails w
                        \<and> json_load w (content f) = Some config \<and> truthy config) \<longrightarrow>
                  last (stdout w') = NoChangesNeeded
                \<or> last (stdout w') = AbortingBackupFailure)))"
proof -
  have p1: "fst (fix_permissions path w) = Inr False \<and> fs (snd (fix_permissions path w)) = fs w"
    if "platform_system w \<noteq> ''Windows'' \<and> fs w path = Some f"
    using that assms by (simp add: fix_permissions_eq[of w path f])
  have p2: "fst (fix_bind (JDict g) w) = Inr (JDict g, False)"
    using assms by (simp add: fix_bind_eq Let_def)
  have p3: "fst (fix_auth (JDict g) ch w) = Inr (JDict g, ch)
          \<and> urandom (snd (fix_auth (JDict g) ch w)) = urandom w"
    if "(case map_of g ''auth'' of None \<Rightarrow> JDict [] | Some v \<Rightarrow> v) = JDict au
        \<and> ((case map_of au ''mode'' of None \<Rightarrow> JStr ''token'' | Some v \<Rightarrow> v) = JStr ''token'' \<longrightarrow>
             \<not> isl (py_len (case map_of au ''token'' of None \<Rightarrow> JStr [] | Some v \<Rightarrow> v)))"
    using that assms by (auto simp: fix_auth_eq[of g au] Let_def split: sum.splits)
  have p4: "fst (fix_channel name (JDict s) w) = Inr (JDict s, False)"
    using assms by (simp add: fix_channel_eq Let_def)
  have p5: "\<exists>g'. py_get config' ''gateway'' (JDict []) = Inr (JDict g')
                \<and> map_of g' ''bind'' = map_of g ''bind''"
    if gw: "(case map_of c ''gateway'' of None \<Rightarrow> JDict [] | Some v \<Rightarrow> v) = JDict g"
      and run: "fix_gateway (JDict c) w = (Inr (changed, config'), w')"
    for changed config' w'
  proof -
    from fix_gateway_run[OF gw run] obtain g1 ch1 w1 g2 where
      1: "fix_bind (JDict g) (w\<lparr>stdout := stdout w @ [FixGatewayHeader]\<rparr>) = (Inr (g1, ch1), w1)"
      and 2: "fix_auth g1 ch1 w1 = (Inr (g2, changed), w')"
      and 3: "config' = (if changed then JDict (dict_set c ''gateway'' g2) else JDict c)"
      by blast
    from 1 assms have "g1 = JDict g"
      by (auto simp: fix_bind_eq Let_def split: if_splits)
    with 2 fix_auth_frame[of g ch1 w1 g2 changed w'] obtain g2' where
      g2: "g2 = JDict g2'" "map_of g2' ''bind'' = map_of g ''bind''" "\<not> changed \<longrightarrow> g2' = g"
      by auto
    with 3 gw show ?thesis
      by (auto simp: map_of_dict_set)
  qed
  have p6: "fix_gateway (JDict c) w =
              (Inr (False, JDict c),
               w\<lparr>stdin := rest,
                 stdout := stdout w @ [FixGatewayHeader, GatewayExposed bind, AskChangeBind]\<rparr>)
          \<and> (fs w (resolve w (arg_config a)) = Some f \<and> \<not> open_read_fails w
               \<and> json_load w (content f) = Some (JDict c)
               \<and> (arg_dry_run a
                  \<or> (\<not> copy2_fails w
                     \<and> with_suffix w (resolve w (arg_config a)) ''.json.bak.security'' = Inr bp
                     \<and> bp \<noteq> resolve w (arg_config a)))
               \<and> (platform_system w = ''Windows''
                  \<or> (st_mode f AND S_IRWXO = 0 \<and> st_mode f AND S_IRWXG = 0))
               \<and> map_of c ''channels'' = None \<longrightarrow>
               fst (main a w) = Inr ()
             \<and> last (stdout (snd (main a w))) = NoChangesNeeded
             \<and> fs (snd (main a w)) (resolve w (arg_config a)) = Some f
             \<and> stdin (snd (main a w)) = rest)"
    if h: "(case map_of c ''gateway'' of None \<Rightarrow> JDict [] | Some v \<Rightarrow> v) = JDict g
            \<and> map_of g ''bind'' = Some bind
            \<and> bind \<in> set [JStr ''0.0.0.0'', JStr ''all'', JStr ''::'']
            \<and> (case map_of g ''auth'' of None \<Rightarrow> JDict [] | Some v \<Rightarrow> v) = JDict au
            \<and> (case map_of au ''mode'' of None \<Rightarrow> JStr ''token'' | Some v \<Rightarrow> v) \<noteq> JStr ''none''
            \<and> ((case map_of au ''mode'' of None \<Rightarrow> JStr ''token'' | Some v \<Rightarrow> v) = JStr ''token'' \<longrightarrow>
                 (\<exists>n\<ge>16. py_len (case map_of au ''token'' of None \<Rightarrow> JStr [] | Some v \<Rightarrow> v) = Inr n))"
  proof (intro conjI impI)
    from h have gw: "(case map_of c ''gateway'' of None \<Rightarrow> JDict [] | Some v \<Rightarrow> v) = JDict g"
      "map_of g ''bind'' = Some bind"
      "bind \<in> set [JStr ''0.0.0.0'', JStr ''all'', JStr ''::'']"
      "(case map_of g ''auth'' of None \<Rightarrow> JDict [] | Some v \<Rightarrow> v) = JDict au"
      "(case map_of au ''mode'' of None \<Rightarrow> JStr ''token'' | Some v \<Rightarrow> v) \<noteq> JStr ''none''"
      "(case map_of au ''mode'' of None \<Rightarrow> JStr ''token'' | Some v \<Rightarrow> v) = JStr ''token'' \<longrightarrow>
           (\<exists>n\<ge>16. py_len (case map_of au ''token'' of None \<Rightarrow> JStr [] | Some v \<Rightarrow> v) = Inr n)"
      by blast+
    show "fix_gateway (JDict c) w =
              (Inr (False, JDict c),
               w\<lparr>stdin := rest,
                 stdout := stdout w @ [FixGatewayHeader, GatewayExposed bind, AskChangeBind]\<rparr>)"
      by (rule fix_gateway_bind_declined[OF assms gw])
    assume m: "fs w (resolve w (arg_config a)) = Some f \<and> \<not> open_read_fails w
               \<and> json_load w (content f) = Some (JDict c)
               \<and> (arg_dry_run a
                  \<or> (\<not> copy2_fails w
                     \<and> with_suffix w (resolve w (arg_config a)) ''.json.bak.security'' = Inr bp
                     \<and> bp \<noteq> resolve w (arg_config a)))
               \<and> (platform_system w = ''Windows''
                  \<or> (st_mode f AND S_IRWXO = 0 \<and> st_mode f AND S_IRWXG = 0))
               \<and> map_of c ''channels'' = None"
    from gw(2) have "g \<noteq> []"
      by auto
    with gw(1) have "c \<noteq> []"
      by auto
    then have t: "truthy (JDict c)"
      by simp
    from m have l: "fs w (resolve w (arg_config a)) = Some f" "\<not> open_read_fails w"
        "json_load w (content f) = Some (JDict c)"
      and bk: "arg_dry_run a
                  \<or> (\<not> copy2_fails w
                     \<and> with_suffix w (resolve w (arg_config a)) ''.json.bak.security'' = Inr bp
                     \<and> bp \<noteq> resolve w (arg_config a))"
      and pm: "platform_system w = ''Windows''
                  \<or> (st_mode f AND S_IRWXO = 0 \<and> st_mode f AND S_IRWXG = 0)"
      and chn: "map_of c ''channels'' = None"
      by blast+
    note main_bind_declined[OF assms l t bk pm gw chn]
    then show "fst (main a w) = Inr ()"
      and "last (stdout (snd (main a w))) = NoChangesNeeded"
      and "fs (snd (main a w)) (resolve w (arg_config a)) = Some f"
      and "stdin (snd (main a w)) = rest"
      by blast+
  qed
  have p7: "fs w' (resolve w (arg_config a)) = fs w (resolve w (arg_config a))
             \<and> (r' = Inr ()
                  \<and> (\<exists>f config. fs w (resolve w (arg_config a)) = Some f \<and> \<not> open_read_fails w
                        \<and> json_load w (content f) = Some config \<and> truthy config) \<longrightarrow>
                  last (stdout w') = NoChangesNeeded
                \<or> last (stdout w') = AbortingBackupFailure)"
    if "list_all (\<lambda>r. lower (strip r) = ''n'') rest" and "main a w = (r', w')" for a r' w'
  proof -
    from that(1) assms have "list_all (\<lambda>r. lower (strip r) = ''n'') (stdin w)"
      by simp
    from main_declined[OF this that(2)] show ?thesis .
  qed
  from p1 p2 p3 p4 p5 p6 p7 show ?thesis
    by blast
qed

theorem declined_proposal_changes_nothing_witness:
  "stdin (demo_world [''/etc/openclaw.json'' \<mapsto> \<lparr>content = ''(the document)'', st_mode = 33188\<rparr>] [''n''] ''(the document)'' (JDict [(''gateway'', JDict [(''bind'', JStr ''0.0.0.0''), (''auth'', JDict [(''mode'', JStr ''token''), (''token'', JStr ''0123456789abcdef'')])])])) = [''n'']
   \<and> lower (strip ''n'') = ''n''
   \<and> fst (fix_permissions ''/etc/openclaw.json'' (demo_world [''/etc/openclaw.json'' \<mapsto> \<lparr>content = ''(the document)'', st_mode = 33188\<rparr>] [''n''] ''(the document)'' (JDict [(''gateway'', JDict [(''bind'', JStr ''0.0.0.0''), (''auth'', JDict [(''mode'', JStr ''token''), (''token'', JStr ''0123456789abcdef'')])])]))) = Inr False
   \<and> fs (snd (fix_permissions ''/etc/openclaw.json'' (demo_world [''/etc/openclaw.json'' \<mapsto> \<lparr>content = ''(the document)'', st_mode = 33188\<rparr>] [''n''] ''(the document)'' (JDict [(''gateway'', JDict [(''bind'', JStr ''0.0.0.0''), (''auth'', JDict [(''mode'', JStr ''token''), (''token'', JStr ''0123456789abcdef'')])])]))))
       = fs (demo_world [''/etc/openclaw.json'' \<mapsto> \<lparr>content = ''(the document)'', st_mode = 33188\<rparr>] [''n''] ''(the document)'' (JDict [(''gateway'', JDict [(''bind'', JStr ''0.0.0.0''), (''auth'', JDict [(''mode'', JStr ''token''), (''token'', JStr ''0123456789abcdef'')])])]))
   \<and> fst (fix_bind (JDict [(''bind'', JStr ''0.0.0.0''), (''auth'', JDict [(''mode'', JStr ''token''), (''token'', JStr ''0123456789abcdef'')])]) (demo_world [''/etc/openclaw.json'' \<mapsto> \<lparr>content = ''(the document)'', st_mode = 33188\<rparr>] [''n''] ''(the document)'' (JDict [(''gateway'', JDict [(''bind'', JStr ''0.0.0.0''), (''auth'', JDict [(''mode'', JStr ''token''), (''token'', JStr ''0123456789abcdef'')])])])))
       = Inr (JDict [(''bind'', JStr ''0.0.0.0''), (''auth'', JDict [(''mode'', JStr ''token''), (''token'', JStr ''0123456789abcdef'')])], False)
   \<and> fst (fix_auth (JDict [(''bind'', JStr ''0.0.0.0''), (''auth'', JDict [(''mode'', JStr ''none'')])]) False (demo_world [''/etc/openclaw.json'' \<mapsto> \<lparr>content = ''(the document)'', st_mode = 33188\<rparr>] [''n''] ''(the document)'' (JDict [(''gateway'', JDict [(''bind'', JStr ''0.0.0.0''), (''auth'', JDict [(''mode'', JStr ''token''), (''token'', JStr ''0123456789abcdef'')])])])))
       = Inr (JDict [(''bind'', JStr ''0.0.0.0''), (''auth'', JDict [(''mode'', JStr ''none'')])], False)
   \<and> fst (fix_channel ''telegram'' (JDict [(''enabled'', JBool True), (''dmPolicy'', JStr ''open'')]) (demo_world [''/etc/openclaw.json'' \<mapsto> \<lparr>content = ''(the document)'', st_mode = 33188\<rparr>] [''n''] ''(the document)'' (JDict [(''gateway'', JDict [(''bind'', JStr ''0.0.0.0''), (''auth'', JDict [(''mode'', JStr ''token''), (''token'', JStr ''0123456789abcdef'')])])])))
       = Inr (JDict [(''enabled'', JBool True), (''dmPolicy'', JStr ''open'')], False)
   \<and> fst (fix_gateway (JDict [(''gateway'', JDict [(''bind'', JStr ''0.0.0.0''), (''auth'', JDict [(''mode'', JStr ''token''), (''token'', JStr ''0123456789abcdef'')])])]) (demo_world [''/etc/openclaw.json'' \<mapsto> \<lparr>content = ''(the document)'', st_mode = 33152\<rparr>] [''n''] ''(the document)'' (JDict [(''gateway'', JDict [(''bind'', JStr ''0.0.0.0''), (''auth'', JDict [(''mode'', JStr ''token''), (''token'', JStr ''0123456789abcdef'')])])])))
       = Inr (False, JDict [(''gateway'', JDict [(''bind'', JStr ''0.0.0.0''), (''auth'', JDict [(''mode'', JStr ''token''), (''token'', JStr ''0123456789abcdef'')])])])
   \<and> fst (main \<lparr>arg_config = ''/etc/openclaw.json'', arg_dry_run = False\<rparr> (demo_world [''/etc/openclaw.json'' \<mapsto> \<lparr>content = ''(the document)'', st_mode = 33152\<rparr>] [''n''] ''(the document)'' (JDict [(''gateway'', JDict [(''bind'', JStr ''0.0.0.0''), (''auth'', JDict [(''mode'', JStr ''token''), (''token'', JStr ''0123456789abcdef'')])])]))) = Inr ()
   \<and> last (stdout (snd (main \<lparr>arg_config = ''/etc/openclaw.json'', arg_dry_run = False\<rparr> (demo_world [''/etc/openclaw.json'' \<mapsto> \<lparr>content = ''(the document)'', st_mode = 33152\<rparr>] [''n''] ''(the document)'' (JDict [(''gateway'', JDict [(''bind'', JStr ''0.0.0.0''), (''auth'', JDict [(''mode'', JStr ''token''), (''token'', JStr ''0123456789abcdef'')])])]))))) = NoChangesNeeded
   \<and> fs (snd (main \<lparr>arg_config = ''/etc/openclaw.json'', arg_dry_run = False\<rparr> (demo_world [''/etc/openclaw.json'' \<mapsto> \<lparr>content = ''(the document)'', st_mode = 33152\<rparr>] [''n''] ''(the document)'' (JDict [(''gateway'', JDict [(''bind'', JStr ''0.0.0.0''), (''auth'', JDict [(''mode'', JStr ''token''), (''token'', JStr ''0123456789abcdef'')])])])))) ''/etc/openclaw.json'' = Some \<lparr>content = ''(the document)'', st_mode = 33152\<rparr>
   \<and> fst (fix_gateway (JDict [(''gateway'', JDict [(''bind'', JStr ''0.0.0.0''), (''auth'', JDict [(''mode'', JStr ''none'')])])]) (demo_world [''/etc/openclaw.json'' \<mapsto> \<lparr>content = ''(the document)'', st_mode = 33152\<rparr>] [''n'', ''y''] ''(the document)'' (JDict [(''gateway'', JDict [(''bind'', JStr ''0.0.0.0''), (''auth'', JDict [(''mode'', JStr ''none'')])])])))
       = Inr (True, JDict [(''gateway'', JDict [(''bind'', JStr ''0.0.0.0''), (''auth'', JDict [(''mode'', JStr ''token''), (''token'', JStr ''000102030405060708090a0b0c0d0e0f101112131415161718191a1b1c1d1e1f'')])])])
   \<and> map_of [(''bind'', JStr ''0.0.0.0''), (''auth'', JDict [(''mode'', JStr ''token''), (''token'', JStr ''000102030405060708090a0b0c0d0e0f101112131415161718191a1b1c1d1e1f'')])] ''bind'' = Some (JStr ''0.0.0.0'')
   \<and> list_all (\<lambda>r. lower (strip r) = ''n'') [''N'', '' n '']
   \<and> fst (main \<lparr>arg_config = ''/etc/openclaw.json'', arg_dry_run = False\<rparr> (demo_world [''/etc/openclaw.json'' \<mapsto> \<lparr>content = ''(the document)'', st_mode = 33152\<rparr>] [''n'', ''N'', '' n ''] ''(the document)'' (JDict [(''gateway'', JDict [(''bind'', JStr ''0.0.0.0''), (''auth'', JDict [(''mode'', JStr ''none'')])]), (''channels'', JDict [(''telegram'', JDict [(''enabled'', JBool True), (''dmPolicy'', JStr ''open'')])])]))) = Inr ()
   \<and> fs (snd (main \<lparr>arg_config = ''/etc/openclaw.json'', arg_dry_run = False\<rparr> (demo_world [''/etc/openclaw.json'' \<mapsto> \<lparr>content = ''(the document)'', st_mode = 33152\<rparr>] [''n'', ''N'', '' n ''] ''(the document)'' (JDict [(''gateway'', JDict [(''bind'', JStr ''0.0.0.0''), (''auth'', JDict [(''mode'', JStr ''none'')])]), (''channels'', JDict [(''telegram'', JDict [(''enabled'', JBool True), (''dmPolicy'', JStr ''open'')])])])))) ''/etc/openclaw.json'' = Some \<lparr>content = ''(the document)'', st_mode = 33152\<rparr>
   \<and> last (stdout (snd (main \<lparr>arg_config = ''/etc/openclaw.json'', arg_dry_run = False\<rparr> (demo_world [''/etc/openclaw.json'' \<mapsto> \<lparr>content = ''(the document)'', st_mode = 33152\<rparr>] [''n'', ''N'', '' n ''] ''(the document)'' (JDict [(''gateway'', JDict [(''bind'', JStr ''0.0.0.0''), (''auth'', JDict [(''mode'', JStr ''none'')])]), (''channels'', JDict [(''telegram'', JDict [(''enabled'', JBool True), (''dmPolicy'', JStr ''open'')])])]))))) = NoChangesNeeded"
proof -
  let ?p = "''/etc/openclaw.json''"
  let ?bp = "''/etc/openclaw.json.bak.security''"
  let ?fa = "\<lparr>content = ''(the document)'', st_mode = 33188\<rparr>"
  let ?fb = "\<lparr>content = ''(the document)'', st_mode = 33152\<rparr>"
  let ?au = "[(''mode'', JStr ''token''), (''token'', JStr ''0123456789abcdef'')]"
  let ?g = "[(''bind'', JStr ''0.0.0.0''), (''auth'', JDict [(''mode'', JStr ''token''), (''token'', JStr ''0123456789abcdef'')])]"
  let ?c = "[(''gateway'', JDict [(''bind'', JStr ''0.0.0.0''), (''auth'', JDict [(''mode'', JStr ''token''), (''token'', JStr ''0123456789abcdef'')])])]"
  let ?au3 = "[(''mode'', JStr ''none'')]"
  let ?g3 = "[(''bind'', JStr ''0.0.0.0''), (''auth'', JDict [(''mode'', JStr ''none'')])]"
  let ?c3 = "[(''gateway'', JDict [(''bind'', JStr ''0.0.0.0''), (''auth'', JDict [(''mode'', JStr ''none'')])])]"
  let ?s = "[(''enabled'', JBool True), (''dmPolicy'', JStr ''open'')]"
  let ?cd = "[(''gateway'', JDict [(''bind'', JStr ''0.0.0.0''), (''auth'', JDict [(''mode'', JStr ''none'')])]), (''channels'', JDict [(''telegram'', JDict [(''enabled'', JBool True), (''dmPolicy'', JStr ''open'')])])]"
  let ?ge = "[(''bind'', JStr ''0.0.0.0''), (''auth'', JDict [(''mode'', JStr ''token''), (''token'', JStr ''000102030405060708090a0b0c0d0e0f101112131415161718191a1b1c1d1e1f'')])]"
  let ?ce = "[(''gateway'', JDict [(''bind'', JStr ''0.0.0.0''), (''auth'', JDict [(''mode'', JStr ''token''), (''token'', JStr ''000102030405060708090a0b0c0d0e0f101112131415161718191a1b1c1d1e1f'')])])]"
  let ?wa = "(demo_world [''/etc/openclaw.json'' \<mapsto> \<lparr>content = ''(the document)'', st_mode = 33188\<rparr>] [''n''] ''(the document)'' (JDict [(''gateway'', JDict [(''bind'', JStr ''0.0.0.0''), (''auth'', JDict [(''mode'', JStr ''token''), (''token'', JStr ''0123456789abcdef'')])])]))"
  let ?wb = "(demo_world [''/etc/openclaw.json'' \<mapsto> \<lparr>content = ''(the document)'', st_mode = 33152\<rparr>] [''n''] ''(the document)'' (JDict [(''gateway'', JDict [(''bind'', JStr ''0.0.0.0''), (''auth'', JDict [(''mode'', JStr ''token''), (''token'', JStr ''0123456789abcdef'')])])]))"
  let ?wd = "(demo_world [''/etc/openclaw.json'' \<mapsto> \<lparr>content = ''(the document)'', st_mode = 33152\<rparr>] [''n'', ''N'', '' n ''] ''(the document)'' (JDict [(''gateway'', JDict [(''bind'', JStr ''0.0.0.0''), (''auth'', JDict [(''mode'', JStr ''none'')])]), (''channels'', JDict [(''telegram'', JDict [(''enabled'', JBool True), (''dmPolicy'', JStr ''open'')])])]))"
  let ?we = "(demo_world [''/etc/openclaw.json'' \<mapsto> \<lparr>content = ''(the document)'', st_mode = 33152\<rparr>] [''n'', ''y''] ''(the document)'' (JDict [(''gateway'', JDict [(''bind'', JStr ''0.0.0.0''), (''auth'', JDict [(''mode'', JStr ''none'')])])]))"
  let ?a = "\<lparr>arg_config = ''/etc/openclaw.json'', arg_dry_run = False\<rparr>"
  have ln: "lower (strip ''n'') = ''n''"
    by (simp add: some_answers)
  have sa: "stdin ?wa = [''n'']" and sb: "stdin ?wb = [''n'']"
    and sd: "stdin ?wd = ''n'' # [''N'', '' n '']" and se: "stdin ?we = ''n'' # [''y'']"
    by (simp_all add: demo_world_def)
  have rp: "resolve ?wb (arg_config ?a) = ?p" "resolve ?wd (arg_config ?a) = ?p"
    by (simp_all add: demo_world_def)
  note ta = declined_proposal_changes_nothing[OF sa ln]
  note tb = declined_proposal_changes_nothing[OF sb ln]
  note td = declined_proposal_changes_nothing[OF sd ln]
  note te = declined_proposal_changes_nothing[OF se ln]
  have h1: "platform_system ?wa \<noteq> ''Windows'' \<and> fs ?wa ?p = Some ?fa"
    by code_simp
  note c1 = ta[THEN conjunct1, THEN mp, OF h1]
  note c2 = ta[THEN conjunct2, THEN conjunct1, of ?g]
  have h3: "(case map_of ?g3 ''auth'' of None \<Rightarrow> JDict [] | Some v \<Rightarrow> v) = JDict ?au3
      \<and> ((case map_of ?au3 ''mode'' of None \<Rightarrow> JStr ''token'' | Some v \<Rightarrow> v) = JStr ''token'' \<longrightarrow>
           \<not> isl (py_len (case map_of ?au3 ''token'' of None \<Rightarrow> JStr [] | Some v \<Rightarrow> v)))"
    by simp
  note c3 = ta[THEN conjunct2, THEN conjunct2, THEN conjunct1, THEN mp, OF h3, THEN conjunct1,
      of False]
  note c4 = ta[THEN conjunct2, THEN conjunct2, THEN conjunct2, THEN conjunct1, of "''telegram''" ?s]
  have h6: "(case map_of ?c ''gateway'' of None \<Rightarrow> JDict [] | Some v \<Rightarrow> v) = JDict ?g
      \<and> map_of ?g ''bind'' = Some (JStr ''0.0.0.0'')
      \<and> JStr ''0.0.0.0'' \<in> set [JStr ''0.0.0.0'', JStr ''all'', JStr ''::'']
      \<and> (case map_of ?g ''auth'' of None \<Rightarrow> JDict [] | Some v \<Rightarrow> v) = JDict ?au
      \<and> (case map_of ?au ''mode'' of None \<Rightarrow> JStr ''token'' | Some v \<Rightarrow> v) \<noteq> JStr ''none''
      \<and> ((case map_of ?au ''mode'' of None \<Rightarrow> JStr ''token'' | Some v \<Rightarrow> v) = JStr ''token'' \<longrightarrow>
           (\<exists>n\<ge>16. py_len (case map_of ?au ''token'' of None \<Rightarrow> JStr [] | Some v \<Rightarrow> v) = Inr n))"
    by simp
  note c6 = tb[THEN conjunct2, THEN conjunct2, THEN conjunct2, THEN conjunct2, THEN conjunct2,
      THEN conjunct1, THEN mp, OF h6]
  have c6a: "fst (fix_gateway (JDict ?c) ?wb) = Inr (False, JDict ?c)"
    by (simp add: c6[THEN conjunct1])
  have h6m: "fs ?wb ?p = Some ?fb \<and> \<not> open_read_fails ?wb
      \<and> json_load ?wb (content ?fb) = Some (JDict ?c)
      \<and> (arg_dry_run ?a
         \<or> (\<not> copy2_fails ?wb
            \<and> with_suffix ?wb ?p ''.json.bak.security'' = Inr ?bp
            \<and> ?bp \<noteq> ?p))
      \<and> (platform_system ?wb = ''Windows''
         \<or> (st_mode ?fb AND S_IRWXO = 0 \<and> st_mode ?fb AND S_IRWXG = 0))
      \<and> map_of ?c ''channels'' = None"
    by code_simp
  note c6b = c6[THEN conjunct2, of ?a ?fb ?bp, unfolded rp, THEN mp, OF h6m]
  have re: "fst (fix_gateway (JDict ?c3) ?we) = Inr (True, JDict ?ce)"
    by code_simp
  then have rune: "fix_gateway (JDict ?c3) ?we = (Inr (True, JDict ?ce), snd (fix_gateway (JDict ?c3) ?we))"
    by (simp add: prod_eq_iff)
  have h5: "(case map_of ?c3 ''gateway'' of None \<Rightarrow> JDict [] | Some v \<Rightarrow> v) = JDict ?g3"
    by simp
  note c5 = te[THEN conjunct2, THEN conjunct2, THEN conjunct2, THEN conjunct2, THEN conjunct1,
      THEN mp, OF h5, THEN spec, THEN spec, THEN spec, THEN mp, OF rune]
  have c5': "map_of ?ge ''bind'' = Some (JStr ''0.0.0.0'')"
    using c5 by simp
  have h7: "list_all (\<lambda>r. lower (strip r) = ''n'') [''N'', '' n '']"
    by code_simp
  have rd: "fst (main ?a ?wd) = Inr ()"
    by code_simp
  then have rund: "main ?a ?wd = (Inr (), snd (main ?a ?wd))"
    by (simp add: prod_eq_iff)
  note c7 = td[THEN conjunct2, THEN conjunct2, THEN conjunct2, THEN conjunct2, THEN conjunct2,
      THEN conjunct2, THEN mp, OF h7, THEN spec, THEN spec, THEN spec, THEN mp, OF rund,
      unfolded rp, THEN conjunct1]
  have "fs ?wd ?p = Some ?fb"
    by code_simp
  with c7 have c7': "fs (snd (main ?a ?wd)) ?p = Some ?fb"
    by simp
  have lastd: "last (stdout (snd (main ?a ?wd))) = NoChangesNeeded"
    by code_simp
  from sa ln c1 c2 c3 c4 c6a c6b re c5' h7 rd c7' lastd show ?thesis
    by simp
qed

section \<open>The backup\<close>

text \<open>
  C8. In a run that is not a dry run the backup is the first step after the configuration is
  loaded. If it does not succeed, no file is changed, and when the copy fails the run
  prints that it aborts and returns without asking anything. Whenever a run has changed any
  file at all, the backup exists: the file named by \<^verbatim>\<open>with_suffix\<close>, which is another file
  than the configuration, holds the content and mode the configuration file had before the
  run. No file other than these two is changed.
\<close>

theorem backup_before_any_change:
  assumes "\<not> arg_dry_run a" and "main a w = (r, w')"
  shows "(fst (backup_config (resolve w (arg_config a)) w) \<noteq> Inr True \<longrightarrow> fs w' = fs w)
       \<and> (fs w' \<noteq> fs w \<longrightarrow>
            (\<exists>bp f. with_suffix w (resolve w (arg_config a)) ''.json.bak.security'' = Inr bp
               \<and> bp \<noteq> resolve w (arg_config a)
               \<and> fs w (resolve w (arg_config a)) = Some f
               \<and> fs w' bp = Some f))
       \<and> (\<forall>q. q \<noteq> resolve w (arg_config a)
               \<and> with_suffix w (resolve w (arg_config a)) ''.json.bak.security'' \<noteq> Inr q \<longrightarrow>
             fs w' q = fs w q)
       \<and> ((\<exists>f config. fs w (resolve w (arg_config a)) = Some f \<and> \<not> open_read_fails w
               \<and> json_load w (content f) = Some config \<and> truthy config)
            \<and> fst (backup_config (resolve w (arg_config a)) w) = Inr False \<longrightarrow>
             r = Inr ()
           \<and> stdout w' = stdout w @ [Target (resolve w (arg_config a)), BackupFailed,
                                      AbortingBackupFailure])"
proof (cases "\<exists>f config. fs w (resolve w (arg_config a)) = Some f \<and> \<not> open_read_fails w
              \<and> json_load w (content f) = Some config \<and> truthy config")
  case False
  then have "fs (snd (main a w)) = fs w"
    by (intro main_not_loaded) blast
  with assms(2) have same: "fs w' = fs w"
    by simp
  have "\<not> ((\<exists>f config. fs w (resolve w (arg_config a)) = Some f \<and> \<not> open_read_fails w
               \<and> json_load w (content f) = Some config \<and> truthy config)
            \<and> fst (backup_config (resolve w (arg_config a)) w) = Inr False)"
    using False by (rule contrapos_nn) (erule conjunct1)
  with same show ?thesis
    by (simp only: simp_thms)
next
  case True
  let ?p = "resolve w (arg_config a)"
  let ?w1 = "w\<lparr>stdout := stdout w @ [Target ?p]\<rparr>"
  from True obtain f config where l: "fs w ?p = Some f" "\<not> open_read_fails w"
    "json_load w (content f) = Some config" "truthy config"
    by blast
  obtain rb w2 where b0: "backup_config ?p ?w1 = (rb, w2)"
    by (cases "backup_config ?p ?w1")
  with assms(1) have b: "(if \<not> arg_dry_run a then backup_config ?p ?w1 else (Inr True, ?w1)) = (rb, w2)"
    by simp
  have rb: "fst (backup_config ?p w) = rb"
    using b0 by (auto simp: backup_config_eq split: sum.splits if_splits)
  note tail = main_writes_one_file[OF l b assms(2)]
  show ?thesis
  proof (cases "rb = Inr True")
    case ok: True
    with b0 l(1) obtain bp where bp: "with_suffix w ?p ''.json.bak.security'' = Inr bp" "bp \<noteq> ?p"
      "fs w2 = (fs w)(bp \<mapsto> f)"
      by (auto simp: backup_config_eq split: sum.splits if_splits)
    from tail[of bp] bp have kept: "fs w' bp = Some f"
      by simp
    have others: "fs w' q = fs w q"
      if "q \<noteq> ?p" "with_suffix w ?p ''.json.bak.security'' \<noteq> Inr q" for q
      using tail[of q] that bp by auto
    from ok rb bp l(1) kept others show ?thesis
      by auto
  next
    case failed: False
    with b0 have same: "fs w2 = fs w"
      by (auto simp: backup_config_eq split: sum.splits if_splits)
    have "w' = w2 \<or> w' = w2\<lparr>stdout := stdout w2 @ [AbortingBackupFailure]\<rparr>"
      using assms(2) b failed by (cases rb) (auto simp: main_loaded[OF l])
    with same have fs: "fs w' = fs w"
      by auto
    have "r = Inr () \<and> stdout w' = stdout w @ [Target ?p, BackupFailed, AbortingBackupFailure]"
      if "rb = Inr False"
      using assms(2) b b0 that
      by (auto simp: main_loaded[OF l] backup_config_eq split: sum.splits if_splits)
    with fs failed rb show ?thesis
      by auto
  qed
qed

theorem backup_before_any_change_witness:
  "\<not> arg_dry_run \<lparr>arg_config = ''/etc/openclaw.json'', arg_dry_run = False\<rparr>
   \<and> fst (main \<lparr>arg_config = ''/etc/openclaw.json'', arg_dry_run = False\<rparr>
        (demo_world [''/etc/openclaw.json'' \<mapsto> \<lparr>content = ''(the document)'', st_mode = 33152\<rparr>] [''y'']
            ''(the document)'' (JDict [(''gateway'', JDict [(''bind'', JStr ''0.0.0.0''),
              (''auth'', JDict [(''mode'', JStr ''token''), (''token'', JStr ''0123456789abcdef'')])])]))) = Inr ()
   \<and> fs (snd (main \<lparr>arg_config = ''/etc/openclaw.json'', arg_dry_run = False\<rparr>
        (demo_world [''/etc/openclaw.json'' \<mapsto> \<lparr>content = ''(the document)'', st_mode = 33152\<rparr>] [''y'']
            ''(the document)'' (JDict [(''gateway'', JDict [(''bind'', JStr ''0.0.0.0''),
              (''auth'', JDict [(''mode'', JStr ''token''), (''token'', JStr ''0123456789abcdef'')])])])))) ''/etc/openclaw.json''
      = Some \<lparr>content = ''(new text)'', st_mode = 33152\<rparr>
   \<and> fs (snd (main \<lparr>arg_config = ''/etc/openclaw.json'', arg_dry_run = False\<rparr>
        (demo_world [''/etc/openclaw.json'' \<mapsto> \<lparr>content = ''(the document)'', st_mode = 33152\<rparr>] [''y'']
            ''(the document)'' (JDict [(''gateway'', JDict [(''bind'', JStr ''0.0.0.0''),
              (''auth'', JDict [(''mode'', JStr ''token''), (''token'', JStr ''0123456789abcdef'')])])])))) ''/etc/openclaw.json.bak.security''
      = Some \<lparr>content = ''(the document)'', st_mode = 33152\<rparr>
   \<and> fs (snd (main \<lparr>arg_config = ''/etc/openclaw.json'', arg_dry_run = False\<rparr>
        (demo_world [''/etc/openclaw.json'' \<mapsto> \<lparr>content = ''(the document)'', st_mode = 33152\<rparr>] [''y'']
            ''(the document)'' (JDict [(''gateway'', JDict [(''bind'', JStr ''0.0.0.0''),
              (''auth'', JDict [(''mode'', JStr ''token''), (''token'', JStr ''0123456789abcdef'')])])])))) ''/etc/passwd'' = None
   \<and> fst (backup_config ''/etc/openclaw.json''
        ((demo_world [''/etc/openclaw.json'' \<mapsto> \<lparr>content = ''(the document)'', st_mode = 33152\<rparr>] [''y'']
            ''(the document)'' (JDict [(''gateway'', JDict [(''bind'', JStr ''0.0.0.0''),
              (''auth'', JDict [(''mode'', JStr ''token''), (''token'', JStr ''0123456789abcdef'')])])]))\<lparr>copy2_fails := True\<rparr>)) = Inr False
   \<and> fs (snd (main \<lparr>arg_config = ''/etc/openclaw.json'', arg_dry_run = False\<rparr>
        ((demo_world [''/etc/openclaw.json'' \<mapsto> \<lparr>content = ''(the document)'', st_mode = 33152\<rparr>] [''y'']
            ''(the document)'' (JDict [(''gateway'', JDict [(''bind'', JStr ''0.0.0.0''),
              (''auth'', JDict [(''mode'', JStr ''token''), (''token'', JStr ''0123456789abcdef'')])])]))\<lparr>copy2_fails := True\<rparr>)))
      = fs ((demo_world [''/etc/openclaw.json'' \<mapsto> \<lparr>content = ''(the document)'', st_mode = 33152\<rparr>] [''y'']
            ''(the document)'' (JDict [(''gateway'', JDict [(''bind'', JStr ''0.0.0.0''),
              (''auth'', JDict [(''mode'', JStr ''token''), (''token'', JStr ''0123456789abcdef'')])])]))\<lparr>copy2_fails := True\<rparr>)
   \<and> fst (main \<lparr>arg_config = ''/etc/openclaw.json'', arg_dry_run = False\<rparr>
        ((demo_world [''/etc/openclaw.json'' \<mapsto> \<lparr>content = ''(the document)'', st_mode = 33152\<rparr>] [''y'']
            ''(the document)'' (JDict [(''gateway'', JDict [(''bind'', JStr ''0.0.0.0''),
              (''auth'', JDict [(''mode'', JStr ''token''), (''token'', JStr ''0123456789abcdef'')])])]))\<lparr>copy2_fails := True\<rparr>)) = Inr ()
   \<and> stdout (snd (main \<lparr>arg_config = ''/etc/openclaw.json'', arg_dry_run = False\<rparr>
        ((demo_world [''/etc/openclaw.json'' \<mapsto> \<lparr>content = ''(the document)'', st_mode = 33152\<rparr>] [''y'']
            ''(the document)'' (JDict [(''gateway'', JDict [(''bind'', JStr ''0.0.0.0''),
              (''auth'', JDict [(''mode'', JStr ''token''), (''token'', JStr ''0123456789abcdef'')])])]))\<lparr>copy2_fails := True\<rparr>)))
      = [Target ''/etc/openclaw.json'', BackupFailed, AbortingBackupFailure]"
proof -
  let ?p = "''/etc/openclaw.json''"
  let ?bp = "''/etc/openclaw.json.bak.security''"
  let ?f = "\<lparr>content = ''(the document)'', st_mode = 33152\<rparr>"
  let ?doc = "(JDict [(''gateway'', JDict [(''bind'', JStr ''0.0.0.0''),
              (''auth'', JDict [(''mode'', JStr ''token''), (''token'', JStr ''0123456789abcdef'')])])])"
  let ?wa = "(demo_world [''/etc/openclaw.json'' \<mapsto> \<lparr>content = ''(the document)'', st_mode = 33152\<rparr>] [''y'']
            ''(the document)'' (JDict [(''gateway'', JDict [(''bind'', JStr ''0.0.0.0''),
              (''auth'', JDict [(''mode'', JStr ''token''), (''token'', JStr ''0123456789abcdef'')])])]))"
  let ?wb = "((demo_world [''/etc/openclaw.json'' \<mapsto> \<lparr>content = ''(the document)'', st_mode = 33152\<rparr>] [''y'']
            ''(the document)'' (JDict [(''gateway'', JDict [(''bind'', JStr ''0.0.0.0''),
              (''auth'', JDict [(''mode'', JStr ''token''), (''token'', JStr ''0123456789abcdef'')])])]))\<lparr>copy2_fails := True\<rparr>)"
  let ?a = "\<lparr>arg_config = ''/etc/openclaw.json'', arg_dry_run = False\<rparr>"
  have nd: "\<not> arg_dry_run ?a"
    by simp
  have rp: "resolve ?wa (arg_config ?a) = ?p" "resolve ?wb (arg_config ?a) = ?p"
    by (simp_all add: demo_world_def)
  have ra: "main ?a ?wa = (fst (main ?a ?wa), snd (main ?a ?wa))"
    and rb: "main ?a ?wb = (fst (main ?a ?wb), snd (main ?a ?wb))"
    by simp_all
  note ta = backup_before_any_change[OF nd ra, unfolded rp]
  note tb = backup_before_any_change[OF nd rb, unfolded rp]
  have ret: "fst (main ?a ?wa) = Inr ()"
    by code_simp
  have new: "fs (snd (main ?a ?wa)) ?p = Some \<lparr>content = ''(new text)'', st_mode = 33152\<rparr>"
    by code_simp
  have old: "fs ?wa ?p = Some ?f"
    by code_simp
  have sfx: "with_suffix ?wa ?p ''.json.bak.security'' = Inr ?bp"
    by code_simp
  from new old have "fs (snd (main ?a ?wa)) ?p \<noteq> fs ?wa ?p"
    by simp
  then have changed: "fs (snd (main ?a ?wa)) \<noteq> fs ?wa"
    by auto
  from ta[THEN conjunct2, THEN conjunct1, THEN mp, OF changed] old sfx
  have kept: "fs (snd (main ?a ?wa)) ?bp = Some ?f"
    by auto
  have else: "''/etc/passwd'' \<noteq> ?p
      \<and> with_suffix ?wa ?p ''.json.bak.security'' \<noteq> Inr ''/etc/passwd''"
    by code_simp
  have "fs ?wa ''/etc/passwd'' = None"
    by code_simp
  with ta[THEN conjunct2, THEN conjunct2, THEN conjunct1, THEN spec, THEN mp, OF else]
  have other: "fs (snd (main ?a ?wa)) ''/etc/passwd'' = None"
    by simp
  have fails: "fst (backup_config ?p ?wb) = Inr False"
    by code_simp
  then have "fst (backup_config ?p ?wb) \<noteq> Inr True"
    by simp
  note same = tb[THEN conjunct1, THEN mp, OF this]
  have "fs ?wb ?p = Some ?f \<and> \<not> open_read_fails ?wb
      \<and> json_load ?wb (content ?f) = Some ?doc \<and> truthy ?doc"
    by code_simp
  then have "\<exists>f config. fs ?wb ?p = Some f \<and> \<not> open_read_fails ?wb
      \<and> json_load ?wb (content f) = Some config \<and> truthy config"
    by blast
  with fails have "(\<exists>f config. fs ?wb ?p = Some f \<and> \<not> open_read_fails ?wb
      \<and> json_load ?wb (content f) = Some config \<and> truthy config)
      \<and> fst (backup_config ?p ?wb) = Inr False"
    by (rule conjI[rotated])
  note abort = tb[THEN conjunct2, THEN conjunct2, THEN conjunct2, THEN mp, OF this]
  have out: "stdout ?wb = []"
    by (simp add: demo_world_def)
  from abort out have abort': "fst (main ?a ?wb) = Inr ()"
    "stdout (snd (main ?a ?wb)) = [Target ?p, BackupFailed, AbortingBackupFailure]"
    by simp_all
  from nd ret new kept other fails same abort' show ?thesis
    by (intro conjI)
qed

section \<open>End of file at a prompt\<close>

text \<open>
  C9, as amended. At every confirmation prompt of the hardener (file permissions, gateway
  bind, disabled authentication, weak token, a channel's DM policy), end of file on standard
  input makes \<^verbatim>\<open>input\<close> raise \<^verbatim>\<open>EOFError\<close>: the step ends there with the exception, the
  prompt is the last line printed, and the proposal is not applied. Nothing catches the
  exception: with standard input at end of file, a call of \<^verbatim>\<open>fix_gateway\<close> or
  \<^verbatim>\<open>fix_channels\<close> or a whole run that returns has shown no prompt, and no run changes the
  configuration file.
\<close>

theorem eof_at_prompt_raises:
  assumes "stdin w = []"
  shows "(platform_system w \<noteq> ''Windows'' \<and> fs w path = Some f
            \<and> (st_mode f AND S_IRWXO \<noteq> 0 \<or> st_mode f AND S_IRWXG \<noteq> 0) \<longrightarrow>
          fix_permissions path w =
            (Inl EOFError,
             w\<lparr>stdout := stdout w @ [FixPermissionsHeader, TooPermissive, AskFixPermissions]\<rparr>))
       \<and> (map_of g ''bind'' = Some bind
            \<and> bind \<in> set [JStr ''0.0.0.0'', JStr ''all'', JStr ''::''] \<longrightarrow>
          fix_bind (JDict g) w =
            (Inl EOFError, w\<lparr>stdout := stdout w @ [GatewayExposed bind, AskChangeBind]\<rparr>))
       \<and> (map_of g ''auth'' = Some (JDict au) \<and> map_of au ''mode'' = Some (JStr ''none'') \<longrightarrow>
          fix_auth (JDict g) ch w =
            (Inl EOFError, w\<lparr>stdout := stdout w @ [AuthIsDisabled, AskEnableToken]\<rparr>))
       \<and> ((case map_of g ''auth'' of None \<Rightarrow> JDict [] | Some v \<Rightarrow> v) = JDict au
            \<and> (case map_of au ''mode'' of None \<Rightarrow> JStr ''token'' | Some v \<Rightarrow> v) = JStr ''token''
            \<and> py_len (case map_of au ''token'' of None \<Rightarrow> JStr [] | Some v \<Rightarrow> v) = Inr n
            \<and> n < 16 \<longrightarrow>
          fix_auth (JDict g) ch w =
            (Inl EOFError, w\<lparr>stdout := stdout w @ [TokenIsWeak, AskRotateToken]\<rparr>))
       \<and> (truthy (case map_of s ''enabled'' of None \<Rightarrow> JBool False | Some v \<Rightarrow> v)
            \<and> map_of s ''dmPolicy'' = Some (JStr ''open'') \<longrightarrow>
          fix_channel name (JDict s) w =
            (Inl EOFError, w\<lparr>stdout := stdout w @ [DmPolicyOpen name, AskChangeDm name]\<rparr>))
       \<and> (\<forall>config r w'. fix_gateway config w = (r, w') \<and> \<not> isl r \<longrightarrow>
             filter is_prompt (stdout w') = filter is_prompt (stdout w))
       \<and> (\<forall>config r w'. fix_channels config w = (r, w') \<and> \<not> isl r \<longrightarrow>
             filter is_prompt (stdout w') = filter is_prompt (stdout w))
       \<and> (\<forall>a r w'. main a w = (r, w') \<longrightarrow>
             fs w' (resolve w (arg_config a)) = fs w (resolve w (arg_config a))
           \<and> (\<not> isl r \<longrightarrow> filter is_prompt (stdout w') = filter is_prompt (stdout w)))"
proof (intro conjI impI allI)
  assume "platform_system w \<noteq> ''Windows'' \<and> fs w path = Some f
            \<and> (st_mode f AND S_IRWXO \<noteq> 0 \<or> st_mode f AND S_IRWXG \<noteq> 0)"
  with assms show "fix_permissions path w =
            (Inl EOFError,
             w\<lparr>stdout := stdout w @ [FixPermissionsHeader, TooPermissive, AskFixPermissions]\<rparr>)"
    by (simp add: fix_permissions_eq[of w path f])
next
  assume "map_of g ''bind'' = Some bind
            \<and> bind \<in> set [JStr ''0.0.0.0'', JStr ''all'', JStr ''::'']"
  with assms show "fix_bind (JDict g) w =
            (Inl EOFError, w\<lparr>stdout := stdout w @ [GatewayExposed bind, AskChangeBind]\<rparr>)"
    by (auto simp: fix_bind_eq Let_def)
next
  assume "map_of g ''auth'' = Some (JDict au) \<and> map_of au ''mode'' = Some (JStr ''none'')"
  with assms show "fix_auth (JDict g) ch w =
            (Inl EOFError, w\<lparr>stdout := stdout w @ [AuthIsDisabled, AskEnableToken]\<rparr>)"
    by (simp add: fix_auth_eq[of g au] Let_def)
next
  assume "(case map_of g ''auth'' of None \<Rightarrow> JDict [] | Some v \<Rightarrow> v) = JDict au
            \<and> (case map_of au ''mode'' of None \<Rightarrow> JStr ''token'' | Some v \<Rightarrow> v) = JStr ''token''
            \<and> py_len (case map_of au ''token'' of None \<Rightarrow> JStr [] | Some v \<Rightarrow> v) = Inr n
            \<and> n < 16"
  with assms show "fix_auth (JDict g) ch w =
            (Inl EOFError, w\<lparr>stdout := stdout w @ [TokenIsWeak, AskRotateToken]\<rparr>)"
    by (simp add: fix_auth_eq[of g au] Let_def)
next
  assume "truthy (case map_of s ''enabled'' of None \<Rightarrow> JBool False | Some v \<Rightarrow> v)
            \<and> map_of s ''dmPolicy'' = Some (JStr ''open'')"
  with assms show "fix_channel name (JDict s) w =
            (Inl EOFError, w\<lparr>stdout := stdout w @ [DmPolicyOpen name, AskChangeDm name]\<rparr>)"
    by (simp add: fix_channel_eq Let_def)
next
  fix config r w'
  assume "fix_gateway config w = (r, w') \<and> \<not> isl r"
  with fix_gateway_eof[OF assms, of config r w']
  show "filter is_prompt (stdout w') = filter is_prompt (stdout w)"
    by simp
next
  fix config r w'
  assume "fix_channels config w = (r, w') \<and> \<not> isl r"
  with fix_channels_eof[OF assms, of config r w']
  show "filter is_prompt (stdout w') = filter is_prompt (stdout w)"
    by simp
next
  fix a r w'
  assume "main a w = (r, w')"
  then show "fs w' (resolve w (arg_config a)) = fs w (resolve w (arg_config a))"
    using main_eof[OF assms] by blast
next
  fix a r w'
  assume "main a w = (r, w')" and "\<not> isl r"
  then show "filter is_prompt (stdout w') = filter is_prompt (stdout w)"
    using main_eof[OF assms] by blast
qed

theorem eof_at_prompt_raises_witness:
  "stdin (demo_world [''/etc/openclaw.json'' \<mapsto> \<lparr>content = ''(the document)'', st_mode = 33188\<rparr>]
            [] ''(the document)'' JNull) = []
   \<and> fst (fix_permissions ''/etc/openclaw.json''
        (demo_world [''/etc/openclaw.json'' \<mapsto> \<lparr>content = ''(the document)'', st_mode = 33188\<rparr>]
            [] ''(the document)'' JNull)) = Inl EOFError
   \<and> fst (fix_bind (JDict [(''bind'', JStr ''0.0.0.0''), (''auth'', JDict [(''mode'', JStr ''none'')])])
        (demo_world [''/etc/openclaw.json'' \<mapsto> \<lparr>content = ''(the document)'', st_mode = 33188\<rparr>]
            [] ''(the document)'' JNull)) = Inl EOFError
   \<and> fst (fix_auth (JDict [(''bind'', JStr ''0.0.0.0''), (''auth'', JDict [(''mode'', JStr ''none'')])])
        False
        (demo_world [''/etc/openclaw.json'' \<mapsto> \<lparr>content = ''(the document)'', st_mode = 33188\<rparr>]
            [] ''(the document)'' JNull)) = Inl EOFError
   \<and> fst (fix_auth (JDict [(''auth'', JDict [(''mode'', JStr ''token''), (''token'', JStr ''abc'')])])
        False
        (demo_world [''/etc/openclaw.json'' \<mapsto> \<lparr>content = ''(the document)'', st_mode = 33188\<rparr>]
            [] ''(the document)'' JNull)) = Inl EOFError
   \<and> fst (fix_channel ''telegram'' (JDict [(''enabled'', JBool True), (''dmPolicy'', JStr ''open'')])
        (demo_world [''/etc/openclaw.json'' \<mapsto> \<lparr>content = ''(the document)'', st_mode = 33188\<rparr>]
            [] ''(the document)'' JNull)) = Inl EOFError
   \<and> fst (main \<lparr>arg_config = ''/etc/openclaw.json'', arg_dry_run = True\<rparr>
        (demo_world [''/etc/openclaw.json'' \<mapsto> \<lparr>content = ''(the document)'', st_mode = 33152\<rparr>]
            [] ''(the document)'' (JDict [(''gateway'', JDict [(''bind'', JStr ''loopback''),
               (''auth'', JDict [(''mode'', JStr ''token''), (''token'', JStr ''0123456789abcdef'')])])])))
       = Inr ()
   \<and> filter is_prompt (stdout (snd (main \<lparr>arg_config = ''/etc/openclaw.json'', arg_dry_run = True\<rparr>
        (demo_world [''/etc/openclaw.json'' \<mapsto> \<lparr>content = ''(the document)'', st_mode = 33152\<rparr>]
            [] ''(the document)'' (JDict [(''gateway'', JDict [(''bind'', JStr ''loopback''),
               (''auth'', JDict [(''mode'', JStr ''token''), (''token'', JStr ''0123456789abcdef'')])])])))))
       = []"
proof -
  let ?p = "''/etc/openclaw.json''"
  let ?f = "\<lparr>content = ''(the document)'', st_mode = 33188\<rparr>"
  let ?w = "demo_world [?p \<mapsto> ?f] [] ''(the document)'' JNull"
  let ?g = "[(''bind'', JStr ''0.0.0.0''), (''auth'', JDict [(''mode'', JStr ''none'')])]"
  let ?au = "[(''mode'', JStr ''none'')]"
  let ?g2 = "[(''auth'', JDict [(''mode'', JStr ''token''), (''token'', JStr ''abc'')])]"
  let ?au2 = "[(''mode'', JStr ''token''), (''token'', JStr ''abc'')]"
  let ?s = "[(''enabled'', JBool True), (''dmPolicy'', JStr ''open'')]"
  let ?a = "\<lparr>arg_config = ?p, arg_dry_run = True\<rparr>"
  let ?w3 = "demo_world [?p \<mapsto> \<lparr>content = ''(the document)'', st_mode = 33152\<rparr>]
            [] ''(the document)'' (JDict [(''gateway'', JDict [(''bind'', JStr ''loopback''),
               (''auth'', JDict [(''mode'', JStr ''token''), (''token'', JStr ''0123456789abcdef'')])])])"
  have eof: "stdin ?w = []" and eof3: "stdin ?w3 = []" and out3: "stdout ?w3 = []"
    by (simp_all add: demo_world_def)
  note t = eof_at_prompt_raises[OF eof, of ?p ?f ?g "JStr ''0.0.0.0''" ?au False 0 ?s "''telegram''"]
  note t2 = eof_at_prompt_raises[OF eof, of ?p ?f ?g2 "JStr ''0.0.0.0''" ?au2 False 3 ?s "''telegram''"]
  note t3 = eof_at_prompt_raises[OF eof3, of ?p ?f ?g "JStr ''0.0.0.0''" ?au False 0 ?s "''telegram''"]
  have h1: "platform_system ?w \<noteq> ''Windows'' \<and> fs ?w ?p = Some ?f
            \<and> (st_mode ?f AND S_IRWXO \<noteq> 0 \<or> st_mode ?f AND S_IRWXG \<noteq> 0)"
    by code_simp
  have h2: "map_of ?g ''bind'' = Some (JStr ''0.0.0.0'')
            \<and> JStr ''0.0.0.0'' \<in> set [JStr ''0.0.0.0'', JStr ''all'', JStr ''::'']"
    by simp
  have h3: "map_of ?g ''auth'' = Some (JDict ?au) \<and> map_of ?au ''mode'' = Some (JStr ''none'')"
    by simp
  have h4: "(case map_of ?g2 ''auth'' of None \<Rightarrow> JDict [] | Some v \<Rightarrow> v) = JDict ?au2
            \<and> (case map_of ?au2 ''mode'' of None \<Rightarrow> JStr ''token'' | Some v \<Rightarrow> v) = JStr ''token''
            \<and> py_len (case map_of ?au2 ''token'' of None \<Rightarrow> JStr [] | Some v \<Rightarrow> v) = Inr 3
            \<and> (3 :: nat) < 16"
    by simp
  have h5: "truthy (case map_of ?s ''enabled'' of None \<Rightarrow> JBool False | Some v \<Rightarrow> v)
            \<and> map_of ?s ''dmPolicy'' = Some (JStr ''open'')"
    by simp
  have ret: "fst (main ?a ?w3) = Inr ()"
    by code_simp
  then have run: "main ?a ?w3 = (Inr (), snd (main ?a ?w3))"
    by (simp add: prod_eq_iff)
  note c1 = t[THEN conjunct1, THEN mp, OF h1]
  note c2 = t[THEN conjunct2, THEN conjunct1, THEN mp, OF h2]
  note c3 = t[THEN conjunct2, THEN conjunct2, THEN conjunct1, THEN mp, OF h3]
  note c4 = t2[THEN conjunct2, THEN conjunct2, THEN conjunct2, THEN conjunct1, THEN mp, OF h4]
  note c5 = t[THEN conjunct2, THEN conjunct2, THEN conjunct2, THEN conjunct2, THEN conjunct1,
      THEN mp, OF h5]
  note c8 = t3[THEN conjunct2, THEN conjunct2, THEN conjunct2, THEN conjunct2, THEN conjunct2,
      THEN conjunct2, THEN conjunct2, THEN spec, THEN spec, THEN spec, THEN mp, OF run,
      THEN conjunct2]
  have c8': "filter is_prompt (stdout (snd (main ?a ?w3))) = []"
    using c8 out3 by simp
  from eof c1 c2 c3 c4 c5 ret c8' show ?thesis
    by simp
qed

text \<open>
  The claim as stated fails: with standard input at end of file, the run on a gateway bound
  to \<^verbatim>\<open>0.0.0.0\<close> ends with \<^verbatim>\<open>EOFError\<close> at the first prompt and does not go on to the
  channels.
\<close>

theorem eof_crashes_counterexample:
  "fst (main \<lparr>arg_config = ''/etc/openclaw.json'', arg_dry_run = False\<rparr>
        (demo_world [''/etc/openclaw.json'' \<mapsto> \<lparr>content = ''(the document)'', st_mode = 33152\<rparr>]
            [] ''(the document)'' (JDict [(''gateway'', JDict [(''bind'', JStr ''0.0.0.0'')])])))
     = Inl EOFError
   \<and> stdout (snd (main \<lparr>arg_config = ''/etc/openclaw.json'', arg_dry_run = False\<rparr>
        (demo_world [''/etc/openclaw.json'' \<mapsto> \<lparr>content = ''(the document)'', st_mode = 33152\<rparr>]
            [] ''(the document)'' (JDict [(''gateway'', JDict [(''bind'', JStr ''0.0.0.0'')])]))))
     = [Target ''/etc/openclaw.json'', BackupCreated ''/etc/openclaw.json.bak.security'',
        FixPermissionsHeader, PermissionsAlreadySecure, FixGatewayHeader,
        GatewayExposed (JStr ''0.0.0.0''), AskChangeBind]"
  by code_simp

section \<open>Consent\<close>



end
